theory Spec2Isabelle
  imports Complex_Main "HOL-Library.Char_ord" "HOL-Library.List_Lexorder"
begin

section \<open>Python values, dictionaries and exceptions\<close>

text \<open>
  The student profile is a Python dictionary whose values are what the document
  database and the profile form put there: \<open>None\<close>, integers, floats, strings,
  lists and nested dictionaries (as lists of key-value pairs). A Python float is idealised as a rational number: the rounding of IEEE
  arithmetic is outside this development, and so are \<open>inf\<close> and \<open>nan\<close> as
  dictionary values.

  A raised exception is a value \<open>Inl e\<close> of the result type; only exceptions
  derived from Python's \<open>Exception\<close> are modelled (the ones an
  \<open>except Exception\<close> clause catches).
\<close>

datatype error =
    ValueError
  | TypeError
  | KeyError
  | ZeroDivisionError
  | AttributeError
  | JSONDecodeError
  | ServiceError string

datatype pyval =
    PNone
  | PInt int
  | PFloat rat
  | PStr string
  | PList "pyval list"
  | PDict "(string \<times> pyval) list"

type_synonym pydict = "string \<rightharpoonup> pyval"

text \<open>\<open>d.get(k, dflt)\<close>.\<close>

definition py_get :: "pydict \<Rightarrow> string \<Rightarrow> pyval \<Rightarrow> pyval" where
  "py_get d k dflt = (case d k of None \<Rightarrow> dflt | Some v \<Rightarrow> v)"

text \<open>
  The value of a Python number. Arithmetic and ordering against a number raise
  \<open>TypeError\<close> for \<open>None\<close>; for a string or a list, \<open>s * 5\<close> is a repetition,
  and the comparison inside \<open>min(20, s * 5)\<close> then raises \<open>TypeError\<close>; so in
  every numeric position of this program a value that is not a number ends in
  \<open>TypeError\<close>.
\<close>

fun as_num :: "pyval \<Rightarrow> error + rat" where
  "as_num (PInt i) = Inr (of_int i)"
| "as_num (PFloat r) = Inr r"
| "as_num PNone = Inl TypeError"
| "as_num (PStr s) = Inl TypeError"
| "as_num (PList xs) = Inl TypeError"
| "as_num (PDict kvs) = Inl TypeError"

text \<open>\<open>len(v)\<close>: defined on lists, strings and dictionaries, \<open>TypeError\<close> otherwise.\<close>

fun py_len :: "pyval \<Rightarrow> error + nat" where
  "py_len (PList xs) = Inr (length xs)"
| "py_len (PStr s) = Inr (length s)"
| "py_len (PDict kvs) = Inr (length kvs)"
| "py_len PNone = Inl TypeError"
| "py_len (PInt i) = Inl TypeError"
| "py_len (PFloat r) = Inl TypeError"

text \<open>\<open>int(x)\<close> on a number truncates towards zero.\<close>

definition py_int :: "rat \<Rightarrow> int" where
  "py_int x = (if 0 \<le> x then \<lfloor>x\<rfloor> else \<lceil>x\<rceil>)"

text \<open>Sequencing of computations that may raise.\<close>

definition and_then :: "error + 'a \<Rightarrow> ('a \<Rightarrow> error + 'b) \<Rightarrow> error + 'b" where
  "and_then r f = (case r of Inl e \<Rightarrow> Inl e | Inr x \<Rightarrow> f x)"


section \<open>The dashboard score (powerbi\_analytics.py)\<close>

text \<open>
  \<open>{'1st Year': 5, '2nd Year': 8, '3rd Year': 12, '4th Year': 15}.get(year, 5)\<close>:
  a list or a dictionary is unhashable and raises \<open>TypeError\<close>; every other value
  that is not one of the four keys gives the default.
\<close>

fun year_bonus :: "pyval \<Rightarrow> error + rat" where
  "year_bonus (PStr s) =
     Inr (if s = ''1st Year'' then 5
          else if s = ''2nd Year'' then 8
          else if s = ''3rd Year'' then 12
          else if s = ''4th Year'' then 15
          else 5)"
| "year_bonus (PList xs) = Inl TypeError"
| "year_bonus (PDict kvs) = Inl TypeError"
| "year_bonus PNone = Inr 5"
| "year_bonus (PInt i) = Inr 5"
| "year_bonus (PFloat r) = Inr 5"

text \<open>
  \<open>PowerBIAnalytics.calculate_employability_score\<close>. The running \<open>score\<close> is the
  sum of the six capped contributions, in the order the source adds them.
\<close>

definition calculate_employability_score :: "pydict \<Rightarrow> error + int" where
  "calculate_employability_score student_data =
     (if student_data = Map.empty then Inr 0
      else
        and_then (as_num (py_get student_data ''cgpa'' (PInt 0))) (\<lambda>cgpa.
        and_then (as_num (py_get student_data ''internships'' (PInt 0))) (\<lambda>internships.
        and_then (as_num (py_get student_data ''projects'' (PInt 0))) (\<lambda>projects.
        and_then (py_len (py_get student_data ''certifications'' (PList []))) (\<lambda>ncert.
        and_then (as_num (py_get student_data ''communication'' (PInt 0))) (\<lambda>communication.
        and_then (year_bonus (py_get student_data ''year'' (PStr ''1st Year''))) (\<lambda>bonus.
          Inr (min 100 (py_int
            (0 + min 25 ((cgpa / 10) * 25)
               + min 20 (internships * 5)
               + min 15 (projects * 3)
               + min 15 (of_nat ncert * 3)
               + min 10 communication
               + min 15 bonus))))))))))"

text \<open>\<open>PowerBIAnalytics.calculate_skill_gap\<close>; \<open>quiz_results\<close> is a list of dictionaries.\<close>

definition calculate_skill_gap :: "pydict \<Rightarrow> pydict list \<Rightarrow> error + int" where
  "calculate_skill_gap student_data quiz_results =
     (let target_score = 80 in
      and_then (calculate_employability_score student_data) (\<lambda>current_score.
        Inr (max 0 (target_score - current_score))))"

text \<open>
  The profiles the dashboard is fed: what the profile form saves. Each field may be
  missing; when present, the four numeric fields are numbers that are not negative
  (the form's sliders and number inputs start at 0 or 1), the certifications are a
  list and the year is neither a list nor a dictionary.
\<close>

definition nonneg_num :: "pydict \<Rightarrow> string \<Rightarrow> bool" where
  "nonneg_num d k =
     (case d k of None \<Rightarrow> True
      | Some v \<Rightarrow> (case as_num v of Inl e \<Rightarrow> False | Inr x \<Rightarrow> 0 \<le> x))"

definition list_field :: "pydict \<Rightarrow> string \<Rightarrow> bool" where
  "list_field d k =
     (case d k of None \<Rightarrow> True | Some (PList xs) \<Rightarrow> True | Some _ \<Rightarrow> False)"

definition hashable_field :: "pydict \<Rightarrow> string \<Rightarrow> bool" where
  "hashable_field d k =
     (case d k of Some (PList xs) \<Rightarrow> False | Some (PDict kvs) \<Rightarrow> False | _ \<Rightarrow> True)"

definition form_profile :: "pydict \<Rightarrow> bool" where
  "form_profile d \<longleftrightarrow>
     nonneg_num d ''cgpa'' \<and> nonneg_num d ''internships'' \<and> nonneg_num d ''projects''
     \<and> nonneg_num d ''communication'' \<and> list_field d ''certifications''
     \<and> hashable_field d ''year''"

text \<open>
  The score as the description words it: the floor of the sum of the capped factor
  contributions, capped at 100. The arguments are the field values with the defaults
  already applied.
\<close>

definition described_bonus :: "pyval \<Rightarrow> rat" where
  "described_bonus y =
     (if y = PStr ''1st Year'' then 5 else if y = PStr ''2nd Year'' then 8
      else if y = PStr ''3rd Year'' then 12 else if y = PStr ''4th Year'' then 15 else 5)"

definition described_score :: "rat \<Rightarrow> rat \<Rightarrow> rat \<Rightarrow> nat \<Rightarrow> rat \<Rightarrow> pyval \<Rightarrow> int" where
  "described_score cgpa internships projects ncert communication y =
     min 100 \<lfloor>min 25 (cgpa / 10 * 25) + min 20 (internships * 5) + min 15 (projects * 3)
              + min 15 (3 * of_nat ncert) + min 10 communication + described_bonus y\<rfloor>"

text \<open>Reading a field of a profile with its default, as a number or a length.\<close>

definition num_field :: "pydict \<Rightarrow> string \<Rightarrow> rat" where
  "num_field d k = (case as_num (py_get d k (PInt 0)) of Inl e \<Rightarrow> 0 | Inr x \<Rightarrow> x)"

definition cert_count :: "pydict \<Rightarrow> nat" where
  "cert_count d = (case py_len (py_get d ''certifications'' (PList [])) of Inl e \<Rightarrow> 0 | Inr n \<Rightarrow> n)"

section \<open>The employability predictor (ml\_model.py)\<close>

subsection \<open>The predictor object\<close>

text \<open>
  The estimators of the learning library are external: a scaler or a regression
  forest is either the unfitted object its constructor returns, or fitted, and then
  it carries the parameters \<open>fit\<close> computed. The year encoder of
  \<open>label_encoders\<close> is stored fitted (\<open>preprocess_data\<close> fits it in the statement
  after the one that stores it), so it is represented by its \<open>classes_\<close>.
\<close>

datatype 'a estimator = Unfitted | Fitted 'a

record ('s, 'm, 'e) predictor =
  model :: "'m estimator option"
  scaler :: "'s estimator"
  label_encoders :: "string \<rightharpoonup> string list"
  explainer :: "'e option"

text \<open>\<open>EmployabilityPredictor.__init__\<close>.\<close>

definition init_predictor :: "('s, 'm, 'e) predictor" where
  "init_predictor =
     \<lparr>model = None, scaler = Unfitted, label_encoders = Map.empty, explainer = None\<rparr>"

definition feature_names :: "string list" where
  "feature_names =
     [''cgpa'', ''internships'', ''projects'', ''certification_count'',
      ''communication_skills'', ''year_encoded'', ''extracurricular_score'']"

subsection \<open>Feature extraction\<close>

text \<open>
  \<open>float(v)\<close>: a number converts, \<open>None\<close> and a list raise \<open>TypeError\<close>, and a
  string is parsed; \<open>float_of_str\<close> stands for Python's parser of float literals
  (\<open>None\<close> where it raises \<open>ValueError\<close>), which is not part of this repository.
\<close>

fun py_float :: "(string \<Rightarrow> rat option) \<Rightarrow> pyval \<Rightarrow> error + rat" where
  "py_float float_of_str (PInt i) = Inr (of_int i)"
| "py_float float_of_str (PFloat r) = Inr r"
| "py_float float_of_str (PStr s) =
     (case float_of_str s of None \<Rightarrow> Inl ValueError | Some r \<Rightarrow> Inr r)"
| "py_float float_of_str PNone = Inl TypeError"
| "py_float float_of_str (PList xs) = Inl TypeError"
| "py_float float_of_str (PDict kvs) = Inl TypeError"

text \<open>
  \<open>certification_count + internships\<close> with an integer on the left: a number is
  added, anything else raises \<open>TypeError\<close>.
\<close>

fun int_plus :: "int \<Rightarrow> pyval \<Rightarrow> error + pyval" where
  "int_plus n (PInt i) = Inr (PInt (n + i))"
| "int_plus n (PFloat r) = Inr (PFloat (of_int n + r))"
| "int_plus n PNone = Inl TypeError"
| "int_plus n (PStr s) = Inl TypeError"
| "int_plus n (PList xs) = Inl TypeError"
| "int_plus n (PDict kvs) = Inl TypeError"

text \<open>
  \<open>min(10, v)\<close> for a number \<open>v\<close>: Python returns the second argument only when it
  is smaller than the first.
\<close>

fun min_ten :: "pyval \<Rightarrow> error + pyval" where
  "min_ten (PInt i) = Inr (if i < 10 then PInt i else PInt 10)"
| "min_ten (PFloat r) = Inr (if r < 10 then PFloat r else PInt 10)"
| "min_ten PNone = Inl TypeError"
| "min_ten (PStr s) = Inl TypeError"
| "min_ten (PList xs) = Inl TypeError"
| "min_ten (PDict kvs) = Inl TypeError"

text \<open>
  The position of a class in \<open>classes_\<close>, which is what
  \<open>LabelEncoder.transform([year])[0]\<close> returns for a known class.
\<close>

fun index_of :: "string \<Rightarrow> string list \<Rightarrow> int" where
  "index_of y [] = 0"
| "index_of y (c # cs) = (if y = c then 0 else 1 + index_of y cs)"

text \<open>
  Lines 143 to 146: \<open>year in classes_\<close> compares the array of class names with the
  value elementwise, so a value that is not a string equals none of them. (A list is
  broadcast against the array first; the profiles store the year as a string, and the
  theorems below are about years that are not lists.)
\<close>

fun encode_year :: "string list \<Rightarrow> pyval \<Rightarrow> int" where
  "encode_year classes (PStr y) = (if y \<in> set classes then index_of y classes else 0)"
| "encode_year classes PNone = 0"
| "encode_year classes (PInt i) = 0"
| "encode_year classes (PFloat r) = 0"
| "encode_year classes (PList xs) = 0"
| "encode_year classes (PDict kvs) = 0"

text \<open>\<open>EmployabilityPredictor.extract_features_from_student\<close>.\<close>

definition extract_features_from_student ::
  "(string \<Rightarrow> rat option) \<Rightarrow> ('s, 'm, 'e) predictor \<Rightarrow> pydict \<Rightarrow> error + pyval list" where
  "extract_features_from_student float_of_str self student_data =
     and_then (py_float float_of_str (py_get student_data ''cgpa'' (PFloat (13 / 2)))) (\<lambda>cgpa.
     (let internships = py_get student_data ''internships'' (PInt 0);
          projects = py_get student_data ''projects'' (PInt 0);
          certifications = py_get student_data ''certifications'' (PList [])
      in
     and_then (py_len certifications) (\<lambda>certification_count.
     (let communication_skills = py_get student_data ''communication'' (PInt 6);
          year = py_get student_data ''year'' (PStr ''1st Year'')
      in
     (case label_encoders self ''year'' of
        None \<Rightarrow> Inl KeyError
      | Some classes \<Rightarrow>
         (let year_encoded = encode_year classes year in
          and_then (int_plus (int certification_count) internships) (\<lambda>total.
          and_then (min_ten total) (\<lambda>extracurricular_score.
            Inr [PFloat cgpa, internships, projects, PInt (int certification_count),
                 communication_skills, PInt year_encoded, extracurricular_score]))))))))"

subsection \<open>Prediction\<close>

text \<open>
  What the library computes, as far as this program uses it. A fitted scaler maps a
  row of numbers to the scaled row; a fitted forest maps a scaled row to its raw
  prediction. Fitting, splitting, building the explainer and the evaluation metrics
  may raise.
\<close>

datatype fl = Fin rat | PosInf | NegInf | NaN

record ('s, 'm, 'e) sklearn =
  scaler_fit :: "rat list list \<Rightarrow> error + 's"
  scaler_row :: "'s \<Rightarrow> rat list \<Rightarrow> rat list"
  train_test_split ::
    "rat list list \<Rightarrow> fl list \<Rightarrow> error + ((rat list list \<times> fl list) \<times> (rat list list \<times> fl list))"
  forest_fit :: "rat list list \<Rightarrow> fl list \<Rightarrow> error + 'm"
  forest_row :: "'m \<Rightarrow> rat list \<Rightarrow> rat"
  tree_explainer :: "'m \<Rightarrow> error + 'e"
  metrics :: "fl list \<Rightarrow> rat list \<Rightarrow> error + (rat \<times> rat)"

text \<open>
  The library validates its input as an array of numbers: a feature that is not a
  number makes the call raise (which exception is the library's business; the
  theorems below are about rows of numbers).
\<close>

fun numeric_row :: "pyval list \<Rightarrow> error + rat list" where
  "numeric_row [] = Inr []"
| "numeric_row (v # vs) =
     and_then (as_num v) (\<lambda>x. and_then (numeric_row vs) (\<lambda>xs. Inr (x # xs)))"

text \<open>
  \<open>self.scaler.transform([features])\<close> and \<open>self.model.predict(features_scaled)[0]\<close>
  for a single row. An estimator that is not fitted raises the library's
  \<open>NotFittedError\<close>, which derives from \<open>ValueError\<close>.
\<close>

definition scaler_transform ::
  "('s, 'm, 'e) sklearn \<Rightarrow> 's estimator \<Rightarrow> pyval list \<Rightarrow> error + rat list" where
  "scaler_transform sk sc features =
     (case sc of
        Unfitted \<Rightarrow> Inl ValueError
      | Fitted s \<Rightarrow> and_then (numeric_row features) (\<lambda>xs. Inr (scaler_row sk s xs)))"

definition model_predict ::
  "('s, 'm, 'e) sklearn \<Rightarrow> 'm estimator \<Rightarrow> rat list \<Rightarrow> error + rat" where
  "model_predict sk m xs =
     (case m of Unfitted \<Rightarrow> Inl ValueError | Fitted f \<Rightarrow> Inr (forest_row sk f xs))"

text \<open>\<open>EmployabilityPredictor.predict\<close>.\<close>

definition predict ::
  "('s, 'm, 'e) sklearn \<Rightarrow> (string \<Rightarrow> rat option) \<Rightarrow> ('s, 'm, 'e) predictor \<Rightarrow> pydict
     \<Rightarrow> error + rat" where
  "predict sk float_of_str self student_data =
     (case model self of
        None \<Rightarrow> Inl ValueError
      | Some m \<Rightarrow>
          and_then (extract_features_from_student float_of_str self student_data) (\<lambda>features.
          and_then (scaler_transform sk (scaler self) features) (\<lambda>features_scaled.
          and_then (model_predict sk m features_scaled) (\<lambda>prediction.
            Inr (max 0 (min 100 prediction))))))"

text \<open>
  The profiles whose fields have the types \<open>extract_features_from_student\<close> computes
  with: \<open>cgpa\<close> and \<open>internships\<close>, when present, are numbers, \<open>certifications\<close> a
  list, and \<open>year\<close> is neither a list nor a dictionary. \<open>projects\<close> and \<open>communication\<close> are passed
  through as they are; \<open>predict\<close> needs them to be numbers as well.
\<close>

definition num_or_missing :: "pydict \<Rightarrow> string \<Rightarrow> bool" where
  "num_or_missing d k =
     (case d k of None \<Rightarrow> True
      | Some v \<Rightarrow> (case as_num v of Inl e \<Rightarrow> False | Inr x \<Rightarrow> True))"

definition typed_profile :: "pydict \<Rightarrow> bool" where
  "typed_profile d \<longleftrightarrow>
     num_or_missing d ''cgpa'' \<and> num_or_missing d ''internships''
     \<and> list_field d ''certifications'' \<and> hashable_field d ''year''"

definition numeric_profile :: "pydict \<Rightarrow> bool" where
  "numeric_profile d \<longleftrightarrow>
     typed_profile d \<and> num_or_missing d ''projects'' \<and> num_or_missing d ''communication''"

text \<open>
  The states \<open>train_model\<close> leaves when it returns: the forest and the scaler are
  fitted and the year encoder is stored.
\<close>

definition trained :: "('s, 'm, 'e) predictor \<Rightarrow> bool" where
  "trained self \<longleftrightarrow>
     (case model self of Some (Fitted m) \<Rightarrow> True | _ \<Rightarrow> False)
     \<and> (case scaler self of Fitted s \<Rightarrow> True | Unfitted \<Rightarrow> False)
     \<and> (case label_encoders self ''year'' of Some cs \<Rightarrow> True | None \<Rightarrow> False)"

text \<open>
  A stand-in for the library, to run the definitions on concrete inputs: the scaler
  leaves a row as it is, the forest predicts ten times the sum of the row, the split
  keeps every row for training, and nothing raises.
\<close>

definition demo_sklearn :: "(unit, unit, unit) sklearn" where
  "demo_sklearn =
     \<lparr>scaler_fit = (\<lambda>X. Inr ()),
      scaler_row = (\<lambda>s x. x),
      train_test_split = (\<lambda>X y. Inr ((X, y), ([], []))),
      forest_fit = (\<lambda>X y. Inr ()),
      forest_row = (\<lambda>m x. 10 * sum_list x),
      tree_explainer = (\<lambda>m. Inr ()),
      metrics = (\<lambda>y p. Inr (0, 1))\<rparr>"

definition demo_predictor :: "(unit, unit, unit) predictor" where
  "demo_predictor =
     \<lparr>model = Some (Fitted ()), scaler = Fitted (),
      label_encoders = Map.empty(''year'' \<mapsto> [''1st Year'', ''2nd Year'', ''3rd Year'', ''4th Year'']),
      explainer = Some ()\<rparr>"

subsection \<open>Synthetic data\<close>

text \<open>
  The random number generator is the global generator of the numeric library; its
  state is threaded through the calls. \<open>random_seed\<close> is \<open>np.random.seed\<close>, the other
  four fields draw one sample each and advance the state. What the samplers compute is
  the library's business; the theorems hold for every sampler.
\<close>

record 'g numpy =
  random_seed :: "nat \<Rightarrow> 'g"
  random_normal :: "rat \<Rightarrow> rat \<Rightarrow> 'g \<Rightarrow> rat \<times> 'g"
  random_poisson :: "rat \<Rightarrow> 'g \<Rightarrow> nat \<times> 'g"
  random_randint :: "int \<Rightarrow> int \<Rightarrow> 'g \<Rightarrow> int \<times> 'g"
  random_choice :: "string list \<Rightarrow> 'g \<Rightarrow> string \<times> 'g"

text \<open>An array of \<open>n\<close> samples, as \<open>np.random.normal(mu, sigma, n)\<close> returns it.\<close>

fun draws :: "('g \<Rightarrow> 'a \<times> 'g) \<Rightarrow> nat \<Rightarrow> 'g \<Rightarrow> 'a list \<times> 'g" where
  "draws f 0 g = ([], g)"
| "draws f (Suc n) g =
     (case f g of (x, g1) \<Rightarrow> (case draws f n g1 of (xs, g2) \<Rightarrow> (x # xs, g2)))"

text \<open>\<open>a.clip(lo, hi)\<close> on one element.\<close>

definition clip :: "'a::linorder \<Rightarrow> 'a \<Rightarrow> 'a \<Rightarrow> 'a" where
  "clip lo hi x = min hi (max lo x)"

text \<open>One row of the data frame.\<close>

record row =
  cgpa :: rat
  internships :: int
  projects :: int
  certification_count :: int
  communication_skills :: int
  year :: string
  extracurricular_score :: int
  employability_score :: fl

text \<open>
  \<open>df['year'].map({'1st Year': 2, '2nd Year': 4, '3rd Year': 7, '4th Year': 10})\<close>
  on one element: a value that is not a key of the dictionary maps to \<open>NaN\<close>
  (\<open>None\<close> here), and a sum with \<open>NaN\<close> is \<open>NaN\<close>.
\<close>

definition year_points :: "string \<Rightarrow> rat option" where
  "year_points y =
     (if y = ''1st Year'' then Some 2 else if y = ''2nd Year'' then Some 4
      else if y = ''3rd Year'' then Some 7 else if y = ''4th Year'' then Some 10
      else None)"

text \<open>Lines 41 to 49: the weighted sum of one row.\<close>

definition weighted_sum :: "rat \<Rightarrow> int \<Rightarrow> int \<Rightarrow> int \<Rightarrow> int \<Rightarrow> string \<Rightarrow> int \<Rightarrow> rat option" where
  "weighted_sum c i p k m y x =
     (case year_points y of
        None \<Rightarrow> None
      | Some yp \<Rightarrow>
          Some (c * (5 / 2) + of_int i * 8 + of_int p * 3 + of_int k * 4 + of_int m * 3
                + yp + of_int x * 2))"

text \<open>
  \<open>Series.min()\<close> and \<open>Series.max()\<close> skip \<open>NaN\<close> and are \<open>NaN\<close> for a series with
  no number in it.
\<close>

definition series_min :: "rat option list \<Rightarrow> rat option" where
  "series_min xs = (case List.map_filter id xs of [] \<Rightarrow> None | y # ys \<Rightarrow> Some (fold min ys y))"

definition series_max :: "rat option list \<Rightarrow> rat option" where
  "series_max xs = (case List.map_filter id xs of [] \<Rightarrow> None | y # ys \<Rightarrow> Some (fold max ys y))"

text \<open>
  Float division of two numbers as the data frame does it: no exception, \<open>0 / 0\<close> is
  \<open>NaN\<close> and \<open>x / 0\<close> is an infinity. Then the product with a number, the sum with a
  number, and \<open>clip\<close>, which leaves \<open>NaN\<close> as it is.
\<close>

definition fl_div :: "rat \<Rightarrow> rat \<Rightarrow> fl" where
  "fl_div a b =
     (if b = 0 then (if a = 0 then NaN else if 0 < a then PosInf else NegInf)
      else Fin (a / b))"

fun fl_times :: "fl \<Rightarrow> rat \<Rightarrow> fl" where
  "fl_times (Fin x) c = Fin (x * c)"
| "fl_times PosInf c = (if 0 < c then PosInf else if c < 0 then NegInf else NaN)"
| "fl_times NegInf c = (if 0 < c then NegInf else if c < 0 then PosInf else NaN)"
| "fl_times NaN c = NaN"

fun fl_plus :: "fl \<Rightarrow> rat \<Rightarrow> fl" where
  "fl_plus (Fin x) c = Fin (x + c)"
| "fl_plus PosInf c = PosInf"
| "fl_plus NegInf c = NegInf"
| "fl_plus NaN c = NaN"

fun fl_clip :: "rat \<Rightarrow> rat \<Rightarrow> fl \<Rightarrow> fl" where
  "fl_clip lo hi (Fin x) = Fin (clip lo hi x)"
| "fl_clip lo hi PosInf = Fin hi"
| "fl_clip lo hi NegInf = Fin lo"
| "fl_clip lo hi NaN = NaN"

text \<open>Lines 52 to 55: the min-max normalisation of one element to the 0-100 scale.\<close>

definition normalize :: "rat option \<Rightarrow> rat option \<Rightarrow> rat option \<Rightarrow> fl" where
  "normalize mn mx v =
     (case v of
        None \<Rightarrow> NaN
      | Some x \<Rightarrow>
          (case mn of
             None \<Rightarrow> NaN
           | Some a \<Rightarrow> (case mx of None \<Rightarrow> NaN | Some b \<Rightarrow> fl_times (fl_div (x - a) (b - a)) 100)))"

text \<open>
  Lines 28 to 60, given the eight arrays of samples in the order they are drawn: the
  clipped columns, the weighted sum, its normalisation, the noise and the final clip.
\<close>

definition build_frame ::
  "nat \<Rightarrow> rat list \<Rightarrow> nat list \<Rightarrow> nat list \<Rightarrow> nat list \<Rightarrow> int list \<Rightarrow> string list \<Rightarrow> int list
     \<Rightarrow> rat list \<Rightarrow> row list" where
  "build_frame n s1 s2 s3 s4 s5 s6 s7 noise =
     (let cgpa_col = map (clip 5 10) s1;
          internships_col = map (\<lambda>v. clip 0 5 (int v)) s2;
          projects_col = map (\<lambda>v. clip 0 10 (int v)) s3;
          certification_col = map (\<lambda>v. clip 0 8 (int v)) s4;
          score = map (\<lambda>k. weighted_sum (cgpa_col ! k) (internships_col ! k) (projects_col ! k)
                               (certification_col ! k) (s5 ! k) (s6 ! k) (s7 ! k)) [0..<n];
          mn = series_min score;
          mx = series_max score;
          normalized = map (normalize mn mx) score;
          noisy = map (\<lambda>k. fl_plus (normalized ! k) (noise ! k)) [0..<n]
      in map (\<lambda>k. \<lparr>cgpa = cgpa_col ! k, internships = internships_col ! k,
                     projects = projects_col ! k, certification_count = certification_col ! k,
                     communication_skills = s5 ! k, year = s6 ! k,
                     extracurricular_score = s7 ! k,
                     employability_score = fl_clip 0 100 (noisy ! k)\<rparr>) [0..<n])"

text \<open>
  \<open>EmployabilityPredictor.generate_synthetic_data\<close>: the generator is reseeded, then
  the samples are drawn column by column. The result is the frame (or the exception
  the library raises for a negative size) and the state the generator is left in.
\<close>

definition generate_synthetic_data ::
  "'g numpy \<Rightarrow> int \<Rightarrow> 'g \<Rightarrow> (error + row list) \<times> 'g" where
  "generate_synthetic_data np n_samples g =
     (let g0 = random_seed np 42 in
      if n_samples < 0 then (Inl ValueError, g0)
      else
        (let n = nat n_samples in
         case draws (random_normal np (15 / 2) (6 / 5)) n g0 of (s1, g1) \<Rightarrow>
         case draws (random_poisson np (6 / 5)) n g1 of (s2, g2) \<Rightarrow>
         case draws (random_poisson np 3) n g2 of (s3, g3) \<Rightarrow>
         case draws (random_poisson np 2) n g3 of (s4, g4) \<Rightarrow>
         case draws (random_randint np 4 11) n g4 of (s5, g5) \<Rightarrow>
         case draws (random_choice np [''1st Year'', ''2nd Year'', ''3rd Year'', ''4th Year'']) n g5
           of (s6, g6) \<Rightarrow>
         case draws (random_randint np 0 11) n g6 of (s7, g7) \<Rightarrow>
         case draws (random_normal np 0 5) n g7 of (noise, g8) \<Rightarrow>
           (Inr (build_frame n s1 s2 s3 s4 s5 s6 s7 noise), g8)))"

subsection \<open>Training\<close>

text \<open>
  \<open>LabelEncoder.fit\<close>: the classes are the distinct values in increasing order
  (strings are compared character by character).
\<close>

definition label_fit :: "string list \<Rightarrow> string list" where
  "label_fit ys = sort (remdups ys)"

text \<open>
  What a training run does outside the predictor, in the order it happens. There is
  one event for each message shown on the page (\<open>st.info\<close>, \<open>st.success\<close>; the
  text without its pictograph) and one for each statement that calls into the
  generator, the data frame or the learning library: \<open>generate_synthetic_data\<close>, the
  encoder's \<open>fit_transform\<close>, the selection of the feature columns, the scaler's
  \<open>fit_transform\<close>, \<open>train_test_split\<close>, the forest's \<open>fit\<close>, \<open>TreeExplainer\<close>,
  and the evaluation on the test rows.
\<close>

datatype event =
    UiInfo string
  | UiSuccess
  | GenerateData int
  | EncodeYear
  | SelectFeatures
  | FitTransform
  | SplitData
  | TrainForest
  | CreateExplainer
  | EvaluateForest

record ('g, 's, 'm, 'e) session =
  trainee :: "('s, 'm, 'e) predictor"
  rng :: "'g"
  events :: "event list"

text \<open>
  A statement runs in a session and either raises or returns a value; the session it
  leaves is kept in both cases, as the attributes assigned before an exception stay
  assigned.
\<close>

type_synonym ('a, 'st) prog = "'st \<Rightarrow> (error + 'a) \<times> 'st"

definition seq :: "('a, 'st) prog \<Rightarrow> ('a \<Rightarrow> ('b, 'st) prog) \<Rightarrow> ('b, 'st) prog" where
  "seq p f s = (case p s of (Inl e, s') \<Rightarrow> (Inl e, s') | (Inr x, s') \<Rightarrow> f x s')"

definition emit :: "event \<Rightarrow> (unit, ('g, 's, 'm, 'e) session) prog" where
  "emit ev s = (Inr (), s\<lparr>events := events s @ [ev]\<rparr>)"

text \<open>Line 79: \<open>df = self.generate_synthetic_data(n_samples)\<close>.\<close>

definition generate_step ::
  "'g numpy \<Rightarrow> int \<Rightarrow> (row list, ('g, 's, 'm, 'e) session) prog" where
  "generate_step np n s =
     (case generate_synthetic_data np n (rng s) of
        (r, g) \<Rightarrow> (r, s\<lparr>rng := g, events := events s @ [GenerateData n]\<rparr>))"

text \<open>
  The feature row of a row of the frame whose year has been encoded with \<open>classes\<close>:
  its seven feature columns in the order of \<open>feature_names\<close>.
\<close>

definition feature_row :: "string list \<Rightarrow> row \<Rightarrow> rat list" where
  "feature_row classes r =
     [cgpa r, of_int (internships r), of_int (projects r), of_int (certification_count r),
      of_int (communication_skills r), of_int (index_of (year r) classes),
      of_int (extracurricular_score r)]"

text \<open>
  \<open>EmployabilityPredictor.preprocess_data\<close>, statement by statement. Lines 66 and 67:
  a new encoder is stored in \<open>label_encoders\<close> and fitted on the year column, and the
  codes \<open>fit_transform\<close> returns (the position of each year among the classes) become
  the column \<open>year_encoded\<close> of the copy of the frame. A row of the copy is the row of
  the frame with its code.
\<close>

definition encode_year_step ::
  "row list \<Rightarrow> ((row \<times> int) list, ('g, 's, 'm, 'e) session) prog" where
  "encode_year_step df s =
     (let classes = label_fit (map year df);
          df_processed = map (\<lambda>r. (r, index_of (year r) classes)) df
      in (Inr df_processed,
          s\<lparr>trainee := (trainee s)\<lparr>label_encoders := (label_encoders (trainee s))(''year'' \<mapsto> classes)\<rparr>,
            events := events s @ [EncodeYear]\<rparr>))"

text \<open>
  Lines 70 and 71: \<open>X = df_processed[self.feature_names]\<close>, the seven columns in the
  order of \<open>feature_names\<close>, and \<open>y = df_processed['employability_score']\<close>.
\<close>

definition select_features :: "row \<times> int \<Rightarrow> rat list" where
  "select_features pr =
     (case pr of (r, year_encoded) \<Rightarrow>
        [cgpa r, of_int (internships r), of_int (projects r), of_int (certification_count r),
         of_int (communication_skills r), of_int year_encoded, of_int (extracurricular_score r)])"

definition select_step ::
  "(row \<times> int) list \<Rightarrow> (rat list list \<times> fl list, ('g, 's, 'm, 'e) session) prog" where
  "select_step df_processed s =
     (Inr (map select_features df_processed, map (\<lambda>pr. employability_score (fst pr)) df_processed),
      s\<lparr>events := events s @ [SelectFeatures]\<rparr>)"

definition preprocess_data ::
  "row list \<Rightarrow> (rat list list \<times> fl list, ('g, 's, 'm, 'e) session) prog" where
  "preprocess_data df = seq (encode_year_step df) select_step"

text \<open>
  Line 85: \<open>X_scaled = self.scaler.fit_transform(X)\<close>, one call that fits the scaler
  on \<open>X\<close> and returns \<open>X\<close> scaled by it. Fitting starts from a reset scaler, so a
  scaler whose fit raises is left unfitted.
\<close>

definition fit_transform_step ::
  "('s, 'm, 'e) sklearn \<Rightarrow> rat list list \<Rightarrow> (rat list list, ('g, 's, 'm, 'e) session) prog" where
  "fit_transform_step sk X s =
     (case scaler_fit sk X of
        Inl e \<Rightarrow> (Inl e, s\<lparr>trainee := (trainee s)\<lparr>scaler := Unfitted\<rparr>, events := events s @ [FitTransform]\<rparr>)
      | Inr sc \<Rightarrow>
          (Inr (map (scaler_row sk sc) X),
           s\<lparr>trainee := (trainee s)\<lparr>scaler := Fitted sc\<rparr>,
             events := events s @ [FitTransform]\<rparr>))"

text \<open>Lines 88 to 94: \<open>self.model = RandomForestRegressor(...)\<close>, not fitted yet.\<close>

definition new_forest_step :: "(unit, ('g, 's, 'm, 'e) session) prog" where
  "new_forest_step s = (Inr (), s\<lparr>trainee := (trainee s)\<lparr>model := Some Unfitted\<rparr>\<rparr>)"

text \<open>Line 96: \<open>train_test_split(X_scaled, y, test_size=0.2, random_state=42)\<close>.\<close>

definition split_step ::
  "('s, 'm, 'e) sklearn \<Rightarrow> rat list list \<Rightarrow> fl list
     \<Rightarrow> ((rat list list \<times> fl list) \<times> (rat list list \<times> fl list), ('g, 's, 'm, 'e) session) prog" where
  "split_step sk X y s = (train_test_split sk X y, s\<lparr>events := events s @ [SplitData]\<rparr>)"

text \<open>Line 97: \<open>self.model.fit(X_train, y_train)\<close>.\<close>

definition fit_step ::
  "('s, 'm, 'e) sklearn \<Rightarrow> rat list list \<Rightarrow> fl list \<Rightarrow> ('m, ('g, 's, 'm, 'e) session) prog" where
  "fit_step sk X_train y_train s =
     (case forest_fit sk X_train y_train of
        Inl e \<Rightarrow> (Inl e, s\<lparr>events := events s @ [TrainForest]\<rparr>)
      | Inr m \<Rightarrow>
          (Inr m, s\<lparr>trainee := (trainee s)\<lparr>model := Some (Fitted m)\<rparr>, events := events s @ [TrainForest]\<rparr>))"

text \<open>Line 101: \<open>self.explainer = shap.TreeExplainer(self.model)\<close>.\<close>

definition explainer_step ::
  "('s, 'm, 'e) sklearn \<Rightarrow> 'm \<Rightarrow> (unit, ('g, 's, 'm, 'e) session) prog" where
  "explainer_step sk m s =
     (case tree_explainer sk m of
        Inl e \<Rightarrow> (Inl e, s\<lparr>events := events s @ [CreateExplainer]\<rparr>)
      | Inr ex \<Rightarrow>
          (Inr (), s\<lparr>trainee := (trainee s)\<lparr>explainer := Some ex\<rparr>, events := events s @ [CreateExplainer]\<rparr>))"

text \<open>Lines 104 to 106: the predictions on the test rows and the two metrics.\<close>

definition evaluate_step ::
  "('s, 'm, 'e) sklearn \<Rightarrow> 'm \<Rightarrow> rat list list \<Rightarrow> fl list
     \<Rightarrow> (rat \<times> rat, ('g, 's, 'm, 'e) session) prog" where
  "evaluate_step sk m X_test y_test s =
     (metrics sk y_test (map (forest_row sk m) X_test), s\<lparr>events := events s @ [EvaluateForest]\<rparr>)"

text \<open>
  \<open>EmployabilityPredictor.train_model\<close>. It returns the model, the scaler and the
  encoders of the predictor.
\<close>

definition train_model ::
  "('s, 'm, 'e) sklearn \<Rightarrow> 'g numpy \<Rightarrow> int
     \<Rightarrow> ('m estimator option \<times> 's estimator \<times> (string \<rightharpoonup> string list),
         ('g, 's, 'm, 'e) session) prog" where
  "train_model sk np n_samples =
     seq (emit (UiInfo ''Generating synthetic training data...'')) (\<lambda>_.
     seq (generate_step np n_samples) (\<lambda>df.
     seq (emit (UiInfo ''Preprocessing data...'')) (\<lambda>_.
     seq (preprocess_data df) (\<lambda>(X, y).
     seq (emit (UiInfo ''Scaling features...'')) (\<lambda>_.
     seq (fit_transform_step sk X) (\<lambda>X_scaled.
     seq (emit (UiInfo ''Training Random Forest model...'')) (\<lambda>_.
     seq new_forest_step (\<lambda>_.
     seq (split_step sk X_scaled y) (\<lambda>((X_train, y_train), (X_test, y_test)).
     seq (fit_step sk X_train y_train) (\<lambda>m.
     seq (emit (UiInfo ''Creating SHAP explainer...'')) (\<lambda>_.
     seq (explainer_step sk m) (\<lambda>_.
     seq (evaluate_step sk m X_test y_test) (\<lambda>(mae, r2).
     seq (emit UiSuccess) (\<lambda>_.
       (\<lambda>s. (Inr (model (trainee s), scaler (trainee s), label_encoders (trainee s)), s))))))))))))))))"

text \<open>The events of a training run that returns, in their order.\<close>

definition training_events :: "int \<Rightarrow> event list" where
  "training_events n =
     [UiInfo ''Generating synthetic training data...'', GenerateData n,
      UiInfo ''Preprocessing data...'', EncodeYear, SelectFeatures,
      UiInfo ''Scaling features...'', FitTransform,
      UiInfo ''Training Random Forest model...'', SplitData, TrainForest,
      UiInfo ''Creating SHAP explainer...'', CreateExplainer, EvaluateForest, UiSuccess]"

text \<open>
  The data \<open>train_model\<close> fits the forest on: the training part of the split of the
  scaled features of the generated frame (\<open>None\<close> when a step before the fit raises).
\<close>

definition training_set ::
  "('s, 'm, 'e) sklearn \<Rightarrow> 'g numpy \<Rightarrow> int \<Rightarrow> 'g \<Rightarrow> (rat list list \<times> fl list) option" where
  "training_set sk np n g =
     (case fst (generate_synthetic_data np n g) of
        Inl e \<Rightarrow> None
      | Inr df \<Rightarrow>
          (let classes = label_fit (map year df);
               X = map (feature_row classes) df;
               y = map employability_score df
           in case scaler_fit sk X of
                Inl e \<Rightarrow> None
              | Inr sc \<Rightarrow>
                  (case train_test_split sk (map (scaler_row sk sc) X) y of
                     Inl e \<Rightarrow> None
                   | Inr (train, test) \<Rightarrow> Some train)))"

text \<open>A stand-in sampler: the state is a counter, and a sample is read off it.\<close>

definition demo_numpy :: "nat numpy" where
  "demo_numpy =
     \<lparr>random_seed = (\<lambda>k. k),
      random_normal = (\<lambda>mu sigma g. (mu + of_nat (g mod 3) * sigma, Suc g)),
      random_poisson = (\<lambda>lam g. (g mod 4, Suc g)),
      random_randint = (\<lambda>lo hi g. (lo + int (g mod nat (hi - lo)), Suc g)),
      random_choice = (\<lambda>xs g. (xs ! (g mod length xs), Suc g))\<rparr>"

definition demo_session :: "(nat, unit, unit, unit) session" where
  "demo_session = \<lparr>trainee = init_predictor, rng = 0, events = []\<rparr>"

text \<open>
  A second stand-in for the library, whose scaler and forest depend on what they are
  fitted on: fitting the scaler takes the mean of each column (and raises on an empty
  frame), scaling subtracts it; the split keeps the last row for testing; the forest
  remembers the number of rows it was fitted on and predicts 50 plus that number times
  the sum of the row.
\<close>

definition column_means :: "rat list list \<Rightarrow> error + rat list" where
  "column_means X =
     (case X of
        [] \<Rightarrow> Inl ValueError
      | x # xs \<Rightarrow> Inr (map (\<lambda>t. t / of_nat (length X)) (foldr (map2 (+)) xs x)))"

definition centring_sklearn :: "(rat list, nat, unit) sklearn" where
  "centring_sklearn =
     \<lparr>scaler_fit = column_means,
      scaler_row = (\<lambda>mu x. map2 (-) x mu),
      train_test_split = (\<lambda>X y. Inr ((butlast X, butlast y), ([last X], [last y]))),
      forest_fit = (\<lambda>X y. Inr (length X)),
      forest_row = (\<lambda>m x. 50 + of_nat m * sum_list x),
      tree_explainer = (\<lambda>m. Inr ()),
      metrics = (\<lambda>y p. Inr (0, 1))\<rparr>"

definition centring_session :: "(nat, rat list, nat, unit) session" where
  "centring_session = \<lparr>trainee = init_predictor, rng = 0, events = []\<rparr>"

section \<open>The database helper (firebase\_helper.py)\<close>

subsection \<open>The document database\<close>

text \<open>
  The module keeps the client in its global \<open>_db\<close> (\<open>None\<close> until
  \<open>setup_firebase\<close> succeeds). The hosted database is the environment: \<open>can_setup\<close>
  says whether \<open>setup_firebase\<close> would succeed now (the key file is there and the
  SDK initialises), \<open>fault\<close> says which client calls raise, by their number, and with
  what; \<open>ids\<close> are the identifiers the environment generates (automatic document
  ids, \<open>uuid4\<close>), \<open>ticks\<close> is the clock.
\<close>

record firebase =
  db :: bool
  can_setup :: bool
  collections :: "string \<Rightarrow> (string \<times> pydict) list"
  fault :: "nat \<Rightarrow> error option"
  calls :: nat
  ids :: "nat \<Rightarrow> string"
  ticks :: nat

text \<open>\<open>setup_firebase\<close>: it catches its own exceptions and leaves \<open>_db\<close> unset then.\<close>

definition setup_firebase :: "firebase \<Rightarrow> firebase" where
  "setup_firebase w = (if db w then w else if can_setup w then w\<lparr>db := True\<rparr> else w)"

text \<open>\<open>if _db is None: setup_firebase()\<close>.\<close>

definition ensure_db :: "(unit, firebase) prog" where
  "ensure_db w = (Inr (), if \<not> db w then setup_firebase w else w)"

text \<open>
  A call through \<open>_db\<close>: an attribute access on \<open>None\<close> raises \<open>AttributeError\<close>;
  otherwise the call is counted, and it raises what the environment says or performs
  the operation.
\<close>

definition client_call :: "(firebase \<Rightarrow> 'a \<times> firebase) \<Rightarrow> ('a, firebase) prog" where
  "client_call oper w =
     (if \<not> db w then (Inl AttributeError, w)
      else
        (case fault w (calls w) of
           Some e \<Rightarrow> (Inl e, w\<lparr>calls := Suc (calls w)\<rparr>)
         | None \<Rightarrow> (case oper (w\<lparr>calls := Suc (calls w)\<rparr>) of (x, w') \<Rightarrow> (Inr x, w'))))"

text \<open>
  The hosted document database and its client library (\<open>firebase_admin\<close>) are not
  part of the repository: the module only calls them. The operations it calls are
  given here the behaviour the client library documents. A collection is a list of
  documents with their ids; \<open>document(id).get()\<close> finds the document or reports that
  it does not exist; \<open>set(data)\<close> replaces the document; \<open>add(data)\<close> stores a new
  document under a generated id; \<open>stream()\<close> lists the documents;
  \<open>where(field, "==", value)\<close> keeps the documents whose field has that value.
\<close>

fun put_doc :: "string \<Rightarrow> pydict \<Rightarrow> (string \<times> pydict) list \<Rightarrow> (string \<times> pydict) list" where
  "put_doc i d [] = [(i, d)]"
| "put_doc i d ((j, old) # docs) =
     (if i = j then (j, d) # docs else (j, old) # put_doc i d docs)"

definition doc_get :: "string \<Rightarrow> string \<Rightarrow> firebase \<Rightarrow> pydict option \<times> firebase" where
  "doc_get coll i w = (map_of (collections w coll) i, w)"

definition doc_set :: "string \<Rightarrow> string \<Rightarrow> pydict \<Rightarrow> firebase \<Rightarrow> unit \<times> firebase" where
  "doc_set coll i data w =
     ((), w\<lparr>collections := (collections w)(coll := put_doc i data (collections w coll))\<rparr>)"

text \<open>
  \<open>set(data, merge=True)\<close> creates the document with exactly the fields of \<open>data\<close>
  when there is none. On a stored document it writes the fields of \<open>data\<close> at their
  paths and leaves every other stored field, at the top level or inside a map, as it
  is: a value that is not a map, and the empty map, overwrites what is stored under
  its name; a non-empty map is merged field by field, in the same way, into the stored
  value when that is a map, and overwrites it otherwise. A map value is an association
  list (its keys are distinct when it comes from a Python dictionary); a merged field
  keeps its place in the stored list and a new one is added at the end.
\<close>

fun put_field :: "string \<Rightarrow> pyval \<Rightarrow> (string \<times> pyval) list \<Rightarrow> (string \<times> pyval) list" where
  "put_field k v [] = [(k, v)]"
| "put_field k v ((j, old) # kvs) =
     (if k = j then (j, v) # kvs else (j, old) # put_field k v kvs)"

fun merge_value :: "pyval \<Rightarrow> pyval \<Rightarrow> pyval"
  and merge_fields :: "(string \<times> pyval) list \<Rightarrow> (string \<times> pyval) list \<Rightarrow> (string \<times> pyval) list" where
  "merge_value (PDict okvs) (PDict (kv # kvs)) = PDict (merge_fields okvs (kv # kvs))"
| "merge_value old v = v"
| "merge_fields okvs [] = okvs"
| "merge_fields okvs ((k, v) # kvs) =
     merge_fields
       (put_field k (case map_of okvs k of None \<Rightarrow> v | Some old \<Rightarrow> merge_value old v) okvs) kvs"

definition merge_doc :: "pydict \<Rightarrow> pydict \<Rightarrow> pydict" where
  "merge_doc old data k =
     (case data k of
        None \<Rightarrow> old k
      | Some v \<Rightarrow> (case old k of None \<Rightarrow> Some v | Some stored \<Rightarrow> Some (merge_value stored v)))"

definition doc_set_merge :: "string \<Rightarrow> string \<Rightarrow> pydict \<Rightarrow> firebase \<Rightarrow> unit \<times> firebase" where
  "doc_set_merge coll i data w =
     (let merged = (case map_of (collections w coll) i of
                      None \<Rightarrow> data
                    | Some old \<Rightarrow> merge_doc old data)
      in ((), w\<lparr>collections := (collections w)(coll := put_doc i merged (collections w coll))\<rparr>))"

definition coll_add :: "string \<Rightarrow> pydict \<Rightarrow> firebase \<Rightarrow> unit \<times> firebase" where
  "coll_add coll data w =
     ((), w\<lparr>collections := (collections w)(coll := collections w coll @ [(ids w (calls w), data)])\<rparr>)"

definition coll_stream :: "string \<Rightarrow> firebase \<Rightarrow> pydict list \<times> firebase" where
  "coll_stream coll w = (map snd (collections w coll), w)"

definition coll_where_stream ::
  "string \<Rightarrow> string \<Rightarrow> pyval \<Rightarrow> firebase \<Rightarrow> pydict list \<times> firebase" where
  "coll_where_stream coll field v w =
     (filter (\<lambda>d. d field = Some v) (map snd (collections w coll)), w)"

subsection \<open>The persistence operations\<close>

text \<open>
  \<open>try: body except Exception as e: handler\<close> on a session: what the body did to the
  session before it raised stays done.
\<close>

definition attempt :: "('a, 'st) prog \<Rightarrow> (error \<Rightarrow> ('a, 'st) prog) \<Rightarrow> ('a, 'st) prog" where
  "attempt body handler s =
     (case body s of (Inl e, s') \<Rightarrow> handler e s' | (Inr x, s') \<Rightarrow> (Inr x, s'))"

definition returns :: "'a \<Rightarrow> ('a, 'st) prog" where
  "returns x s = (Inr x, s)"

definition raises :: "error \<Rightarrow> ('a, 'st) prog" where
  "raises e s = (Inl e, s)"

text \<open>\<open>save_student_data\<close>.\<close>

definition save_student_data :: "string \<Rightarrow> pydict \<Rightarrow> (bool, firebase) prog" where
  "save_student_data email data =
     attempt
       (seq ensure_db (\<lambda>_.
        seq (client_call (doc_set_merge ''students'' email data)) (\<lambda>_.
        returns True)))
       (\<lambda>e. returns False)"

text \<open>\<open>fetch_all_students\<close>.\<close>

definition fetch_all_students :: "(pydict list, firebase) prog" where
  "fetch_all_students =
     attempt
       (seq ensure_db (\<lambda>_.
        seq (client_call (coll_stream ''students'')) (\<lambda>docs.
        returns docs)))
       (\<lambda>e. returns [])"

text \<open>\<open>get_student\<close>: the document's dictionary, or \<open>None\<close>.\<close>

definition get_student :: "string \<Rightarrow> (pydict option, firebase) prog" where
  "get_student email =
     attempt
       (seq ensure_db (\<lambda>_.
        seq (client_call (doc_get ''students'' email)) (\<lambda>doc.
        returns doc)))
       (\<lambda>e. returns None)"

text \<open>\<open>save_quiz_question\<close>: the id is \<open>uuid.uuid4().hex\<close>.\<close>

definition save_quiz_question :: "pydict \<Rightarrow> (bool, firebase) prog" where
  "save_quiz_question question_doc =
     attempt
       (seq ensure_db (\<lambda>_.
        seq (\<lambda>w. (Inr (ids w (calls w)), w)) (\<lambda>qid.
        seq (client_call (doc_set ''quiz_questions'' qid question_doc)) (\<lambda>_.
        returns True))))
       (\<lambda>e. returns False)"

text \<open>
  \<open>score / total\<close> on integers: true division, which raises for a zero divisor.
\<close>

definition true_div :: "int \<Rightarrow> int \<Rightarrow> error + rat" where
  "true_div a b = (if b = 0 then Inl ZeroDivisionError else Inr (of_int a / of_int b))"

text \<open>
  \<open>datetime.utcnow()\<close> reads the clock and lets it advance; the formatting of a time
  (\<open>isoformat\<close>, \<open>strftime\<close>) is the standard library's and is taken as given.
\<close>

record datetime =
  isoformat :: "nat \<Rightarrow> string"
  strftime :: "string \<Rightarrow> nat \<Rightarrow> string"

definition utcnow :: "(nat, firebase) prog" where
  "utcnow w = (Inr (ticks w), w\<lparr>ticks := Suc (ticks w)\<rparr>)"

text \<open>\<open>save_quiz_result\<close> (\<open>total_count\<close> is its parameter \<open>total\<close>).\<close>

definition save_quiz_result ::
  "datetime \<Rightarrow> string \<Rightarrow> string \<Rightarrow> int \<Rightarrow> int \<Rightarrow> (string \<times> pyval) list \<Rightarrow> (bool, firebase) prog" where
  "save_quiz_result dt email subject score total_count details =
     attempt
       (seq ensure_db (\<lambda>_.
        seq (\<lambda>w. (true_div score total_count, w)) (\<lambda>ratio.
        seq utcnow (\<lambda>t1.
        seq utcnow (\<lambda>t2.
        seq utcnow (\<lambda>t3.
        seq utcnow (\<lambda>t4.
        (let payload =
               Map.empty(''email'' \<mapsto> PStr email, ''subject'' \<mapsto> PStr subject,
                 ''score'' \<mapsto> PInt score, ''total'' \<mapsto> PInt total_count,
                 ''percentage'' \<mapsto> PFloat (ratio * 100), ''details'' \<mapsto> PDict details,
                 ''timestamp'' \<mapsto> PStr (isoformat dt t1),
                 ''date'' \<mapsto> PStr (strftime dt ''%Y-%m-%d'' t2),
                 ''week'' \<mapsto> PStr (strftime dt ''%Y-W%U'' t3),
                 ''month'' \<mapsto> PStr (strftime dt ''%Y-%m'' t4))
         in
        seq (client_call (coll_add ''quiz_results'' payload)) (\<lambda>_.
        returns True)))))))))
       (\<lambda>e. returns False)"

text \<open>
  \<open>fetch_student_quiz_results\<close>. \<open>results.sort(key=..., reverse=True)\<close> is Python's
  sort: \<open>sort_desc\<close> stands for it, and gives the sorted list or the exception a
  comparison of two keys raises.
\<close>

definition fetch_student_quiz_results ::
  "((pydict \<Rightarrow> pyval) \<Rightarrow> pydict list \<Rightarrow> error + pydict list) \<Rightarrow> string
     \<Rightarrow> (pydict list, firebase) prog" where
  "fetch_student_quiz_results sort_desc email =
     attempt
       (seq ensure_db (\<lambda>_.
        seq (client_call (coll_where_stream ''quiz_results'' ''email'' (PStr email))) (\<lambda>results.
        seq (\<lambda>w. (sort_desc (\<lambda>x. py_get x ''timestamp'' (PStr [])) results, w)) (\<lambda>sorted_results.
        returns sorted_results))))
       (\<lambda>e. returns [])"

text \<open>\<open>fetch_quiz_results\<close>.\<close>

definition fetch_quiz_results :: "(pydict list, firebase) prog" where
  "fetch_quiz_results =
     attempt
       (seq ensure_db (\<lambda>_.
        seq (client_call (coll_stream ''quiz_results'')) (\<lambda>docs.
        returns docs)))
       (\<lambda>e. returns [])"

text \<open>\<open>login_user\<close>: the student document first, then the officer document.\<close>

definition login_user :: "string \<Rightarrow> (pydict option, firebase) prog" where
  "login_user email =
     attempt
       (seq ensure_db (\<lambda>_.
        seq (client_call (doc_get ''students'' email)) (\<lambda>student_ref.
        (case student_ref of
           Some data \<Rightarrow> returns (Some (data(''role'' \<mapsto> PStr ''Student'')))
         | None \<Rightarrow>
             seq (client_call (doc_get ''placement_officers'' email)) (\<lambda>officer_ref.
             (case officer_ref of
                Some data \<Rightarrow> returns (Some (data(''role'' \<mapsto> PStr ''Placement Officer'')))
              | None \<Rightarrow> returns None))))))
       (\<lambda>e. returns None)"

text \<open>The client is unavailable: \<open>_db\<close> is unset and \<open>setup_firebase\<close> cannot set it.\<close>

definition client_down :: "firebase \<Rightarrow> bool" where
  "client_down w \<longleftrightarrow> \<not> db w \<and> \<not> can_setup w"

text \<open>The next call of the client raises.\<close>

definition next_call_fails :: "firebase \<Rightarrow> bool" where
  "next_call_fails w \<longleftrightarrow> fault w (calls w) \<noteq> None"

text \<open>A database to run the definitions on: one student, and a client that works.\<close>

definition demo_firebase :: firebase where
  "demo_firebase =
     \<lparr>db = False, can_setup = True,
      collections = (\<lambda>c. if c = ''students''
                           then [(''a@x.org'', Map.empty(''name'' \<mapsto> PStr ''Asha'', ''cgpa'' \<mapsto> PFloat 8))]
                           else []),
      fault = (\<lambda>k. None), calls = 0, ids = (\<lambda>k. ''id''), ticks = 0\<rparr>"

text \<open>The same with a student whose profile has a map of skill levels.\<close>

definition nested_firebase :: firebase where
  "nested_firebase =
     \<lparr>db = False, can_setup = True,
      collections = (\<lambda>c. if c = ''students''
                           then [(''a@x.org'', Map.empty(''name'' \<mapsto> PStr ''Asha'',
                                   ''skills'' \<mapsto> PDict [(''python'', PInt 3), (''sql'', PInt 2)]))]
                           else []),
      fault = (\<lambda>k. None), calls = 0, ids = (\<lambda>k. ''id''), ticks = 0\<rparr>"

section \<open>The generative-text helper (ai\_utils.py)\<close>

subsection \<open>The text API and the module's globals\<close>

text \<open>
  A prompt is one of the module's templates with the values it interpolates; the
  literal texts play no role here. The replies of the module are either text the API
  generated or one of the module's fixed texts, again given by the template and its
  values (the texts contain pictographs).
\<close>

datatype prompt =
    TestPrompt
  | OkPrompt
  | QuizPrompt string int
  | FeedbackPrompt string int int rat "pydict list"
  | StudyPlanPrompt string string int int
  | CareerPrompt string "string list" "string list"
  | WithContext "(string \<times> string) list" prompt

datatype message =
    Generated string
  | FallbackOutstanding string int int rat
  | FallbackSolid string int int rat
  | FallbackLearning string int int rat
  | ServiceUnavailable
  | NoResponse
  | ErrorGenerating error
  | StudyPlanUnavailable
  | StudyPlanFailed
  | CareerUnavailable
  | CareerFailed

text \<open>
  The API is the environment: what its request number \<open>k\<close> answers, or the exception
  it raises. \<open>configure\<close> is \<open>genai.configure\<close>, \<open>list_models\<close> gives the model names,
  \<open>supports_generate\<close> says whether the methods of \<open>genai.get_model(name)\<close> mention
  \<open>generateContent\<close>, and \<open>generate_content\<close> is the \<open>text\<close> of the response of the
  named model to a prompt.
\<close>

record genai =
  configure :: "nat \<Rightarrow> error option"
  list_models :: "nat \<Rightarrow> error + string list"
  supports_generate :: "nat \<Rightarrow> string \<Rightarrow> error + bool"
  generate_content :: "nat \<Rightarrow> string \<Rightarrow> prompt \<Rightarrow> error + string"

text \<open>
  The globals \<open>_gemini_configured\<close>, \<open>_available_models\<close> and \<open>_current_model\<close> (a
  model object is represented by its name), and the number of requests made so far.
\<close>

record ai_module =
  gemini_configured :: bool
  available_models :: "string list"
  current_model :: "string option"
  requests :: nat

definition request :: "(nat \<Rightarrow> error + 'a) \<Rightarrow> ('a, ai_module) prog" where
  "request f s = (f (requests s), s\<lparr>requests := Suc (requests s)\<rparr>)"

subsection \<open>Strings\<close>

text \<open>
  \<open>str.strip()\<close> and \<open>str.lower()\<close> on the ASCII range, and \<open>sub in s\<close>.
\<close>

definition is_space :: "char \<Rightarrow> bool" where
  "is_space c \<longleftrightarrow> c \<in> set [CHR '' '', CHR 0x09, CHR 0x0A, CHR 0x0B, CHR 0x0C, CHR 0x0D]"

definition strip :: "string \<Rightarrow> string" where
  "strip s = rev (dropWhile is_space (rev (dropWhile is_space s)))"

definition lower_char :: "char \<Rightarrow> char" where
  "lower_char c =
     (if CHR ''A'' \<le> c \<and> c \<le> CHR ''Z'' then char_of (of_char c + (32 :: nat)) else c)"

definition lower :: "string \<Rightarrow> string" where
  "lower s = map lower_char s"

fun contains :: "string \<Rightarrow> string \<Rightarrow> bool" where
  "contains sub [] = (sub = [])"
| "contains sub (c # cs) = (take (length sub) (c # cs) = sub \<or> contains sub cs)"

text \<open>\<open>xs[:n]\<close>: a negative \<open>n\<close> counts from the end.\<close>

definition py_take :: "int \<Rightarrow> 'a list \<Rightarrow> 'a list" where
  "py_take n xs = (if 0 \<le> n then take (nat n) xs else take (length xs - nat (- n)) xs)"

subsection \<open>Model selection and generation\<close>

definition model_priority :: "string list" where
  "model_priority =
     [''models/gemini-2.5-flash-exp'', ''models/gemini-2.5-flash'', ''models/gemini-1.5-flash'',
      ''models/gemini-1.5-pro'', ''models/gemini-1.0-pro'']"

text \<open>
  Lines 89 to 98 (and 103 to 110): build the model, send the test prompt, and keep the
  model when the answer has text; an exception means the next candidate.
\<close>

definition try_model :: "genai \<Rightarrow> string \<Rightarrow> (string option, ai_module) prog" where
  "try_model api name =
     attempt
       (seq (request (\<lambda>k. generate_content api k name TestPrompt)) (\<lambda>text.
        returns (if text \<noteq> [] then Some name else None)))
       (\<lambda>e. returns None)"

text \<open>The loop over \<open>model_priority\<close> (lines 86 to 98).\<close>

fun try_priority :: "genai \<Rightarrow> string list \<Rightarrow> (string option, ai_module) prog" where
  "try_priority api [] s = (Inr None, s)"
| "try_priority api (name # names) s =
     (if name \<in> set (available_models s) then
        (case try_model api name s of
           (Inr (Some m), s1) \<Rightarrow> (Inr (Some m), s1)
         | (Inr None, s1) \<Rightarrow> try_priority api names s1
         | (Inl e, s1) \<Rightarrow> (Inl e, s1))
      else try_priority api names s)"

text \<open>
  The loop over the available models (lines 101 to 110); the look-up of a model's
  methods is outside the inner \<open>try\<close>, so its exception leaves the loop.
\<close>

fun try_available :: "genai \<Rightarrow> string list \<Rightarrow> (string option, ai_module) prog" where
  "try_available api [] s = (Inr None, s)"
| "try_available api (name # names) s =
     (if contains ''gemini'' (lower name) then
        (case request (\<lambda>k. supports_generate api k name) s of
           (Inl e, s1) \<Rightarrow> (Inl e, s1)
         | (Inr False, s1) \<Rightarrow> try_available api names s1
         | (Inr True, s1) \<Rightarrow>
             (case try_model api name s1 of
                (Inr (Some m), s2) \<Rightarrow> (Inr (Some m), s2)
              | (Inr None, s2) \<Rightarrow> try_available api names s2
              | (Inl e, s2) \<Rightarrow> (Inl e, s2)))
      else try_available api names s)"

text \<open>\<open>get_best_model\<close>.\<close>

definition get_best_model :: "genai \<Rightarrow> (string option, ai_module) prog" where
  "get_best_model api s =
     (let select =
            attempt
              (seq (try_priority api model_priority) (\<lambda>found.
                 (case found of
                    Some m \<Rightarrow> returns (Some m)
                  | None \<Rightarrow> (\<lambda>s. try_available api (available_models s) s))))
              (\<lambda>e. returns None)
      in if available_models s = [] then
           (case request (list_models api) s of
              (Inl e, s1) \<Rightarrow> (Inr None, s1)
            | (Inr names, s1) \<Rightarrow> select (s1\<lparr>available_models := names\<rparr>))
         else select s)"

text \<open>\<open>setup_gemini\<close>.\<close>

definition setup_gemini :: "genai \<Rightarrow> (bool, ai_module) prog" where
  "setup_gemini api =
     attempt
       (seq (request (\<lambda>k. case configure api k of Some e \<Rightarrow> Inl e | None \<Rightarrow> Inr ())) (\<lambda>_.
        seq (request (list_models api)) (\<lambda>names.
        seq (\<lambda>s. (Inr (), s\<lparr>available_models := names\<rparr>)) (\<lambda>_.
        seq (get_best_model api) (\<lambda>m.
          (\<lambda>s. (Inr (m \<noteq> None), s\<lparr>current_model := m, gemini_configured := (m \<noteq> None)\<rparr>)))))))
       (\<lambda>e s. (Inr False, s\<lparr>gemini_configured := False, current_model := None\<rparr>))"

text \<open>
  \<open>safe_generate_content\<close>: up to \<open>max_retries\<close> attempts; the stripped text of the
  first answer that has any, or \<open>None\<close>.
\<close>

fun safe_generate_content ::
  "genai \<Rightarrow> string \<Rightarrow> prompt \<Rightarrow> nat \<Rightarrow> (string option, ai_module) prog" where
  "safe_generate_content api m p 0 s = (Inr None, s)"
| "safe_generate_content api m p (Suc n) s =
     (case request (\<lambda>k. generate_content api k m p) s of
        (Inr text, s1) \<Rightarrow>
          (if text \<noteq> [] \<and> strip text \<noteq> [] then (Inr (Some (strip text)), s1)
           else safe_generate_content api m p n s1)
      | (Inl e, s1) \<Rightarrow> safe_generate_content api m p n s1)"

text \<open>\<open>get_gemini_status\<close>.\<close>

definition get_gemini_status :: "genai \<Rightarrow> (bool, ai_module) prog" where
  "get_gemini_status api s =
     (if \<not> gemini_configured s then setup_gemini api s
      else
        attempt
          (\<lambda>s. case current_model s of
                  Some m \<Rightarrow>
                    seq (safe_generate_content api m OkPrompt 3) (\<lambda>test_response.
                      returns (case test_response of
                                 None \<Rightarrow> False
                               | Some t \<Rightarrow> 0 < length (strip t))) s
                | None \<Rightarrow> (Inr False, s))
          (\<lambda>e s. (Inr False, s\<lparr>gemini_configured := False, current_model := None\<rparr>))
          s)"

subsection \<open>Fallback content\<close>

text \<open>
  \<open>get_fallback_questions\<close> (the superscript two in the third option of the second
  question is written as its two bytes).
\<close>

definition get_fallback_questions :: "pydict list" where
  "get_fallback_questions =
     [Map.empty(
        ''question'' \<mapsto> PStr ''Which data structure follows LIFO (Last-In-First-Out) principle?'',
        ''options'' \<mapsto> PList [PStr ''A) Queue'', PStr ''B) Stack'', PStr ''C) Array'',
                               PStr ''D) Linked List''],
        ''answer'' \<mapsto> PStr ''B'',
        ''explanation'' \<mapsto> PStr ''Stack follows LIFO principle where the last element added is the first one removed.''),
      Map.empty(
        ''question'' \<mapsto> PStr ''What is the time complexity of binary search algorithm?'',
        ''options'' \<mapsto> PList [PStr ''A) O(n)'', PStr ''B) O(log n)'',
                               PStr (''C) O(n'' @ [CHR 0xC2, CHR 0xB2] @ '')''), PStr ''D) O(1)''],
        ''answer'' \<mapsto> PStr ''B'',
        ''explanation'' \<mapsto> PStr ''Binary search has O(log n) time complexity as it halves the search space each iteration.''),
      Map.empty(
        ''question'' \<mapsto> PStr ''Which programming language is primarily used for machine learning and data science?'',
        ''options'' \<mapsto> PList [PStr ''A) Java'', PStr ''B) Python'', PStr ''C) C++'', PStr ''D) HTML''],
        ''answer'' \<mapsto> PStr ''B'',
        ''explanation'' \<mapsto> PStr ''Python is widely used in machine learning due to its extensive libraries like TensorFlow, PyTorch, and scikit-learn.''),
      Map.empty(
        ''question'' \<mapsto> PStr ''What does SQL stand for in database management?'',
        ''options'' \<mapsto> PList [PStr ''A) Structured Query Language'', PStr ''B) Simple Question Language'',
                               PStr ''C) System Query Logic'', PStr ''D) Standard Question Format''],
        ''answer'' \<mapsto> PStr ''A'',
        ''explanation'' \<mapsto> PStr ''SQL stands for Structured Query Language, used for managing and manipulating relational databases.''),
      Map.empty(
        ''question'' \<mapsto> PStr ''Which protocol is used for secure web communication (HTTPS)?'',
        ''options'' \<mapsto> PList [PStr ''A) HTTP'', PStr ''B) FTP'', PStr ''C) HTTPS'', PStr ''D) SMTP''],
        ''answer'' \<mapsto> PStr ''C'',
        ''explanation'' \<mapsto> PStr ''HTTPS (HyperText Transfer Protocol Secure) encrypts communication between web browsers and servers.'')]"

text \<open>
  \<open>get_fallback_feedback\<close>: the percentage is computed first, by a true division;
  then one of the three texts is chosen.
\<close>

definition get_fallback_feedback ::
  "string \<Rightarrow> int \<Rightarrow> int \<Rightarrow> pydict list \<Rightarrow> error + message" where
  "get_fallback_feedback subject score total_count incorrect_questions =
     and_then (true_div score total_count) (\<lambda>ratio.
       (let percentage = ratio * 100 in
        Inr (if 80 \<le> percentage then FallbackOutstanding subject score total_count percentage
             else if 60 \<le> percentage then FallbackSolid subject score total_count percentage
             else FallbackLearning subject score total_count percentage)))"

subsection \<open>The four generators\<close>

text \<open>
  \<open>generate_quiz_for_subject\<close>. Lines 173 to 198 clean the response, parse it as
  JSON and keep the questions that have the three required keys: \<open>parse_questions\<close>
  stands for them, and gives the validated questions or the exception raised on the
  way (\<open>JSONDecodeError\<close> from the parser, caught at line 207; anything else reaches
  line 212).
\<close>

definition generate_quiz_for_subject ::
  "genai \<Rightarrow> (string \<Rightarrow> error + pydict list) \<Rightarrow> string \<Rightarrow> int \<Rightarrow> (pydict list, ai_module) prog" where
  "generate_quiz_for_subject api parse_questions subject num_questions =
     attempt
       (seq (get_gemini_status api) (\<lambda>status.
          if \<not> status then returns (py_take num_questions get_fallback_questions)
          else
            seq (get_best_model api) (\<lambda>model.
              (case model of
                 None \<Rightarrow> returns (py_take num_questions get_fallback_questions)
               | Some m \<Rightarrow>
                   seq (safe_generate_content api m (QuizPrompt subject num_questions) 3)
                     (\<lambda>response_text.
                       (case response_text of
                          None \<Rightarrow> returns (py_take num_questions get_fallback_questions)
                        | Some text \<Rightarrow>
                            if text = [] then returns (py_take num_questions get_fallback_questions)
                            else
                              (case parse_questions text of
                                 Inl e \<Rightarrow>
                                   if e = JSONDecodeError
                                   then returns (py_take num_questions get_fallback_questions)
                                   else raises e
                               | Inr validated_questions \<Rightarrow>
                                   if validated_questions \<noteq> []
                                   then returns (py_take num_questions validated_questions)
                                   else returns (py_take num_questions get_fallback_questions))))))))
       (\<lambda>e. returns (py_take num_questions get_fallback_questions))"

text \<open>
  \<open>generate_feedback\<close>. The prompt interpolates \<open>(score/total)*100\<close>; the fallback is
  called inside the \<open>try\<close> block and again in the handler (\<open>total_count\<close> is the
  parameter \<open>total\<close>).
\<close>

definition generate_feedback ::
  "genai \<Rightarrow> string \<Rightarrow> int \<Rightarrow> int \<Rightarrow> pydict list \<Rightarrow> (message, ai_module) prog" where
  "generate_feedback api subject score total_count incorrect_questions =
     attempt
       (seq (get_gemini_status api) (\<lambda>status.
          if \<not> status
          then Pair (get_fallback_feedback subject score total_count incorrect_questions)
          else
            seq (get_best_model api) (\<lambda>model.
              (case model of
                 None \<Rightarrow> Pair (get_fallback_feedback subject score total_count incorrect_questions)
               | Some m \<Rightarrow>
                   seq (Pair (true_div score total_count)) (\<lambda>ratio.
                   seq (safe_generate_content api m
                          (FeedbackPrompt subject score total_count (ratio * 100) incorrect_questions) 3)
                     (\<lambda>response_text.
                       (case response_text of
                          None \<Rightarrow>
                            Pair (get_fallback_feedback subject score total_count incorrect_questions)
                        | Some text \<Rightarrow>
                            if text = []
                            then Pair (get_fallback_feedback subject score total_count
                                         incorrect_questions)
                            else returns (Generated text))))))))
       (\<lambda>e. Pair (get_fallback_feedback subject score total_count incorrect_questions))"

text \<open>\<open>generate_custom_content\<close>; an empty or missing context leaves the prompt as it is.\<close>

definition generate_custom_content ::
  "genai \<Rightarrow> prompt \<Rightarrow> (string \<times> string) list option \<Rightarrow> (message, ai_module) prog" where
  "generate_custom_content api p ctx =
     attempt
       (seq (get_gemini_status api) (\<lambda>status.
          if \<not> status then returns ServiceUnavailable
          else
            seq (get_best_model api) (\<lambda>model.
              (case model of
                 None \<Rightarrow> returns ServiceUnavailable
               | Some m \<Rightarrow>
                   (let full_prompt =
                          (case ctx of
                             None \<Rightarrow> p
                           | Some kvs \<Rightarrow> if kvs = [] then p else WithContext kvs p)
                    in seq (safe_generate_content api m full_prompt 3) (\<lambda>response_text.
                         (case response_text of
                            None \<Rightarrow> returns NoResponse
                          | Some text \<Rightarrow>
                              if text = [] then returns NoResponse
                              else returns (Generated text))))))))
       (\<lambda>e. returns (ErrorGenerating e))"

text \<open>\<open>generate_study_plan\<close> and \<open>predict_career\<close>.\<close>

definition generate_study_plan ::
  "genai \<Rightarrow> string \<Rightarrow> string \<Rightarrow> int \<Rightarrow> int \<Rightarrow> (message, ai_module) prog" where
  "generate_study_plan api subject level days_available hours_per_day =
     attempt
       (seq (get_gemini_status api) (\<lambda>status.
          if \<not> status then returns StudyPlanUnavailable
          else generate_custom_content api
                 (StudyPlanPrompt subject level days_available hours_per_day) None))
       (\<lambda>e. returns StudyPlanFailed)"

definition predict_career ::
  "genai \<Rightarrow> string \<Rightarrow> string list \<Rightarrow> string list \<Rightarrow> (message, ai_module) prog" where
  "predict_career api subject skills interests =
     attempt
       (seq (get_gemini_status api) (\<lambda>status.
          if \<not> status then returns CareerUnavailable
          else generate_custom_content api (CareerPrompt subject skills interests) None))
       (\<lambda>e. returns CareerFailed)"

text \<open>An API none of whose requests succeeds, and the module as it is imported.\<close>

definition dead_api :: genai where
  "dead_api =
     \<lparr>configure = (\<lambda>k. Some (ServiceError ''no network'')),
      list_models = (\<lambda>k. Inl (ServiceError ''no network'')),
      supports_generate = (\<lambda>k name. Inl (ServiceError ''no network'')),
      generate_content = (\<lambda>k name p. Inl (ServiceError ''no network''))\<rparr>"

definition fresh_module :: ai_module where
  "fresh_module =
     \<lparr>gemini_configured = False, available_models = [], current_model = None, requests = 0\<rparr>"

section \<open>Sequencing and exception handling\<close>

lemma and_then_Inr [simp]: "and_then (Inr x) f = f x"
  by (simp add: and_then_def)

lemma and_then_Inl [simp]: "and_then (Inl e) f = Inl e"
  by (simp add: and_then_def)

text \<open>
  The continuation of a sequencing step is only looked at once the first computation
  has been evaluated.
\<close>

lemma and_then_weak_cong [cong]: "r = r' \<Longrightarrow> and_then r f = and_then r' f"
  by simp


section \<open>The dashboard score\<close>

lemma py_int_nonneg: "0 \<le> x \<Longrightarrow> py_int x = \<lfloor>x\<rfloor>"
  by (simp add: py_int_def)

lemma described_bonus_range: "5 \<le> described_bonus y \<and> described_bonus y \<le> 15"
  by (simp add: described_bonus_def)

lemma nonneg_num_field:
  "nonneg_num d k \<Longrightarrow>
     as_num (py_get d k (PInt 0)) = Inr (num_field d k) \<and> 0 \<le> num_field d k"
  by (auto simp: nonneg_num_def num_field_def py_get_def split: option.splits sum.splits)

lemma list_field_count:
  "list_field d ''certifications'' \<Longrightarrow>
     py_len (py_get d ''certifications'' (PList [])) = Inr (cert_count d)"
  by (auto simp: list_field_def cert_count_def py_get_def split: option.splits pyval.splits)

lemma hashable_field_bonus:
  "hashable_field d ''year'' \<Longrightarrow>
     year_bonus (py_get d ''year'' (PStr ''1st Year''))
       = Inr (described_bonus (py_get d ''year'' (PStr ''1st Year'')))"
  by (auto simp: hashable_field_def py_get_def described_bonus_def
           split: option.splits pyval.splits)

lemma capped_sum_bounds:
  fixes c i p m b :: rat and n :: nat
  assumes "0 \<le> c" "0 \<le> i" "0 \<le> p" "0 \<le> m" "5 \<le> b" "b \<le> 15"
  shows "0 \<le> min 25 (c / 10 * 25) + min 20 (i * 5) + min 15 (p * 3)
               + min 15 (of_nat n * 3) + min 10 m + min 15 b"
    and "min 15 b = b"
  using assms by (auto simp: min_def)

text \<open>The score of a dictionary that is not empty and whose six reads succeed.\<close>

lemma score_of_reads:
  fixes c i p m b :: rat
  assumes "d \<noteq> Map.empty"
    and c: "as_num (py_get d ''cgpa'' (PInt 0)) = Inr c"
    and i: "as_num (py_get d ''internships'' (PInt 0)) = Inr i"
    and p: "as_num (py_get d ''projects'' (PInt 0)) = Inr p"
    and m: "as_num (py_get d ''communication'' (PInt 0)) = Inr m"
    and n: "py_len (py_get d ''certifications'' (PList [])) = Inr n"
    and b: "year_bonus (py_get d ''year'' (PStr ''1st Year'')) = Inr b"
  shows "calculate_employability_score d =
           Inr (min 100 (py_int (0 + min 25 ((c / 10) * 25) + min 20 (i * 5) + min 15 (p * 3)
                                   + min 15 (of_nat n * 3) + min 10 m + min 15 b)))"
  unfolding calculate_employability_score_def using assms(1)
  by (simp only: c i p m n b and_then_Inr if_False)

text \<open>The score of a profile of the form's shape that is not empty.\<close>

lemma score_form_profile_nonempty:
  assumes "form_profile d" and ne: "d \<noteq> Map.empty"
  shows "calculate_employability_score d =
           Inr (described_score (num_field d ''cgpa'') (num_field d ''internships'')
                  (num_field d ''projects'') (cert_count d) (num_field d ''communication'')
                  (py_get d ''year'' (PStr ''1st Year'')))"
    and "0 \<le> described_score (num_field d ''cgpa'') (num_field d ''internships'')
                  (num_field d ''projects'') (cert_count d) (num_field d ''communication'')
                  (py_get d ''year'' (PStr ''1st Year''))"
    and "described_score (num_field d ''cgpa'') (num_field d ''internships'')
                  (num_field d ''projects'') (cert_count d) (num_field d ''communication'')
                  (py_get d ''year'' (PStr ''1st Year'')) \<le> 100"
proof -
  define c where "c = num_field d ''cgpa''"
  define i where "i = num_field d ''internships''"
  define p where "p = num_field d ''projects''"
  define m where "m = num_field d ''communication''"
  define y where "y = py_get d ''year'' (PStr ''1st Year'')"
  define n where "n = cert_count d"
  define total where
    "total = min 25 (c / 10 * 25) + min 20 (i * 5) + min 15 (p * 3)
               + min 15 (of_nat n * 3) + min 10 m + min 15 (described_bonus y)"
  from assms have c: "as_num (py_get d ''cgpa'' (PInt 0)) = Inr c" "0 \<le> c"
    and i: "as_num (py_get d ''internships'' (PInt 0)) = Inr i" "0 \<le> i"
    and p: "as_num (py_get d ''projects'' (PInt 0)) = Inr p" "0 \<le> p"
    and m: "as_num (py_get d ''communication'' (PInt 0)) = Inr m" "0 \<le> m"
    and n: "py_len (py_get d ''certifications'' (PList [])) = Inr n"
    and b: "year_bonus (py_get d ''year'' (PStr ''1st Year'')) = Inr (described_bonus y)"
    unfolding c_def i_def p_def m_def n_def y_def
    by (simp_all add: form_profile_def nonneg_num_field list_field_count hashable_field_bonus)
  have br: "5 \<le> described_bonus y" "described_bonus y \<le> 15"
    using described_bonus_range by simp_all
  have nonneg: "0 \<le> total" and mb: "min 15 (described_bonus y) = described_bonus y"
    unfolding total_def using capped_sum_bounds [OF c(2) i(2) p(2) m(2) br] by simp_all
  have "calculate_employability_score d = Inr (min 100 (py_int (0 + total)))"
    unfolding total_def add.assoc [symmetric]
    by (rule score_of_reads [OF ne c(1) i(1) p(1) m(1) n b])
  then have val: "calculate_employability_score d = Inr (min 100 \<lfloor>total\<rfloor>)"
    using nonneg by (simp add: py_int_nonneg)
  have eq: "min 100 \<lfloor>total\<rfloor> = described_score c i p n m y"
    unfolding described_score_def total_def mb mult.commute [of 3] by (rule refl)
  have "0 \<le> \<lfloor>total\<rfloor>" using nonneg by simp
  then have rng: "0 \<le> min 100 \<lfloor>total\<rfloor>" "min 100 \<lfloor>total\<rfloor> \<le> 100" by simp_all
  show "calculate_employability_score d =
           Inr (described_score (num_field d ''cgpa'') (num_field d ''internships'')
                  (num_field d ''projects'') (cert_count d) (num_field d ''communication'')
                  (py_get d ''year'' (PStr ''1st Year'')))"
    using val eq unfolding c_def i_def p_def m_def n_def y_def by simp
  show "0 \<le> described_score (num_field d ''cgpa'') (num_field d ''internships'')
                  (num_field d ''projects'') (cert_count d) (num_field d ''communication'')
                  (py_get d ''year'' (PStr ''1st Year''))"
    using rng(1) eq unfolding c_def i_def p_def m_def n_def y_def by simp
  show "described_score (num_field d ''cgpa'') (num_field d ''internships'')
                  (num_field d ''projects'') (cert_count d) (num_field d ''communication'')
                  (py_get d ''year'' (PStr ''1st Year'')) \<le> 100"
    using rng(2) eq unfolding c_def i_def p_def m_def n_def y_def by simp
qed

lemma score_form_profile_range:
  assumes "form_profile d" and "calculate_employability_score d = Inr s"
  shows "0 \<le> s \<and> s \<le> 100"
proof (cases "d = Map.empty")
  case True
  with assms(2) show ?thesis by (simp add: calculate_employability_score_def)
next
  case False
  from score_form_profile_nonempty [OF assms(1) False] assms(2) show ?thesis by simp
qed

text \<open>
  C5, as amended. For every profile of the shape the form saves (the numeric fields
  that are present are numbers and not negative, the certifications a list, the year
  hashable), \<open>calculate_employability_score\<close> returns 0 for the empty dictionary and
  otherwise the described value: the floor of the sum of the capped contributions,
  capped at 100; the result is an integer between 0 and 100.
\<close>

theorem calculate_employability_score_form_profile:
  assumes "form_profile d"
  shows "calculate_employability_score d =
           Inr (if d = Map.empty then 0
                else described_score (num_field d ''cgpa'') (num_field d ''internships'')
                       (num_field d ''projects'') (cert_count d)
                       (num_field d ''communication'')
                       (py_get d ''year'' (PStr ''1st Year'')))
         \<and> (\<exists>s. calculate_employability_score d = Inr s \<and> 0 \<le> s \<and> s \<le> 100)"
proof (cases "d = Map.empty")
  case True
  then show ?thesis by (simp add: calculate_employability_score_def)
next
  case False
  from score_form_profile_nonempty [OF assms False] False show ?thesis by simp
qed

text \<open>
  A profile of that shape: CGPA 8.5, two internships, one certification, third year
  (no projects, no communication rating). Its score is
  \<open>floor (21.25 + 10 + 0 + 3 + 0 + 12) = 46\<close>.
\<close>

theorem calculate_employability_score_form_profile_witness:
  "form_profile (Map.empty(''cgpa'' \<mapsto> PFloat (17 / 2), ''internships'' \<mapsto> PInt 2,
       ''certifications'' \<mapsto> PList [PStr ''SQL''], ''year'' \<mapsto> PStr ''3rd Year''))
   \<and> calculate_employability_score
        (Map.empty(''cgpa'' \<mapsto> PFloat (17 / 2), ''internships'' \<mapsto> PInt 2,
           ''certifications'' \<mapsto> PList [PStr ''SQL''], ''year'' \<mapsto> PStr ''3rd Year''))
       = Inr 46"
proof -
  let ?d = "Map.empty(''cgpa'' \<mapsto> PFloat (17 / 2), ''internships'' \<mapsto> PInt 2,
              ''certifications'' \<mapsto> PList [PStr ''SQL''], ''year'' \<mapsto> PStr ''3rd Year'')"
  have shape: "form_profile ?d"
    by (simp add: form_profile_def nonneg_num_def list_field_def hashable_field_def)
  have ne: "?d \<noteq> Map.empty" by simp
  have fl: "\<lfloor>185 / 4 :: rat\<rfloor> = 46" by (simp add: floor_eq_iff)
  have "described_score (num_field ?d ''cgpa'') (num_field ?d ''internships'')
          (num_field ?d ''projects'') (cert_count ?d) (num_field ?d ''communication'')
          (py_get ?d ''year'' (PStr ''1st Year'')) = 46"
    by (simp add: described_score_def described_bonus_def num_field_def cert_count_def
          py_get_def fl)
  with calculate_employability_score_form_profile [OF shape] ne shape
  show ?thesis by simp
qed

text \<open>
  C5 as it is stated fails: the dictionary \<open>{'internships': -2}\<close> is not empty, its
  contributions sum to \<open>0.0 - 10 + 0 + 0 + 0 + 5 = -5.0\<close>, and the function returns
  \<open>min(100, int(-5.0)) = -5\<close>, which is not in \<open>[0, 100]\<close>.
\<close>

theorem calculate_employability_score_negative_counterexample:
  "calculate_employability_score (Map.empty(''internships'' \<mapsto> PInt (- 2))) = Inr (- 5)
   \<and> \<not> (\<forall>d. \<exists>s. calculate_employability_score d = Inr s \<and> 0 \<le> s \<and> s \<le> 100)"
proof -
  have v: "calculate_employability_score (Map.empty(''internships'' \<mapsto> PInt (- 2))) = Inr (- 5)"
    by (simp add: calculate_employability_score_def py_get_def py_int_def)
  have "\<not> (\<exists>s. calculate_employability_score (Map.empty(''internships'' \<mapsto> PInt (- 2))) = Inr s
             \<and> 0 \<le> s \<and> s \<le> 100)"
    unfolding v by simp
  then show ?thesis using v by blast
qed

section \<open>The skill gap\<close>

lemma skill_gap_of_score:
  "calculate_employability_score d = Inr s \<Longrightarrow>
     calculate_skill_gap d q = Inr (max 0 (80 - s))"
  by (simp add: calculate_skill_gap_def)

text \<open>
  C6, as amended. Whenever \<open>calculate_employability_score\<close> returns a score \<open>s\<close>,
  \<open>calculate_skill_gap\<close> returns \<open>max 0 (80 - s)\<close> for every quiz-results list: it
  does not depend on the quiz results, is never negative, is 0 exactly when the score
  is at least 80, and is antitone in the score (a profile with a score at least as
  high has a gap at most as large). It is at most 80 when the score is not negative,
  which is the case for every profile of the form's shape.
\<close>

theorem calculate_skill_gap_properties:
  assumes "calculate_employability_score d = Inr s"
    and "calculate_employability_score d' = Inr s'"
  shows "calculate_skill_gap d q = Inr (max 0 (80 - s))
     \<and> calculate_skill_gap d q = calculate_skill_gap d q'
     \<and> 0 \<le> max 0 (80 - s)
     \<and> (max 0 (80 - s) = 0 \<longleftrightarrow> 80 \<le> s)
     \<and> (s \<le> s' \<longrightarrow> (\<exists>g g'. calculate_skill_gap d q = Inr g
                            \<and> calculate_skill_gap d' q' = Inr g' \<and> g' \<le> g))
     \<and> (0 \<le> s \<longrightarrow> max 0 (80 - s) \<le> 80)
     \<and> (form_profile d \<longrightarrow> 0 \<le> s \<and> max 0 (80 - s) \<le> 80)"
proof -
  have g: "calculate_skill_gap d q = Inr (max 0 (80 - s))"
    and g': "calculate_skill_gap d q' = Inr (max 0 (80 - s))"
    and h: "calculate_skill_gap d' q' = Inr (max 0 (80 - s'))"
    using assms by (simp_all add: skill_gap_of_score)
  have anti: "s \<le> s' \<longrightarrow> (\<exists>g g'. calculate_skill_gap d q = Inr g
                            \<and> calculate_skill_gap d' q' = Inr g' \<and> g' \<le> g)"
    unfolding g h by auto
  have form: "form_profile d \<longrightarrow> 0 \<le> s \<and> max 0 (80 - s) \<le> 80"
    using score_form_profile_range [of d s] assms(1) by auto
  show ?thesis using g g' anti form by auto
qed

text \<open>
  Two profiles: three internships (score 20, gap 60, whatever the quiz results) and
  four internships with five projects (score 40, gap 40).
\<close>

theorem calculate_skill_gap_properties_witness:
  "calculate_employability_score (Map.empty(''internships'' \<mapsto> PInt 3)) = Inr 20
   \<and> calculate_employability_score
        (Map.empty(''internships'' \<mapsto> PInt 4, ''projects'' \<mapsto> PInt 5)) = Inr 40
   \<and> form_profile (Map.empty(''internships'' \<mapsto> PInt 3))
   \<and> calculate_skill_gap (Map.empty(''internships'' \<mapsto> PInt 3)) [] = Inr 60
   \<and> calculate_skill_gap (Map.empty(''internships'' \<mapsto> PInt 3))
        [Map.empty(''score'' \<mapsto> PInt 1)] = Inr 60
   \<and> calculate_skill_gap
        (Map.empty(''internships'' \<mapsto> PInt 4, ''projects'' \<mapsto> PInt 5)) [] = Inr 40"
proof -
  let ?d = "Map.empty(''internships'' \<mapsto> PInt 3)"
  let ?d' = "Map.empty(''internships'' \<mapsto> PInt 4, ''projects'' \<mapsto> PInt 5)"
  have s: "calculate_employability_score ?d = Inr 20"
    by (simp add: calculate_employability_score_def py_get_def py_int_def)
  have s': "calculate_employability_score ?d' = Inr 40"
    by (simp add: calculate_employability_score_def py_get_def py_int_def)
  have f: "form_profile ?d"
    by (simp add: form_profile_def nonneg_num_def list_field_def hashable_field_def)
  note P = calculate_skill_gap_properties
             [OF s s', of "[]" "[Map.empty(''score'' \<mapsto> PInt 1)]"]
  have a: "calculate_skill_gap ?d [] = Inr 60"
    using conjunct1 [OF P] by simp
  have a': "calculate_skill_gap ?d [] =
              calculate_skill_gap ?d [Map.empty(''score'' \<mapsto> PInt 1)]"
    by (rule conjunct1 [OF conjunct2 [OF P]])
  from calculate_skill_gap_properties [OF s' s, of "[]" "[]"]
  have b: "calculate_skill_gap ?d' [] = Inr 40" by simp
  show ?thesis using s s' f a b a' [symmetric] by simp
qed

text \<open>
  C6 as it is stated fails: \<open>{'internships': -2}\<close> has the score -5, so its skill
  gap is \<open>max(0, 80 - (-5)) = 85\<close>, above 80.
\<close>

theorem calculate_skill_gap_range_counterexample:
  "calculate_skill_gap (Map.empty(''internships'' \<mapsto> PInt (- 2))) [] = Inr 85
   \<and> \<not> (\<forall>d q. \<exists>g. calculate_skill_gap d q = Inr g \<and> 0 \<le> g \<and> g \<le> 80)"
proof -
  have "calculate_employability_score (Map.empty(''internships'' \<mapsto> PInt (- 2))) = Inr (- 5)"
    by (simp add: calculate_employability_score_def py_get_def py_int_def)
  then have v: "calculate_skill_gap (Map.empty(''internships'' \<mapsto> PInt (- 2))) [] = Inr 85"
    by (simp add: calculate_skill_gap_def)
  have "\<not> (\<exists>g. calculate_skill_gap (Map.empty(''internships'' \<mapsto> PInt (- 2))) [] = Inr g
             \<and> 0 \<le> g \<and> g \<le> 80)"
    unfolding v by simp
  then show ?thesis using v by blast
qed

section \<open>Feature extraction\<close>

lemma num_or_missing_get:
  assumes "num_or_missing d k" and "as_num dflt = Inr x0"
  shows "\<exists>x. as_num (py_get d k dflt) = Inr x"
  using assms by (auto simp: num_or_missing_def py_get_def split: option.splits sum.splits)

lemma py_float_num: "as_num v = Inr x \<Longrightarrow> py_float fs v = Inr x"
  by (cases v) simp_all

lemma int_plus_num:
  "as_num v = Inr i \<Longrightarrow> \<exists>t. int_plus n v = Inr t \<and> as_num t = Inr (of_int n + i)"
  by (cases v) auto

lemma min_ten_num:
  "as_num t = Inr x \<Longrightarrow> \<exists>e. min_ten t = Inr e \<and> as_num e = Inr (min 10 x)"
  by (cases t) (auto simp: min_def)

lemma list_field_len:
  "list_field d k \<Longrightarrow> \<exists>n. py_len (py_get d k (PList [])) = Inr n"
  by (auto simp: list_field_def py_get_def split: option.splits pyval.splits)

lemma encode_year_unknown:
  "v \<notin> PStr ` set classes \<Longrightarrow> encode_year classes v = 0"
  by (cases v) auto

lemma encode_year_known:
  "y \<in> set classes \<Longrightarrow> encode_year classes (PStr y) = index_of y classes"
  by simp

lemma index_of_nth:
  "y \<in> set classes \<Longrightarrow> 0 \<le> index_of y classes \<and> index_of y classes < int (length classes) \<and> classes ! nat (index_of y classes) = y"
  by (induction classes) (auto simp: nat_add_distrib)

lemma extract_features_typed_aux:
  assumes "typed_profile d" and "label_encoders self ''year'' = Some classes"
  shows "\<exists>c i n e.
           extract_features_from_student fs self d =
             Inr [PFloat c, py_get d ''internships'' (PInt 0), py_get d ''projects'' (PInt 0),
                  PInt (int n), py_get d ''communication'' (PInt 6),
                  PInt (encode_year classes (py_get d ''year'' (PStr ''1st Year''))), e]
         \<and> as_num (py_get d ''cgpa'' (PFloat (13 / 2))) = Inr c
         \<and> py_len (py_get d ''certifications'' (PList [])) = Inr n
         \<and> as_num (py_get d ''internships'' (PInt 0)) = Inr i
         \<and> as_num e = Inr (min 10 (of_nat n + i))"
proof -
  from assms(1) obtain c where c: "as_num (py_get d ''cgpa'' (PFloat (13 / 2))) = Inr c"
    using num_or_missing_get [of d "''cgpa''" "PFloat (13 / 2)" "13 / 2"]
    by (auto simp: typed_profile_def)
  from assms(1) obtain i where i: "as_num (py_get d ''internships'' (PInt 0)) = Inr i"
    using num_or_missing_get [of d "''internships''" "PInt 0" 0]
    by (auto simp: typed_profile_def)
  from assms(1) obtain n where n: "py_len (py_get d ''certifications'' (PList [])) = Inr n"
    using list_field_len [of d "''certifications''"] by (auto simp: typed_profile_def)
  from int_plus_num [OF i, of "int n"] obtain t
    where t: "int_plus (int n) (py_get d ''internships'' (PInt 0)) = Inr t"
      "as_num t = Inr (of_int (int n) + i)" by blast
  from min_ten_num [OF t(2)] obtain e
    where e: "min_ten t = Inr e" "as_num e = Inr (min 10 (of_int (int n) + i))" by blast
  have "extract_features_from_student fs self d =
          Inr [PFloat c, py_get d ''internships'' (PInt 0), py_get d ''projects'' (PInt 0),
               PInt (int n), py_get d ''communication'' (PInt 6),
               PInt (encode_year classes (py_get d ''year'' (PStr ''1st Year''))), e]"
    unfolding extract_features_from_student_def
    by (simp only: py_float_num [OF c] n assms(2) t(1) e(1) and_then_Inr Let_def option.case)
  with c n i e(2) show ?thesis by auto
qed

text \<open>
  C3, as amended. Whenever the year encoder is stored (after \<open>train_model\<close> or
  \<open>load_model\<close>) and the fields the function computes with have their expected
  types (\<open>cgpa\<close> and \<open>internships\<close> numbers, \<open>certifications\<close> a list,
  \<open>year\<close> neither a list nor a dictionary, each of them possibly missing),
  \<open>extract_features_from_student\<close> raises nothing and returns the seven features
  \<open>[cgpa, internships, projects, certification_count, communication, year_encoded,
  extracurricular]\<close>, with the defaults 6.5, 0, 0, \<open>[]\<close>, 6 and \<open>'1st Year'\<close> for
  missing keys; the certification count is the length of the list, the
  extracurricular feature has the value \<open>min(10, certification_count + internships)\<close>,
  and a year that is not one of the encoder's classes is encoded as 0.
\<close>

theorem extract_features_from_student_typed:
  assumes "typed_profile d" and "label_encoders self ''year'' = Some classes"
  shows "(\<exists>c i n e.
           extract_features_from_student fs self d =
             Inr [PFloat c, py_get d ''internships'' (PInt 0), py_get d ''projects'' (PInt 0),
                  PInt (int n), py_get d ''communication'' (PInt 6),
                  PInt (encode_year classes (py_get d ''year'' (PStr ''1st Year''))), e]
         \<and> as_num (py_get d ''cgpa'' (PFloat (13 / 2))) = Inr c
         \<and> py_len (py_get d ''certifications'' (PList [])) = Inr n
         \<and> as_num (py_get d ''internships'' (PInt 0)) = Inr i
         \<and> as_num e = Inr (min 10 (of_nat n + i)))
       \<and> (py_get d ''year'' (PStr ''1st Year'') \<notin> PStr ` set classes \<longrightarrow>
            encode_year classes (py_get d ''year'' (PStr ''1st Year'')) = 0)"
  using extract_features_typed_aux [OF assms] encode_year_unknown by blast

text \<open>
  The test student of the source file, with the encoder \<open>train_model\<close> fits:
  the features are \<open>[8.5, 2, 5, 3, 8, 2, 5]\<close>.
\<close>

theorem extract_features_from_student_typed_witness:
  "typed_profile (Map.empty(''cgpa'' \<mapsto> PFloat (17 / 2), ''internships'' \<mapsto> PInt 2,
      ''projects'' \<mapsto> PInt 5,
      ''certifications'' \<mapsto> PList [PStr ''Python'', PStr ''Machine Learning'', PStr ''SQL''],
      ''communication'' \<mapsto> PInt 8, ''year'' \<mapsto> PStr ''3rd Year''))
   \<and> extract_features_from_student (\<lambda>s. None)
        ((init_predictor :: (unit, unit, unit) predictor)
           \<lparr>label_encoders := Map.empty(''year'' \<mapsto>
              [''1st Year'', ''2nd Year'', ''3rd Year'', ''4th Year''])\<rparr>)
        (Map.empty(''cgpa'' \<mapsto> PFloat (17 / 2), ''internships'' \<mapsto> PInt 2,
           ''projects'' \<mapsto> PInt 5,
           ''certifications'' \<mapsto> PList [PStr ''Python'', PStr ''Machine Learning'', PStr ''SQL''],
           ''communication'' \<mapsto> PInt 8, ''year'' \<mapsto> PStr ''3rd Year''))
      = Inr [PFloat (17 / 2), PInt 2, PInt 5, PInt 3, PInt 8, PInt 2, PInt 5]"
proof -
  let ?d = "Map.empty(''cgpa'' \<mapsto> PFloat (17 / 2), ''internships'' \<mapsto> PInt 2,
      ''projects'' \<mapsto> PInt 5,
      ''certifications'' \<mapsto> PList [PStr ''Python'', PStr ''Machine Learning'', PStr ''SQL''],
      ''communication'' \<mapsto> PInt 8, ''year'' \<mapsto> PStr ''3rd Year'')"
  let ?p = "(init_predictor :: (unit, unit, unit) predictor)
           \<lparr>label_encoders := Map.empty(''year'' \<mapsto>
              [''1st Year'', ''2nd Year'', ''3rd Year'', ''4th Year''])\<rparr>"
  have t: "typed_profile ?d"
    by (simp add: typed_profile_def num_or_missing_def list_field_def hashable_field_def)
  have l: "label_encoders ?p ''year'' = Some [''1st Year'', ''2nd Year'', ''3rd Year'', ''4th Year'']"
    by simp
  have g: "py_get ?d ''cgpa'' (PFloat (13 / 2)) = PFloat (17 / 2)"
    "py_get ?d ''internships'' (PInt 0) = PInt 2"
    "py_get ?d ''projects'' (PInt 0) = PInt 5"
    "py_get ?d ''certifications'' (PList []) = PList [PStr ''Python'', PStr ''Machine Learning'', PStr ''SQL'']"
    "py_get ?d ''communication'' (PInt 6) = PInt 8"
    "py_get ?d ''year'' (PStr ''1st Year'') = PStr ''3rd Year''"
    by (simp_all add: py_get_def)
  from extract_features_from_student_typed [OF t l, of "\<lambda>s. None"]
  obtain c i n e where
    r: "extract_features_from_student (\<lambda>s. None) ?p ?d =
          Inr [PFloat c, PInt 2, PInt 5, PInt (int n), PInt 8,
               PInt (encode_year [''1st Year'', ''2nd Year'', ''3rd Year'', ''4th Year'']
                       (PStr ''3rd Year'')), e]"
    and c: "c = 17 / 2" and n: "n = 3" and i: "i = 2"
    and e: "as_num e = Inr (min 10 (of_nat n + i))"
    unfolding g by auto
  from e n i have "e = PInt 5 \<or> e = PFloat 5" by (cases e) auto
  moreover have "extract_features_from_student (\<lambda>s. None) ?p ?d \<noteq>
     Inr [PFloat c, PInt 2, PInt 5, PInt (int n), PInt 8,
               PInt (encode_year [''1st Year'', ''2nd Year'', ''3rd Year'', ''4th Year'']
                       (PStr ''3rd Year'')), PFloat 5]"
    by (simp add: extract_features_from_student_def g Let_def)
  ultimately have "e = PInt 5" using r by auto
  with r c n t show ?thesis by simp
qed

text \<open>
  C3 as it is stated fails: the function is not total. On the predictor
  \<open>__init__\<close> builds, \<open>label_encoders\<close> is empty and line 143 raises \<open>KeyError\<close>
  for every dictionary, the empty one included; and with the encoder stored,
  \<open>{'cgpa': None}\<close> makes \<open>float(None)\<close> raise \<open>TypeError\<close> at line 126.
\<close>

theorem extract_features_from_student_total_counterexample:
  "extract_features_from_student (\<lambda>s. None)
      (init_predictor :: (unit, unit, unit) predictor) Map.empty = Inl KeyError
   \<and> extract_features_from_student (\<lambda>s. None)
        ((init_predictor :: (unit, unit, unit) predictor)
           \<lparr>label_encoders := Map.empty(''year'' \<mapsto>
              [''1st Year'', ''2nd Year'', ''3rd Year'', ''4th Year''])\<rparr>)
        (Map.empty(''cgpa'' \<mapsto> PNone)) = Inl TypeError"
  by (simp add: extract_features_from_student_def init_predictor_def py_get_def)

section \<open>Prediction\<close>

lemma predict_untrained: "model self = None \<Longrightarrow> predict sk fs self d = Inl ValueError"
  by (simp add: predict_def)

lemma predict_trained_numeric:
  assumes num: "numeric_profile d"
    and m: "model self = Some (Fitted f)"
    and s: "scaler self = Fitted sc"
    and l: "label_encoders self ''year'' = Some classes"
  shows "\<exists>feats xs. extract_features_from_student fs self d = Inr feats
           \<and> numeric_row feats = Inr xs
           \<and> predict sk fs self d = Inr (max 0 (min 100 (forest_row sk f (scaler_row sk sc xs))))"
proof -
  from num have t: "typed_profile d" by (simp add: numeric_profile_def)
  from extract_features_typed_aux [OF t l, of fs] obtain c i n e where
    fe: "extract_features_from_student fs self d =
          Inr [PFloat c, py_get d ''internships'' (PInt 0), py_get d ''projects'' (PInt 0),
               PInt (int n), py_get d ''communication'' (PInt 6),
               PInt (encode_year classes (py_get d ''year'' (PStr ''1st Year''))), e]"
    and i: "as_num (py_get d ''internships'' (PInt 0)) = Inr i"
    and e: "as_num e = Inr (min 10 (of_nat n + i))" by blast
  from num obtain p where p: "as_num (py_get d ''projects'' (PInt 0)) = Inr p"
    using num_or_missing_get [of d "''projects''" "PInt 0" 0]
    by (auto simp: numeric_profile_def)
  from num obtain k where k: "as_num (py_get d ''communication'' (PInt 6)) = Inr k"
    using num_or_missing_get [of d "''communication''" "PInt 6" 6]
    by (auto simp: numeric_profile_def)
  define feats where "feats = [PFloat c, py_get d ''internships'' (PInt 0),
      py_get d ''projects'' (PInt 0), PInt (int n), py_get d ''communication'' (PInt 6),
      PInt (encode_year classes (py_get d ''year'' (PStr ''1st Year''))), e]"
  define xs where "xs = [c, i, p, of_int (int n), k,
      of_int (encode_year classes (py_get d ''year'' (PStr ''1st Year''))), min 10 (of_nat n + i)]"
  have nr: "numeric_row feats = Inr xs"
    unfolding feats_def xs_def by (simp add: i p k e)
  have "predict sk fs self d = Inr (max 0 (min 100 (forest_row sk f (scaler_row sk sc xs))))"
    unfolding predict_def
    by (simp add: m s fe [folded feats_def] nr scaler_transform_def model_predict_def)
  with fe [folded feats_def] nr show ?thesis by blast
qed

text \<open>
  C9, as amended. \<open>predict\<close> raises \<open>ValueError\<close> for every dictionary when no
  model has been trained or loaded. On a predictor that is either without a model or
  in the state \<open>train_model\<close> leaves (forest and scaler fitted, year encoder
  stored), and for every dictionary whose fields are numbers, a list of
  certifications and a year that is neither a list nor a dictionary, \<open>predict\<close> raises \<open>ValueError\<close>
  exactly when there is no model, and otherwise returns the forest's output on the
  scaled features clamped with \<open>max(0, min(100, .))\<close>, which lies between 0 and 100
  whatever the raw output is.
\<close>

theorem predict_clamped:
  assumes "numeric_profile d" and "model self = None \<or> trained self"
  shows "(predict sk fs self d = Inl ValueError \<longleftrightarrow> model self = None)
       \<and> (model self = None \<longrightarrow> (\<forall>d'. predict sk fs self d' = Inl ValueError))
       \<and> (model self \<noteq> None \<longrightarrow>
            (\<exists>f sc feats xs raw.
                model self = Some (Fitted f) \<and> scaler self = Fitted sc
              \<and> extract_features_from_student fs self d = Inr feats
              \<and> numeric_row feats = Inr xs
              \<and> raw = forest_row sk f (scaler_row sk sc xs)
              \<and> predict sk fs self d = Inr (max 0 (min 100 raw))
              \<and> 0 \<le> max 0 (min 100 raw) \<and> max 0 (min 100 raw) \<le> 100))"
proof (cases "model self")
  case None
  then show ?thesis by (simp add: predict_untrained)
next
  case (Some m)
  with assms(2) have tr: "trained self" by simp
  then obtain f sc classes where st: "model self = Some (Fitted f)" "scaler self = Fitted sc"
    "label_encoders self ''year'' = Some classes"
    by (auto simp: trained_def split: option.splits estimator.splits)
  from predict_trained_numeric [OF assms(1) st, of fs sk] obtain feats xs where
    r: "extract_features_from_student fs self d = Inr feats" "numeric_row feats = Inr xs"
       "predict sk fs self d = Inr (max 0 (min 100 (forest_row sk f (scaler_row sk sc xs))))"
    by blast
  have "0 \<le> max 0 (min 100 (forest_row sk f (scaler_row sk sc xs)))"
    "max 0 (min 100 (forest_row sk f (scaler_row sk sc xs))) \<le> 100" by simp_all
  with st r Some show ?thesis by auto
qed

text \<open>
  The test student on the stand-in library: the raw output is
  \<open>10 * 33.5 = 335\<close>, and \<open>predict\<close> returns 100; on the predictor \<open>__init__\<close>
  builds, \<open>predict\<close> raises \<open>ValueError\<close>.
\<close>

theorem predict_clamped_witness:
  "numeric_profile (Map.empty(''cgpa'' \<mapsto> PFloat (17 / 2), ''internships'' \<mapsto> PInt 2,
      ''projects'' \<mapsto> PInt 5,
      ''certifications'' \<mapsto> PList [PStr ''Python'', PStr ''Machine Learning'', PStr ''SQL''],
      ''communication'' \<mapsto> PInt 8, ''year'' \<mapsto> PStr ''3rd Year''))
   \<and> trained demo_predictor
   \<and> predict demo_sklearn (\<lambda>s. None) demo_predictor
        (Map.empty(''cgpa'' \<mapsto> PFloat (17 / 2), ''internships'' \<mapsto> PInt 2,
           ''projects'' \<mapsto> PInt 5,
           ''certifications'' \<mapsto> PList [PStr ''Python'', PStr ''Machine Learning'', PStr ''SQL''],
           ''communication'' \<mapsto> PInt 8, ''year'' \<mapsto> PStr ''3rd Year'')) = Inr 100
   \<and> predict demo_sklearn (\<lambda>s. None) (init_predictor :: (unit, unit, unit) predictor)
        (Map.empty(''cgpa'' \<mapsto> PFloat (17 / 2))) = Inl ValueError"
proof -
  let ?d = "Map.empty(''cgpa'' \<mapsto> PFloat (17 / 2), ''internships'' \<mapsto> PInt 2,
      ''projects'' \<mapsto> PInt 5,
      ''certifications'' \<mapsto> PList [PStr ''Python'', PStr ''Machine Learning'', PStr ''SQL''],
      ''communication'' \<mapsto> PInt 8, ''year'' \<mapsto> PStr ''3rd Year'')"
  let ?p0 = "init_predictor :: (unit, unit, unit) predictor"
  have n: "numeric_profile ?d"
    by (simp add: numeric_profile_def typed_profile_def num_or_missing_def list_field_def
          hashable_field_def)
  have n1: "numeric_profile (Map.empty(''cgpa'' \<mapsto> PFloat (17 / 2)))"
    by (simp add: numeric_profile_def typed_profile_def num_or_missing_def list_field_def
          hashable_field_def)
  have t: "trained demo_predictor" by (simp add: trained_def demo_predictor_def)
  have m0: "model ?p0 = None" by (simp add: init_predictor_def)
  have g: "py_get ?d ''cgpa'' (PFloat (13 / 2)) = PFloat (17 / 2)"
    "py_get ?d ''internships'' (PInt 0) = PInt 2"
    "py_get ?d ''projects'' (PInt 0) = PInt 5"
    "py_get ?d ''certifications'' (PList []) = PList [PStr ''Python'', PStr ''Machine Learning'', PStr ''SQL'']"
    "py_get ?d ''communication'' (PInt 6) = PInt 8"
    "py_get ?d ''year'' (PStr ''1st Year'') = PStr ''3rd Year''"
    by (simp_all add: py_get_def)
  have fe: "extract_features_from_student (\<lambda>s. None) demo_predictor ?d =
       Inr [PFloat (17 / 2), PInt 2, PInt 5, PInt 3, PInt 8, PInt 2, PInt 5]"
    by (simp add: extract_features_from_student_def g Let_def demo_predictor_def)
  have mp: "model demo_predictor \<noteq> None" by (simp add: demo_predictor_def)
  from predict_clamped [OF n disjI2 [OF t], of demo_sklearn "\<lambda>s. None"] mp
  obtain f sc feats xs raw where
    r: "extract_features_from_student (\<lambda>s. None) demo_predictor ?d = Inr feats"
       "numeric_row feats = Inr xs"
       "raw = forest_row demo_sklearn f (scaler_row demo_sklearn sc xs)"
       "predict demo_sklearn (\<lambda>s. None) demo_predictor ?d = Inr (max 0 (min 100 raw))"
    by blast
  from r(1) fe have "feats = [PFloat (17 / 2), PInt 2, PInt 5, PInt 3, PInt 8, PInt 2, PInt 5]"
    by simp
  with r(2) have "xs = [17 / 2, 2, 5, 3, 8, 2, 5]" by simp
  with r(3) have "raw = 335" by (simp add: demo_sklearn_def)
  with r(4) have a: "predict demo_sklearn (\<lambda>s. None) demo_predictor ?d = Inr 100"
    by simp
  from predict_clamped [OF n1 disjI1 [OF m0], of demo_sklearn "\<lambda>s. None"] m0
  have b: "predict demo_sklearn (\<lambda>s. None) ?p0 (Map.empty(''cgpa'' \<mapsto> PFloat (17 / 2)))
             = Inl ValueError" by blast
  show ?thesis using n t a b by simp
qed

text \<open>
  C9 as it is stated fails: with a model present, \<open>{'cgpa': None}\<close> makes
  \<open>predict\<close> raise \<open>TypeError\<close> (from \<open>float(None)\<close> in the feature extraction),
  so no prediction in \<open>[0, 100]\<close> is returned for that dictionary.
\<close>

theorem predict_ill_typed_counterexample:
  "model demo_predictor \<noteq> None
   \<and> predict demo_sklearn (\<lambda>s. None) demo_predictor (Map.empty(''cgpa'' \<mapsto> PNone))
       = Inl TypeError
   \<and> \<not> (\<forall>d. \<exists>r. predict demo_sklearn (\<lambda>s. None) demo_predictor d = Inr r
                 \<and> 0 \<le> r \<and> r \<le> 100)"
proof -
  have v: "predict demo_sklearn (\<lambda>s. None) demo_predictor (Map.empty(''cgpa'' \<mapsto> PNone))
       = Inl TypeError"
    by (simp add: predict_def demo_predictor_def extract_features_from_student_def py_get_def)
  have "\<not> (\<exists>r. predict demo_sklearn (\<lambda>s. None) demo_predictor
                 (Map.empty(''cgpa'' \<mapsto> PNone)) = Inr r \<and> 0 \<le> r \<and> r \<le> 100)"
    unfolding v by simp
  moreover have "model demo_predictor \<noteq> None" by (simp add: demo_predictor_def)
  ultimately show ?thesis using v by blast
qed

section \<open>Synthetic data\<close>

lemma draws_one: "draws f (Suc 0) g = (case f g of (x, g1) \<Rightarrow> ([x], g1))"
  by (simp split: prod.splits)

lemma normalize_single: "normalize (series_min [v]) (series_max [v]) v = NaN"
  by (cases v) (simp_all add: normalize_def series_min_def series_max_def
        List.map_filter_simps fl_div_def)

lemma build_frame_single:
  "build_frame (Suc 0) [a] [b] [c] [d] [e] [y] [x] [z] =
     [\<lparr>cgpa = clip 5 10 a, internships = clip 0 5 (int b), projects = clip 0 10 (int c),
       certification_count = clip 0 8 (int d), communication_skills = e, year = y,
       extracurricular_score = x, employability_score = NaN\<rparr>]"
  by (simp add: build_frame_def Let_def normalize_single)

text \<open>
  C2. The employability score of a frame of one row is \<open>NaN\<close>, for every sampler
  and every state of the generator: the minimum and the maximum of the weighted sum
  are the sum of that row, the normalisation divides 0 by 0, and neither the noise nor
  the clip changes a \<open>NaN\<close>. So for \<open>n_samples = 1\<close> the score of the returned row
  is not in \<open>[0, 100]\<close>.
\<close>

theorem generate_synthetic_data_single_sample:
  "\<exists>r g'. generate_synthetic_data np 1 g = (Inr [r], g') \<and> employability_score r = NaN"
  by (simp add: generate_synthetic_data_def Let_def draws_one build_frame_single
        split: prod.splits)

text \<open>
  What does hold for every size: the four clipped columns are within their bounds,
  and the score of a row is a number between 0 and 100 whenever it is a number.
\<close>

lemma length_draws: "length (fst (draws f n g)) = n"
  by (induction n arbitrary: g) (simp_all add: case_prod_beta)

lemma clip_bounds: "lo \<le> hi \<Longrightarrow> lo \<le> clip lo hi x \<and> clip lo hi x \<le> hi"
  by (auto simp: clip_def)

lemma fl_clip_cases:
  "lo \<le> hi \<Longrightarrow> fl_clip lo hi v = NaN \<or> (\<exists>x. fl_clip lo hi v = Fin x \<and> lo \<le> x \<and> x \<le> hi)"
  by (cases v) (auto simp: clip_def)

lemma build_frame_bounds:
  assumes "r \<in> set (build_frame n s1 s2 s3 s4 s5 s6 s7 noise)"
    and "length s1 = n" "length s2 = n" "length s3 = n" "length s4 = n"
  shows "5 \<le> cgpa r \<and> cgpa r \<le> 10 \<and> 0 \<le> internships r \<and> internships r \<le> 5
       \<and> 0 \<le> projects r \<and> projects r \<le> 10
       \<and> 0 \<le> certification_count r \<and> certification_count r \<le> 8
       \<and> (employability_score r = NaN
            \<or> (\<exists>x. employability_score r = Fin x \<and> 0 \<le> x \<and> x \<le> 100))"
proof -
  from assms(1) obtain k where k: "k < n" and r: "r = build_frame n s1 s2 s3 s4 s5 s6 s7 noise ! k"
    by (auto simp: build_frame_def Let_def in_set_conv_nth)
  have len: "length (build_frame n s1 s2 s3 s4 s5 s6 s7 noise) = n"
    by (simp add: build_frame_def Let_def)
  have c: "cgpa r = clip 5 10 (s1 ! k)" "internships r = clip 0 5 (int (s2 ! k))"
    "projects r = clip 0 10 (int (s3 ! k))" "certification_count r = clip 0 8 (int (s4 ! k))"
    using k assms(2-5) unfolding r by (simp_all add: build_frame_def Let_def)
  have "\<exists>v. employability_score r = fl_clip 0 100 v"
    using k unfolding r by (simp add: build_frame_def Let_def del: ex_simps) (rule exI, rule refl)
  then obtain v where e: "employability_score r = fl_clip 0 100 v" by blast
  have s: "employability_score r = NaN
            \<or> (\<exists>x. employability_score r = Fin x \<and> 0 \<le> x \<and> x \<le> 100)"
    unfolding e using fl_clip_cases [of 0 100 v] by simp
  have "5 \<le> cgpa r \<and> cgpa r \<le> 10" unfolding c using clip_bounds [of 5 10 "s1 ! k"] by simp
  moreover have "0 \<le> internships r \<and> internships r \<le> 5"
    unfolding c using clip_bounds [of 0 5 "int (s2 ! k)"] by simp
  moreover have "0 \<le> projects r \<and> projects r \<le> 10"
    unfolding c using clip_bounds [of 0 10 "int (s3 ! k)"] by simp
  moreover have "0 \<le> certification_count r \<and> certification_count r \<le> 8"
    unfolding c using clip_bounds [of 0 8 "int (s4 ! k)"] by simp
  ultimately show ?thesis using s by simp
qed

lemma generated_rows_bounded:
  assumes "generate_synthetic_data np n g = (Inr df, g')" and "r \<in> set df"
  shows "5 \<le> cgpa r \<and> cgpa r \<le> 10 \<and> 0 \<le> internships r \<and> internships r \<le> 5
       \<and> 0 \<le> projects r \<and> projects r \<le> 10
       \<and> 0 \<le> certification_count r \<and> certification_count r \<le> 8
       \<and> (employability_score r = NaN
            \<or> (\<exists>x. employability_score r = Fin x \<and> 0 \<le> x \<and> x \<le> 100))"
proof -
  from assms(1) have nn: "\<not> n < 0"
    by (auto simp: generate_synthetic_data_def Let_def split: if_splits)
  define g0 where "g0 = random_seed np 42"
  define d1 where "d1 = draws (random_normal np (15 / 2) (6 / 5)) (nat n) g0"
  define d2 where "d2 = draws (random_poisson np (6 / 5)) (nat n) (snd d1)"
  define d3 where "d3 = draws (random_poisson np 3) (nat n) (snd d2)"
  define d4 where "d4 = draws (random_poisson np 2) (nat n) (snd d3)"
  define d5 where "d5 = draws (random_randint np 4 11) (nat n) (snd d4)"
  define d6 where "d6 = draws (random_choice np [''1st Year'', ''2nd Year'', ''3rd Year'', ''4th Year''])
                          (nat n) (snd d5)"
  define d7 where "d7 = draws (random_randint np 0 11) (nat n) (snd d6)"
  define d8 where "d8 = draws (random_normal np 0 5) (nat n) (snd d7)"
  have "generate_synthetic_data np n g =
          (Inr (build_frame (nat n) (fst d1) (fst d2) (fst d3) (fst d4) (fst d5) (fst d6)
                  (fst d7) (fst d8)), snd d8)"
    using nn unfolding d1_def d2_def d3_def d4_def d5_def d6_def d7_def d8_def g0_def
    by (simp add: generate_synthetic_data_def Let_def split: prod.splits)
  with assms have "r \<in> set (build_frame (nat n) (fst d1) (fst d2) (fst d3) (fst d4) (fst d5)
                  (fst d6) (fst d7) (fst d8))" by simp
  then show ?thesis
    by (rule build_frame_bounds) (simp_all add: d1_def d2_def d3_def d4_def length_draws)
qed

section \<open>Training\<close>

lemma seq_emit [simp]: "seq (emit ev) f s = f () (s\<lparr>events := events s @ [ev]\<rparr>)"
  by (simp add: seq_def emit_def)

lemma seq_new_forest [simp]:
  "seq new_forest_step f s = f () (s\<lparr>trainee := (trainee s)\<lparr>model := Some Unfitted\<rparr>\<rparr>)"
  by (simp add: seq_def new_forest_step_def)

lemma select_features_row: "select_features (r, index_of (year r) classes) = feature_row classes r"
  by (simp add: select_features_def feature_row_def)

lemma seq_preprocess [simp]:
  "seq (preprocess_data df) f s =
     f (map (feature_row (label_fit (map year df))) df, map employability_score df)
       (s\<lparr>trainee := (trainee s)\<lparr>label_encoders :=
              (label_encoders (trainee s))(''year'' \<mapsto> label_fit (map year df))\<rparr>,
           events := events s @ [EncodeYear, SelectFeatures]\<rparr>)"
  by (simp add: seq_def preprocess_data_def encode_year_step_def select_step_def Let_def
        select_features_row comp_def)

lemma generate_independent:
  "generate_synthetic_data np n g1 = generate_synthetic_data np n g2"
  by (simp add: generate_synthetic_data_def)

lemma train_model_success:
  assumes "train_model sk np n s = (Inr r, s')"
  shows "\<exists>df g sc train test m ex mae r2.
       generate_synthetic_data np n (rng s) = (Inr df, g)
     \<and> scaler_fit sk (map (feature_row (label_fit (map year df))) df) = Inr sc
     \<and> train_test_split sk
          (map (scaler_row sk sc) (map (feature_row (label_fit (map year df))) df))
          (map employability_score df) = Inr (train, test)
     \<and> forest_fit sk (fst train) (snd train) = Inr m
     \<and> tree_explainer sk m = Inr ex
     \<and> metrics sk (snd test) (map (forest_row sk m) (fst test)) = Inr (mae, r2)
     \<and> s' = \<lparr>trainee = (trainee s)\<lparr>model := Some (Fitted m), scaler := Fitted sc,
                   label_encoders := (label_encoders (trainee s))(''year'' \<mapsto> label_fit (map year df)),
                   explainer := Some ex\<rparr>,
              rng = g, events = events s @ training_events n\<rparr>
     \<and> r = (Some (Fitted m), Fitted sc,
            (label_encoders (trainee s))(''year'' \<mapsto> label_fit (map year df)))"
  using assms
  unfolding train_model_def
  apply (simp add: seq_def [of "generate_step np n"] generate_step_def split: prod.splits sum.splits)
  apply (simp add: seq_def [of "fit_transform_step sk _"] fit_transform_step_def split: prod.splits sum.splits)
  apply (simp add: seq_def [of "split_step sk _ _"] split_step_def split: prod.splits sum.splits)
  apply (simp add: seq_def [of "fit_step sk _ _"] fit_step_def split: prod.splits sum.splits)
  apply (simp add: seq_def [of "explainer_step sk _"] explainer_step_def split: prod.splits sum.splits)
  apply (simp add: seq_def [of "evaluate_step sk _ _ _"] evaluate_step_def split: prod.splits sum.splits)
  apply (auto simp: training_events_def)
  done

text \<open>
  Where a run of \<open>train_model\<close> can stop, and what it has done to the predictor by
  then. \<open>s1\<close> is the session the run leaves, whether it returns or raises.
\<close>

lemma train_model_progress:
  fixes sk :: "('s, 'm, 'e) sklearn" and np :: "'g numpy" and n :: int
    and s :: "('g, 's, 'm, 'e) session"
  defines "s1 \<equiv> snd (train_model sk np n s)"
  shows "(\<exists>k. events s1 = events s @ take k (training_events n))
     \<and> (explainer (trainee s1) = explainer (trainee s)
          \<or> (\<exists>m ex. model (trainee s1) = Some (Fitted m) \<and> tree_explainer sk m = Inr ex
                 \<and> explainer (trainee s1) = Some ex))
     \<and> (model (trainee s1) = model (trainee s) \<or> (\<exists>sc. scaler (trainee s1) = Fitted sc))
     \<and> (scaler (trainee s1) = scaler (trainee s)
          \<or> (\<exists>classes. label_encoders (trainee s1) ''year'' = Some classes))"
proof -
  obtain r0 g where gen: "generate_synthetic_data np n (rng s) = (r0, g)"
    by (cases "generate_synthetic_data np n (rng s)")
  show ?thesis
  proof (cases r0)
    case df: (Inl e)
    have "events s1 = events s @ take 2 (training_events n) \<and> trainee s1 = trainee s"
      unfolding s1_def train_model_def
      by (simp add: seq_def [of "generate_step np n"] generate_step_def gen df training_events_def)
    then show ?thesis by metis
  next
    case df: (Inr df)
    define X where "X = map (feature_row (label_fit (map year df))) df"
    define y where "y = map employability_score df"
    show ?thesis
    proof (cases "scaler_fit sk X")
      case (Inl e)
      have "events s1 = events s @ take 7 (training_events n)
          \<and> explainer (trainee s1) = explainer (trainee s)
          \<and> model (trainee s1) = model (trainee s)
          \<and> label_encoders (trainee s1) ''year'' = Some (label_fit (map year df))"
        unfolding s1_def train_model_def
        by (simp add: seq_def [of "generate_step np n"] generate_step_def gen df
              seq_def [of "fit_transform_step sk _"] fit_transform_step_def Inl [unfolded X_def]
              training_events_def)
      then show ?thesis by metis
    next
      case sc: (Inr sc)
      show ?thesis
      proof (cases "train_test_split sk (map (scaler_row sk sc) X) y")
        case (Inl e)
        have "events s1 = events s @ take 9 (training_events n)
            \<and> explainer (trainee s1) = explainer (trainee s)
            \<and> scaler (trainee s1) = Fitted sc
            \<and> label_encoders (trainee s1) ''year'' = Some (label_fit (map year df))"
          unfolding s1_def train_model_def
          by (simp add: seq_def [of "generate_step np n"] generate_step_def gen df
              seq_def [of "fit_transform_step sk _"] fit_transform_step_def sc [unfolded X_def]
              seq_def [of "split_step sk _ _"] split_step_def Inl [unfolded X_def y_def, simplified]
              training_events_def)
        then show ?thesis by metis
      next
        case sp: (Inr parts)
        obtain X_train y_train X_test y_test where parts: "parts = ((X_train, y_train), (X_test, y_test))"
          by (cases parts) auto
        show ?thesis
        proof (cases "forest_fit sk X_train y_train")
          case (Inl e)
          have "events s1 = events s @ take 10 (training_events n)
              \<and> explainer (trainee s1) = explainer (trainee s)
              \<and> scaler (trainee s1) = Fitted sc
              \<and> label_encoders (trainee s1) ''year'' = Some (label_fit (map year df))"
            unfolding s1_def train_model_def
            by (simp add: seq_def [of "generate_step np n"] generate_step_def gen df
              seq_def [of "fit_transform_step sk _"] fit_transform_step_def sc [unfolded X_def]
              seq_def [of "split_step sk _ _"] split_step_def sp [unfolded X_def y_def, simplified] parts
              seq_def [of "fit_step sk _ _"] fit_step_def Inl
              training_events_def)
          then show ?thesis by metis
        next
          case m: (Inr m)
          show ?thesis
          proof (cases "tree_explainer sk m")
            case (Inl e)
            have "events s1 = events s @ take 12 (training_events n)
                \<and> explainer (trainee s1) = explainer (trainee s)
                \<and> scaler (trainee s1) = Fitted sc
                \<and> label_encoders (trainee s1) ''year'' = Some (label_fit (map year df))"
              unfolding s1_def train_model_def
              by (simp add: seq_def [of "generate_step np n"] generate_step_def gen df
                seq_def [of "fit_transform_step sk _"] fit_transform_step_def sc [unfolded X_def]
                seq_def [of "split_step sk _ _"] split_step_def sp [unfolded X_def y_def, simplified] parts
                seq_def [of "fit_step sk _ _"] fit_step_def m
                seq_def [of "explainer_step sk _"] explainer_step_def Inl
                training_events_def)
            then show ?thesis by metis
          next
            case ex: (Inr ex)
            show ?thesis
            proof (cases "metrics sk y_test (map (forest_row sk m) X_test)")
              case (Inl e)
              have "events s1 = events s @ take 13 (training_events n)
                  \<and> model (trainee s1) = Some (Fitted m)
                  \<and> explainer (trainee s1) = Some ex
                  \<and> scaler (trainee s1) = Fitted sc
                  \<and> label_encoders (trainee s1) ''year'' = Some (label_fit (map year df))"
                unfolding s1_def train_model_def
                by (simp add: seq_def [of "generate_step np n"] generate_step_def gen df
                  seq_def [of "fit_transform_step sk _"] fit_transform_step_def sc [unfolded X_def]
                  seq_def [of "split_step sk _ _"] split_step_def sp [unfolded X_def y_def, simplified] parts
                  seq_def [of "fit_step sk _ _"] fit_step_def m
                  seq_def [of "explainer_step sk _"] explainer_step_def ex
                  seq_def [of "evaluate_step sk _ _ _"] evaluate_step_def Inl
                  training_events_def)
              with ex show ?thesis by metis
            next
              case (Inr mt)
              have "events s1 = events s @ take 14 (training_events n)
                  \<and> model (trainee s1) = Some (Fitted m)
                  \<and> explainer (trainee s1) = Some ex
                  \<and> scaler (trainee s1) = Fitted sc
                  \<and> label_encoders (trainee s1) ''year'' = Some (label_fit (map year df))"
                unfolding s1_def train_model_def
                by (simp add: seq_def [of "generate_step np n"] generate_step_def gen df
                  seq_def [of "fit_transform_step sk _"] fit_transform_step_def sc [unfolded X_def]
                  seq_def [of "split_step sk _ _"] split_step_def sp [unfolded X_def y_def, simplified] parts
                  seq_def [of "fit_step sk _ _"] fit_step_def m
                  seq_def [of "explainer_step sk _"] explainer_step_def ex
                  seq_def [of "evaluate_step sk _ _ _"] evaluate_step_def Inr
                  training_events_def split: prod.splits)
              with ex show ?thesis by metis
            qed
          qed
        qed
      qed
    qed
  qed
qed

lemma draws_two: "draws f (Suc (Suc 0)) g =
   (case f g of (x, g1) \<Rightarrow> case f g1 of (y, g2) \<Rightarrow> ([x, y], g2))"
  by (simp split: prod.splits)

lemma demo_classes: "label_fit [''1st Year'', ''2nd Year''] = [''1st Year'', ''2nd Year'']"
  by (simp add: label_fit_def)

lemma predict_after_training:
  assumes "model p = Some (Fitted m)" and "scaler p = Fitted sc"
  shows "predict sk fs p d =
           and_then (extract_features_from_student fs p d) (\<lambda>features.
           and_then (numeric_row features) (\<lambda>xs.
             Inr (max 0 (min 100 (forest_row sk m (scaler_row sk sc xs))))))"
  by (cases "extract_features_from_student fs p d"; cases "numeric_row (projr (extract_features_from_student fs p d))")
     (simp_all add: predict_def assms scaler_transform_def model_predict_def)

lemma training_set_of_run:
  assumes "generate_synthetic_data np n g = (Inr df, g')"
    and "scaler_fit sk (map (feature_row (label_fit (map year df))) df) = Inr sc"
    and "train_test_split sk
          (map (scaler_row sk sc) (map (feature_row (label_fit (map year df))) df))
          (map employability_score df) = Inr (train, test)"
  shows "training_set sk np n g = Some train"
  using assms by (simp add: training_set_def Let_def)

lemma zip_map_same: "zip xs (map f xs) = map (\<lambda>x. (x, f x)) xs"
  by (induction xs) simp_all

lemma feature_rows_zip:
  "map (feature_row classes) df =
     map (\<lambda>(r, c). [cgpa r, of_int (internships r), of_int (projects r),
                      of_int (certification_count r), of_int (communication_skills r),
                      of_int c, of_int (extracurricular_score r)])
       (zip df (map (\<lambda>r. index_of (year r) classes) df))"
  by (simp add: zip_map_same feature_row_def comp_def)

lemma year_codes:
  assumes "i < length df"
  shows "0 \<le> map (\<lambda>r. index_of (year r) (label_fit (map year df))) df ! i
       \<and> nat (map (\<lambda>r. index_of (year r) (label_fit (map year df))) df ! i)
            < length (label_fit (map year df))
       \<and> label_fit (map year df) ! nat (map (\<lambda>r. index_of (year r) (label_fit (map year df))) df ! i)
            = year (df ! i)"
proof -
  have "year (df ! i) \<in> set (label_fit (map year df))"
    using assms by (simp add: label_fit_def)
  from index_of_nth [OF this] assms show ?thesis by auto
qed

text \<open>
  C1. Every run of \<open>train_model\<close>, returning or raising, goes through an initial
  part of the stages in their order: generate the data, encode the year, select the
  features, fit the scaler and scale, split and train the forest, create the
  explainer, evaluate. Whatever the run does, it replaces the explainer only by an
  explainer made from the forest it has fitted, it replaces the forest only once the
  scaler is fitted, and it touches the scaler only once the year encoder is stored.
  When the run returns, all stages have run. The encoder's classes are the distinct
  years of the generated frame in increasing order, the code of a row is the position
  of its year among them, and the rows handed to the scaler are the seven features
  cgpa, internships, projects, certification count, communication skills, year code
  and extracurricular score of the rows of the frame. The scaler is fitted on these
  rows, the forest on the training part of the split of the scaled rows, and the
  explainer is made from the fitted forest; these are what the predictor holds and
  \<open>train_model\<close> returns. \<open>predict\<close> on the predictor the run leaves scales the
  extracted features with that fitted scaler and passes the scaled row to that forest.
\<close>

theorem train_model_stage_order:
  "(\<exists>k. events (snd (train_model sk np n s)) = events s @ take k (training_events n))
   \<and> (explainer (trainee (snd (train_model sk np n s))) = explainer (trainee s)
        \<or> (\<exists>m ex. model (trainee (snd (train_model sk np n s))) = Some (Fitted m)
               \<and> tree_explainer sk m = Inr ex
               \<and> explainer (trainee (snd (train_model sk np n s))) = Some ex))
   \<and> (model (trainee (snd (train_model sk np n s))) = model (trainee s)
        \<or> (\<exists>sc. scaler (trainee (snd (train_model sk np n s))) = Fitted sc))
   \<and> (scaler (trainee (snd (train_model sk np n s))) = scaler (trainee s)
        \<or> (\<exists>classes. label_encoders (trainee (snd (train_model sk np n s))) ''year'' = Some classes))
   \<and> (\<forall>r s'. train_model sk np n s = (Inr r, s') \<longrightarrow>
        (\<exists>df g classes year_encoded X sc train test m ex.
            generate_synthetic_data np n (rng s) = (Inr df, g)
          \<and> classes = sort (remdups (map year df))
          \<and> length year_encoded = length df
          \<and> (\<forall>i<length df. 0 \<le> year_encoded ! i \<and> nat (year_encoded ! i) < length classes
                  \<and> classes ! nat (year_encoded ! i) = year (df ! i))
          \<and> X = map (\<lambda>(r, c). [cgpa r, of_int (internships r), of_int (projects r),
                                 of_int (certification_count r), of_int (communication_skills r),
                                 of_int c, of_int (extracurricular_score r)])
                    (zip df year_encoded)
          \<and> scaler_fit sk X = Inr sc
          \<and> train_test_split sk (map (scaler_row sk sc) X) (map employability_score df)
               = Inr (train, test)
          \<and> forest_fit sk (fst train) (snd train) = Inr m
          \<and> tree_explainer sk m = Inr ex
          \<and> events s' = events s @
               [UiInfo ''Generating synthetic training data...'', GenerateData n,
                UiInfo ''Preprocessing data...'', EncodeYear, SelectFeatures,
                UiInfo ''Scaling features...'', FitTransform,
                UiInfo ''Training Random Forest model...'', SplitData, TrainForest,
                UiInfo ''Creating SHAP explainer...'', CreateExplainer, EvaluateForest, UiSuccess]
          \<and> r = (Some (Fitted m), Fitted sc, (label_encoders (trainee s))(''year'' \<mapsto> classes))
          \<and> model (trainee s') = Some (Fitted m)
          \<and> scaler (trainee s') = Fitted sc
          \<and> label_encoders (trainee s') ''year'' = Some classes
          \<and> explainer (trainee s') = Some ex
          \<and> (\<forall>d. predict sk fs (trainee s') d =
                 and_then (extract_features_from_student fs (trainee s') d) (\<lambda>features.
                 and_then (numeric_row features) (\<lambda>xs.
                   Inr (max 0 (min 100 (forest_row sk m (scaler_row sk sc xs)))))))))"
proof -
  have "\<forall>r s'. train_model sk np n s = (Inr r, s') \<longrightarrow>
        (\<exists>df g classes year_encoded X sc train test m ex.
            generate_synthetic_data np n (rng s) = (Inr df, g)
          \<and> classes = sort (remdups (map year df))
          \<and> length year_encoded = length df
          \<and> (\<forall>i<length df. 0 \<le> year_encoded ! i \<and> nat (year_encoded ! i) < length classes
                  \<and> classes ! nat (year_encoded ! i) = year (df ! i))
          \<and> X = map (\<lambda>(r, c). [cgpa r, of_int (internships r), of_int (projects r),
                                 of_int (certification_count r), of_int (communication_skills r),
                                 of_int c, of_int (extracurricular_score r)])
                    (zip df year_encoded)
          \<and> scaler_fit sk X = Inr sc
          \<and> train_test_split sk (map (scaler_row sk sc) X) (map employability_score df)
               = Inr (train, test)
          \<and> forest_fit sk (fst train) (snd train) = Inr m
          \<and> tree_explainer sk m = Inr ex
          \<and> events s' = events s @
               [UiInfo ''Generating synthetic training data...'', GenerateData n,
                UiInfo ''Preprocessing data...'', EncodeYear, SelectFeatures,
                UiInfo ''Scaling features...'', FitTransform,
                UiInfo ''Training Random Forest model...'', SplitData, TrainForest,
                UiInfo ''Creating SHAP explainer...'', CreateExplainer, EvaluateForest, UiSuccess]
          \<and> r = (Some (Fitted m), Fitted sc, (label_encoders (trainee s))(''year'' \<mapsto> classes))
          \<and> model (trainee s') = Some (Fitted m)
          \<and> scaler (trainee s') = Fitted sc
          \<and> label_encoders (trainee s') ''year'' = Some classes
          \<and> explainer (trainee s') = Some ex
          \<and> (\<forall>d. predict sk fs (trainee s') d =
                 and_then (extract_features_from_student fs (trainee s') d) (\<lambda>features.
                 and_then (numeric_row features) (\<lambda>xs.
                   Inr (max 0 (min 100 (forest_row sk m (scaler_row sk sc xs))))))))"
  proof (intro allI impI)
    fix r s'
    assume run: "train_model sk np n s = (Inr r, s')"
    from train_model_success [OF run] obtain df g sc train test m ex where
      a: "generate_synthetic_data np n (rng s) = (Inr df, g)"
         "scaler_fit sk (map (feature_row (label_fit (map year df))) df) = Inr sc"
         "train_test_split sk
            (map (scaler_row sk sc) (map (feature_row (label_fit (map year df))) df))
            (map employability_score df) = Inr (train, test)"
         "forest_fit sk (fst train) (snd train) = Inr m"
         "tree_explainer sk m = Inr ex"
      and s': "s' = \<lparr>trainee = (trainee s)\<lparr>model := Some (Fitted m), scaler := Fitted sc,
                     label_encoders := (label_encoders (trainee s))(''year'' \<mapsto> label_fit (map year df)),
                     explainer := Some ex\<rparr>,
                rng = g, events = events s @ training_events n\<rparr>"
      and r: "r = (Some (Fitted m), Fitted sc,
              (label_encoders (trainee s))(''year'' \<mapsto> label_fit (map year df)))"
      by blast
    let ?classes = "sort (remdups (map year df))"
    let ?codes = "map (\<lambda>r. index_of (year r) ?classes) df"
    let ?X = "map (\<lambda>(r, c). [cgpa r, of_int (internships r), of_int (projects r),
                                 of_int (certification_count r), of_int (communication_skills r),
                                 of_int c, of_int (extracurricular_score r)])
                (zip df ?codes)"
    have lf: "label_fit (map year df) = ?classes" by (simp add: label_fit_def)
    have X: "map (feature_row (label_fit (map year df))) df = ?X"
      unfolding lf by (rule feature_rows_zip)
    have codes: "\<forall>i<length df. 0 \<le> ?codes ! i \<and> nat (?codes ! i) < length ?classes
                  \<and> ?classes ! nat (?codes ! i) = year (df ! i)"
      using year_codes [of _ df] unfolding lf by blast
    have len: "length ?codes = length df" by simp
    have b: "events s' = events s @
               [UiInfo ''Generating synthetic training data...'', GenerateData n,
                UiInfo ''Preprocessing data...'', EncodeYear, SelectFeatures,
                UiInfo ''Scaling features...'', FitTransform,
                UiInfo ''Training Random Forest model...'', SplitData, TrainForest,
                UiInfo ''Creating SHAP explainer...'', CreateExplainer, EvaluateForest, UiSuccess]"
      "model (trainee s') = Some (Fitted m)"
      "scaler (trainee s') = Fitted sc"
      "label_encoders (trainee s') ''year'' = Some ?classes"
      "explainer (trainee s') = Some ex"
      by (simp_all add: s' training_events_def lf)
    have r': "r = (Some (Fitted m), Fitted sc, (label_encoders (trainee s))(''year'' \<mapsto> ?classes))"
      using r by (simp add: lf)
    have c: "\<forall>d. predict sk fs (trainee s') d =
                   and_then (extract_features_from_student fs (trainee s') d) (\<lambda>features.
                   and_then (numeric_row features) (\<lambda>xs.
                     Inr (max 0 (min 100 (forest_row sk m (scaler_row sk sc xs))))))"
      using predict_after_training [OF b(2) b(3)] by blast
    have a2: "scaler_fit sk ?X = Inr sc" using a(2) unfolding X .
    have a3: "train_test_split sk (map (scaler_row sk sc) ?X) (map employability_score df)
               = Inr (train, test)" using a(3) unfolding X .
    show "(\<exists>df g classes year_encoded X sc train test m ex.
            generate_synthetic_data np n (rng s) = (Inr df, g)
          \<and> classes = sort (remdups (map year df))
          \<and> length year_encoded = length df
          \<and> (\<forall>i<length df. 0 \<le> year_encoded ! i \<and> nat (year_encoded ! i) < length classes
                  \<and> classes ! nat (year_encoded ! i) = year (df ! i))
          \<and> X = map (\<lambda>(r, c). [cgpa r, of_int (internships r), of_int (projects r),
                                 of_int (certification_count r), of_int (communication_skills r),
                                 of_int c, of_int (extracurricular_score r)])
                    (zip df year_encoded)
          \<and> scaler_fit sk X = Inr sc
          \<and> train_test_split sk (map (scaler_row sk sc) X) (map employability_score df)
               = Inr (train, test)
          \<and> forest_fit sk (fst train) (snd train) = Inr m
          \<and> tree_explainer sk m = Inr ex
          \<and> events s' = events s @
               [UiInfo ''Generating synthetic training data...'', GenerateData n,
                UiInfo ''Preprocessing data...'', EncodeYear, SelectFeatures,
                UiInfo ''Scaling features...'', FitTransform,
                UiInfo ''Training Random Forest model...'', SplitData, TrainForest,
                UiInfo ''Creating SHAP explainer...'', CreateExplainer, EvaluateForest, UiSuccess]
          \<and> r = (Some (Fitted m), Fitted sc, (label_encoders (trainee s))(''year'' \<mapsto> classes))
          \<and> model (trainee s') = Some (Fitted m)
          \<and> scaler (trainee s') = Fitted sc
          \<and> label_encoders (trainee s') ''year'' = Some classes
          \<and> explainer (trainee s') = Some ex
          \<and> (\<forall>d. predict sk fs (trainee s') d =
                 and_then (extract_features_from_student fs (trainee s') d) (\<lambda>features.
                 and_then (numeric_row features) (\<lambda>xs.
                   Inr (max 0 (min 100 (forest_row sk m (scaler_row sk sc xs))))))))"
      apply (rule exI [of _ df], rule exI [of _ g], rule exI [of _ ?classes])
      apply (rule exI [of _ ?codes], rule exI [of _ ?X], rule exI [of _ sc])
      apply (rule exI [of _ train], rule exI [of _ test], rule exI [of _ m], rule exI [of _ ex])
      using a(1) a2 a3 a(4) a(5) b r' c codes len by blast
  qed
  with train_model_progress [of sk np n s] show ?thesis by blast
qed

lemma train_model_demo_returns:
  "0 \<le> n \<Longrightarrow> \<exists>r s'. train_model demo_sklearn np n s = (Inr r, s')"
  unfolding train_model_def
  by (simp add: seq_def [of "generate_step np n"] generate_step_def generate_synthetic_data_def
        Let_def seq_def [of "fit_transform_step _ _"] fit_transform_step_def
        seq_def [of "split_step _ _ _"] split_step_def seq_def [of "fit_step _ _ _"] fit_step_def
        seq_def [of "explainer_step _ _"] explainer_step_def
        seq_def [of "evaluate_step _ _ _ _"] evaluate_step_def demo_sklearn_def
        split: prod.splits)

lemma demo_frame:
  "\<exists>df g. generate_synthetic_data demo_numpy 2 g0 = (Inr df, g)
     \<and> map year df = [''1st Year'', ''2nd Year'']
     \<and> map (feature_row [''1st Year'', ''2nd Year'']) df =
         [[15 / 2, 0, 2, 0, 5, 0, 10], [87 / 10, 1, 3, 1, 6, 1, 0]]"
  by (simp add: generate_synthetic_data_def Let_def numeral_2_eq_2 draws_two demo_numpy_def
        build_frame_def feature_row_def clip_def)

lemma train_model_centring_run:
  "\<exists>r s'. train_model centring_sklearn demo_numpy 2 centring_session = (Inr r, s')
     \<and> label_encoders (trainee s') ''year'' = Some [''1st Year'', ''2nd Year'']
     \<and> scaler (trainee s') = Fitted [81 / 10, 1 / 2, 5 / 2, 1 / 2, 11 / 2, 1 / 2, 5]
     \<and> model (trainee s') = Some (Fitted 1)
     \<and> explainer (trainee s') = Some ()"
proof -
  from demo_frame [of "rng centring_session"] obtain df g where
    gen: "generate_synthetic_data demo_numpy 2 (rng centring_session) = (Inr df, g)"
    and yrs: "map year df = [''1st Year'', ''2nd Year'']"
    and X: "map (feature_row [''1st Year'', ''2nd Year'']) df =
         [[15 / 2, 0, 2, 0, 5, 0, 10], [87 / 10, 1, 3, 1, 6, 1, 0]]"
    by (elim exE conjE)
  have len: "length df = 2" using arg_cong [OF yrs, of length] by simp
  show ?thesis
    unfolding train_model_def
    by (simp add: seq_def [of "generate_step _ _"] generate_step_def gen yrs demo_classes X
        seq_def [of "fit_transform_step _ _"] fit_transform_step_def
        seq_def [of "split_step _ _ _"] split_step_def seq_def [of "fit_step _ _ _"] fit_step_def
        seq_def [of "explainer_step _ _"] explainer_step_def
        seq_def [of "evaluate_step _ _ _ _"] evaluate_step_def centring_sklearn_def column_means_def
        split: prod.splits)
qed

text \<open>
  A run on the second stand-in library and the stand-in sampler with two samples. The
  frame has the feature rows \<open>[7.5, 0, 2, 0, 5, 0, 10]\<close> and
  \<open>[8.7, 1, 3, 1, 6, 1, 0]\<close>. The run returns, its events are the fourteen of a
  full run, the scaler holds the column means of the two rows, and the forest was
  fitted on the one training row of the split. \<open>predict\<close> on the test student of
  the source file, in the second year, has the features \<open>[8.5, 2, 5, 3, 8, 1, 5]\<close>,
  scales them to \<open>[0.4, 1.5, 2.5, 2.5, 2.5, 0.5, 0]\<close> and returns
  \<open>50 + 9.9 = 59.9\<close>.
\<close>

theorem train_model_stage_order_witness:
  "\<exists>r s'. train_model centring_sklearn demo_numpy 2 centring_session = (Inr r, s')
     \<and> events s' = training_events 2
     \<and> label_encoders (trainee s') ''year'' = Some [''1st Year'', ''2nd Year'']
     \<and> scaler (trainee s') = Fitted [81 / 10, 1 / 2, 5 / 2, 1 / 2, 11 / 2, 1 / 2, 5]
     \<and> model (trainee s') = Some (Fitted 1)
     \<and> explainer (trainee s') = Some ()
     \<and> predict centring_sklearn (\<lambda>s. None) (trainee s')
          (Map.empty(''cgpa'' \<mapsto> PFloat (17 / 2), ''internships'' \<mapsto> PInt 2,
             ''projects'' \<mapsto> PInt 5,
             ''certifications'' \<mapsto> PList [PStr ''Python'', PStr ''Machine Learning'', PStr ''SQL''],
             ''communication'' \<mapsto> PInt 8, ''year'' \<mapsto> PStr ''2nd Year'')) = Inr (599 / 10)"
proof -
  let ?d = "Map.empty(''cgpa'' \<mapsto> PFloat (17 / 2), ''internships'' \<mapsto> PInt 2,
             ''projects'' \<mapsto> PInt 5,
             ''certifications'' \<mapsto> PList [PStr ''Python'', PStr ''Machine Learning'', PStr ''SQL''],
             ''communication'' \<mapsto> PInt 8, ''year'' \<mapsto> PStr ''2nd Year'')"
  from train_model_centring_run obtain r s' where
    run: "train_model centring_sklearn demo_numpy 2 centring_session = (Inr r, s')"
    and cl: "label_encoders (trainee s') ''year'' = Some [''1st Year'', ''2nd Year'']"
    and sc0: "scaler (trainee s') = Fitted [81 / 10, 1 / 2, 5 / 2, 1 / 2, 11 / 2, 1 / 2, 5]"
    and m0: "model (trainee s') = Some (Fitted 1)"
    and ex0: "explainer (trainee s') = Some ()"
    by (elim exE conjE)
  from train_model_stage_order [of centring_sklearn demo_numpy 2 centring_session "\<lambda>s. None"] run
  obtain sc m where
    ev: "events s' = events centring_session @
               [UiInfo ''Generating synthetic training data...'', GenerateData 2,
                UiInfo ''Preprocessing data...'', EncodeYear, SelectFeatures,
                UiInfo ''Scaling features...'', FitTransform,
                UiInfo ''Training Random Forest model...'', SplitData, TrainForest,
                UiInfo ''Creating SHAP explainer...'', CreateExplainer, EvaluateForest, UiSuccess]"
    and st: "model (trainee s') = Some (Fitted m)" "scaler (trainee s') = Fitted sc"
    and pr: "\<forall>d. predict centring_sklearn (\<lambda>s. None) (trainee s') d =
                 and_then (extract_features_from_student (\<lambda>s. None) (trainee s') d) (\<lambda>features.
                 and_then (numeric_row features) (\<lambda>xs.
                   Inr (max 0 (min 100 (forest_row centring_sklearn m (scaler_row centring_sklearn sc xs))))))"
    by blast
  have m: "m = 1" using st(1) m0 by simp
  have sc: "sc = [81 / 10, 1 / 2, 5 / 2, 1 / 2, 11 / 2, 1 / 2, 5]" using st(2) sc0 by simp
  have fe: "extract_features_from_student (\<lambda>s. None) (trainee s') ?d =
     Inr [PFloat (17 / 2), PInt 2, PInt 5, PInt 3, PInt 8, PInt 1, PInt 5]"
    by (simp add: extract_features_from_student_def py_get_def cl Let_def)
  have p: "predict centring_sklearn (\<lambda>s. None) (trainee s') ?d = Inr (599 / 10)"
    unfolding spec [OF pr, of ?d] fe by (simp add: centring_sklearn_def m sc)
  have ev': "events s' = training_events 2"
    using ev by (simp add: centring_session_def training_events_def)
  from run ev' cl sc0 m0 ex0 p show ?thesis by blast
qed

text \<open>
  C10. \<open>generate_synthetic_data\<close> reseeds the generator with 42 before it draws, so
  the frame (and the state it leaves the generator in) does not depend on the state
  the generator was in: two calls with the same \<open>n_samples\<close> return the same frame.
  So the training set of \<open>train_model\<close> does not depend on it either, and a run of
  \<open>train_model\<close> that returns has fitted its forest on that training set.
\<close>

theorem generate_synthetic_data_deterministic:
  "generate_synthetic_data np n g1 = generate_synthetic_data np n g2
   \<and> training_set sk np n g1 = training_set sk np n g2
   \<and> (\<forall>r s'. train_model sk np n s = (Inr r, s') \<longrightarrow>
        (\<exists>train m. training_set sk np n g1 = Some train
                  \<and> forest_fit sk (fst train) (snd train) = Inr m
                  \<and> model (trainee s') = Some (Fitted m)))"
proof (intro conjI allI impI)
  show "generate_synthetic_data np n g1 = generate_synthetic_data np n g2"
    by (rule generate_independent)
  show "training_set sk np n g1 = training_set sk np n g2"
    by (simp add: training_set_def generate_independent [of np n g1 g2])
next
  fix r s'
  assume run: "train_model sk np n s = (Inr r, s')"
  from train_model_success [OF run] obtain df g sc train test m where
    a: "generate_synthetic_data np n (rng s) = (Inr df, g)"
       "scaler_fit sk (map (feature_row (label_fit (map year df))) df) = Inr sc"
       "train_test_split sk
          (map (scaler_row sk sc) (map (feature_row (label_fit (map year df))) df))
          (map employability_score df) = Inr (train, test)"
       "forest_fit sk (fst train) (snd train) = Inr m"
    and m: "model (trainee s') = Some (Fitted m)"
    by auto
  from a(1) have "generate_synthetic_data np n g1 = (Inr df, g)"
    by (simp add: generate_independent [of np n g1 "rng s"])
  from training_set_of_run [OF this a(2) a(3)] a(4) m
  show "\<exists>train m. training_set sk np n g1 = Some train
                  \<and> forest_fit sk (fst train) (snd train) = Inr m
                  \<and> model (trainee s') = Some (Fitted m)"
    by blast
qed

text \<open>
  The stand-in sampler started in state 0 and in state 7, and a training run on two
  samples.
\<close>

theorem generate_synthetic_data_deterministic_witness:
  "generate_synthetic_data demo_numpy 2 0 = generate_synthetic_data demo_numpy 2 7
   \<and> (\<exists>r s' train. train_model demo_sklearn demo_numpy 2 demo_session = (Inr r, s')
        \<and> training_set demo_sklearn demo_numpy 2 7 = Some train
        \<and> model (trainee s') = Some (Fitted ()))"
proof -
  from train_model_demo_returns [of 2 demo_numpy demo_session]
  obtain r s' where run: "train_model demo_sklearn demo_numpy 2 demo_session = (Inr r, s')"
    by auto
  note D = generate_synthetic_data_deterministic
             [of demo_numpy 2 7 0 demo_sklearn demo_session]
  from D have e: "generate_synthetic_data demo_numpy 2 0 = generate_synthetic_data demo_numpy 2 7"
    by simp
  from D run obtain train m where "training_set demo_sklearn demo_numpy 2 7 = Some train"
    "model (trainee s') = Some (Fitted m)" by blast
  then have "training_set demo_sklearn demo_numpy 2 7 = Some train"
    "model (trainee s') = Some (Fitted ())" by simp_all
  with run e show ?thesis by blast
qed

section \<open>The persistence operations\<close>

lemma attempt_returns_total: "\<exists>x s'. attempt body (\<lambda>e. returns v) s = (Inr x, s')"
  by (cases "body s" rule: prod.exhaust; cases "fst (body s)")
     (auto simp: attempt_def returns_def)

lemma attempt_raised:
  "fst (body s) = Inl e \<Longrightarrow> fst (attempt body (\<lambda>e. returns v) s) = Inr v"
  by (cases "body s") (auto simp: attempt_def returns_def)

lemma ensure_db_down:
  "client_down w \<Longrightarrow> ensure_db w = (Inr (), w)"
  by (simp add: ensure_db_def setup_firebase_def client_down_def)

lemma ensure_db_up:
  "\<not> client_down w \<Longrightarrow> ensure_db w = (Inr (), w\<lparr>db := True\<rparr>)"
  by (cases w) (auto simp: ensure_db_def setup_firebase_def client_down_def)

lemma client_call_down: "\<not> db w \<Longrightarrow> client_call oper w = (Inl AttributeError, w)"
  by (simp add: client_call_def)

lemma client_call_fault:
  "db w \<Longrightarrow> fault w (calls w) = Some e \<Longrightarrow>
     client_call oper w = (Inl e, w\<lparr>calls := Suc (calls w)\<rparr>)"
  by (simp add: client_call_def)

lemma client_call_ok:
  "db w \<Longrightarrow> fault w (calls w) = None \<Longrightarrow>
     client_call oper w =
       (Inr (fst (oper (w\<lparr>calls := Suc (calls w)\<rparr>))), snd (oper (w\<lparr>calls := Suc (calls w)\<rparr>)))"
  by (simp add: client_call_def split: prod.splits)

text \<open>A body that starts with the check of \<open>_db\<close> and reaches a call of the client.\<close>

lemma first_call_raises:
  assumes "client_down w \<or> next_call_fails w"
  shows "\<exists>e. fst (seq ensure_db (\<lambda>_. seq (client_call oper) f) w) = Inl e"
proof (cases "client_down w")
  case True
  then have "\<not> db w" by (simp add: client_down_def)
  then show ?thesis
    by (simp add: seq_def ensure_db_down [OF True] client_call_down)
next
  case False
  with assms obtain e where e: "fault w (calls w) = Some e"
    by (auto simp: next_call_fails_def)
  show ?thesis
    by (simp add: seq_def ensure_db_up [OF False] client_call_fault e)
qed

lemma seq_Pair [simp]:
  "seq (Pair r) f w = (case r of Inl e \<Rightarrow> (Inl e, w) | Inr x \<Rightarrow> f x w)"
  by (simp add: seq_def split: sum.splits)

lemma utcnow_keeps [simp]:
  "seq utcnow f w = f (ticks w) (w\<lparr>ticks := Suc (ticks w)\<rparr>)"
  by (simp add: seq_def utcnow_def)

lemma save_student_data_fails:
  "client_down w \<or> next_call_fails w \<Longrightarrow> fst (save_student_data email data w) = Inr False"
  unfolding save_student_data_def
  using first_call_raises [of w "doc_set_merge ''students'' email data" "\<lambda>_. returns True"]
  by (auto intro: attempt_raised)

lemma fetch_all_students_fails:
  "client_down w \<or> next_call_fails w \<Longrightarrow> fst (fetch_all_students w) = Inr []"
  unfolding fetch_all_students_def
  using first_call_raises [of w "coll_stream ''students''" "\<lambda>docs. returns docs"]
  by (auto intro: attempt_raised)

lemma fetch_quiz_results_fails:
  "client_down w \<or> next_call_fails w \<Longrightarrow> fst (fetch_quiz_results w) = Inr []"
  unfolding fetch_quiz_results_def
  using first_call_raises [of w "coll_stream ''quiz_results''" "\<lambda>docs. returns docs"]
  by (auto intro: attempt_raised)

lemma get_student_fails:
  "client_down w \<or> next_call_fails w \<Longrightarrow> fst (get_student email w) = Inr None"
  unfolding get_student_def
  using first_call_raises [of w "doc_get ''students'' email" "\<lambda>doc. returns doc"]
  by (auto intro: attempt_raised)

lemma login_user_fails:
  "client_down w \<or> next_call_fails w \<Longrightarrow> fst (login_user email w) = Inr None"
  unfolding login_user_def
  using first_call_raises [of w "doc_get ''students'' email"]
  by (auto intro: attempt_raised)

lemma fetch_student_quiz_results_fails:
  "client_down w \<or> next_call_fails w \<Longrightarrow>
     fst (fetch_student_quiz_results sort_desc email w) = Inr []"
  unfolding fetch_student_quiz_results_def
  using first_call_raises [of w "coll_where_stream ''quiz_results'' ''email'' (PStr email)"]
  by (auto intro: attempt_raised)

lemma save_quiz_question_fails:
  assumes "client_down w \<or> next_call_fails w"
  shows "fst (save_quiz_question question_doc w) = Inr False"
proof -
  have "\<exists>e. fst (seq ensure_db (\<lambda>_. seq (\<lambda>w. (Inr (ids w (calls w)), w)) (\<lambda>qid.
          seq (client_call (doc_set ''quiz_questions'' qid question_doc)) (\<lambda>_. returns True))) w)
         = Inl e"
  proof (cases "client_down w")
    case True
    then have "\<not> db w" by (simp add: client_down_def)
    then show ?thesis by (simp add: seq_def ensure_db_down [OF True] client_call_down)
  next
    case False
    with assms obtain e where e: "fault w (calls w) = Some e"
      by (auto simp: next_call_fails_def)
    show ?thesis by (simp add: seq_def ensure_db_up [OF False] client_call_fault e)
  qed
  then show ?thesis unfolding save_quiz_question_def by (auto intro: attempt_raised)
qed

lemma save_quiz_result_zero_total:
  "fst (save_quiz_result dt email subject score 0 details w) = Inr False"
  unfolding save_quiz_result_def
  by (rule attempt_raised [of _ _ ZeroDivisionError])
     (simp add: seq_def ensure_db_def true_div_def)

lemma save_quiz_result_fails:
  assumes "client_down w \<or> next_call_fails w"
  shows "fst (save_quiz_result dt email subject score total_count details w) = Inr False"
proof (cases "total_count = 0")
  case True
  then show ?thesis by (simp add: save_quiz_result_zero_total)
next
  case nz: False
  show ?thesis
  proof (cases "client_down w")
    case True
    then have "\<not> db w" by (simp add: client_down_def)
    then show ?thesis
      unfolding save_quiz_result_def
      by (intro attempt_raised [of _ _ AttributeError])
         (simp add: seq_def [of ensure_db] seq_def [of "\<lambda>w. (true_div _ _, w)"]
            seq_def [of "client_call _"] ensure_db_down [OF True] true_div_def nz Let_def
            client_call_down)
  next
    case False
    with assms obtain e where e: "fault w (calls w) = Some e"
      by (auto simp: next_call_fails_def)
    show ?thesis
      unfolding save_quiz_result_def
      by (intro attempt_raised [of _ _ e])
         (simp add: seq_def [of ensure_db] seq_def [of "\<lambda>w. (true_div _ _, w)"]
            seq_def [of "client_call _"] ensure_db_up [OF False] true_div_def nz Let_def
            client_call_fault e)
  qed
qed

lemma login_user_second_call_fails:
  assumes up: "\<not> client_down w" and ok: "fault w (calls w) = None"
    and nodoc: "map_of (collections w ''students'') email = None"
    and f2: "fault w (Suc (calls w)) = Some e"
  shows "fst (login_user email w) = Inr None"
  unfolding login_user_def
  by (intro attempt_raised [of _ _ e])
     (simp add: seq_def ensure_db_up [OF up] client_call_ok ok doc_get_def nodoc
        client_call_fault f2)

lemma fetch_student_quiz_results_sort_fails:
  assumes up: "\<not> client_down w" and ok: "fault w (calls w) = None"
    and srt: "sort_desc (\<lambda>x. py_get x ''timestamp'' (PStr []))
               (filter (\<lambda>d. d ''email'' = Some (PStr email)) (map snd (collections w ''quiz_results'')))
              = Inl e"
  shows "fst (fetch_student_quiz_results sort_desc email w) = Inr []"
  unfolding fetch_student_quiz_results_def
  by (intro attempt_raised [of _ _ e])
     (simp add: seq_def ensure_db_up [OF up] client_call_ok ok coll_where_stream_def srt)

text \<open>
  C7. None of the eight persistence operations raises, whatever the database client
  does: each returns a value in every state of the module and of the database. When
  the client is unavailable (\<open>_db\<close> unset and \<open>setup_firebase\<close> unable to set it)
  or its next call raises, whatever the exception, \<open>save_student_data\<close>,
  \<open>save_quiz_question\<close> and \<open>save_quiz_result\<close> return \<open>False\<close>,
  \<open>fetch_all_students\<close>, \<open>fetch_student_quiz_results\<close> and \<open>fetch_quiz_results\<close>
  return the empty list, and \<open>get_student\<close> and \<open>login_user\<close> return \<open>None\<close>. The
  same holds for the other failures inside the \<open>try\<close> blocks: a zero \<open>total\<close> in
  \<open>save_quiz_result\<close>, a failure of the second lookup of \<open>login_user\<close>, and a
  comparison that raises in the sort of \<open>fetch_student_quiz_results\<close>.
\<close>

theorem persistence_operations_never_raise:
  "(\<exists>b w'. save_student_data email data w = (Inr b, w'))
 \<and> (\<exists>b w'. save_quiz_question question_doc w = (Inr b, w'))
 \<and> (\<exists>b w'. save_quiz_result dt email subject score total_count details w = (Inr b, w'))
 \<and> (\<exists>r w'. fetch_all_students w = (Inr r, w'))
 \<and> (\<exists>r w'. fetch_student_quiz_results sort_desc email w = (Inr r, w'))
 \<and> (\<exists>r w'. fetch_quiz_results w = (Inr r, w'))
 \<and> (\<exists>r w'. get_student email w = (Inr r, w'))
 \<and> (\<exists>r w'. login_user email w = (Inr r, w'))
 \<and> (client_down w \<or> next_call_fails w \<longrightarrow>
        fst (save_student_data email data w) = Inr False
      \<and> fst (save_quiz_question question_doc w) = Inr False
      \<and> fst (save_quiz_result dt email subject score total_count details w) = Inr False
      \<and> fst (fetch_all_students w) = Inr []
      \<and> fst (fetch_student_quiz_results sort_desc email w) = Inr []
      \<and> fst (fetch_quiz_results w) = Inr []
      \<and> fst (get_student email w) = Inr None
      \<and> fst (login_user email w) = Inr None)
 \<and> (total_count = 0 \<longrightarrow>
        fst (save_quiz_result dt email subject score total_count details w) = Inr False)
 \<and> (\<not> client_down w \<and> fault w (calls w) = None
      \<and> map_of (collections w ''students'') email = None
      \<and> fault w (Suc (calls w)) \<noteq> None \<longrightarrow>
        fst (login_user email w) = Inr None)
 \<and> (\<not> client_down w \<and> fault w (calls w) = None
      \<and> (\<exists>e. sort_desc (\<lambda>x. py_get x ''timestamp'' (PStr []))
                 (filter (\<lambda>d. d ''email'' = Some (PStr email))
                    (map snd (collections w ''quiz_results''))) = Inl e) \<longrightarrow>
        fst (fetch_student_quiz_results sort_desc email w) = Inr [])"
proof -
  have total:
    "\<exists>b w'. save_student_data email data w = (Inr b, w')"
    "\<exists>b w'. save_quiz_question question_doc w = (Inr b, w')"
    "\<exists>b w'. save_quiz_result dt email subject score total_count details w = (Inr b, w')"
    "\<exists>r w'. fetch_all_students w = (Inr r, w')"
    "\<exists>r w'. fetch_student_quiz_results sort_desc email w = (Inr r, w')"
    "\<exists>r w'. fetch_quiz_results w = (Inr r, w')"
    "\<exists>r w'. get_student email w = (Inr r, w')"
    "\<exists>r w'. login_user email w = (Inr r, w')"
    unfolding save_student_data_def save_quiz_question_def save_quiz_result_def
      fetch_all_students_def fetch_student_quiz_results_def fetch_quiz_results_def
      get_student_def login_user_def
    by (rule attempt_returns_total)+
  have first: "client_down w \<or> next_call_fails w \<longrightarrow>
        fst (save_student_data email data w) = Inr False
      \<and> fst (save_quiz_question question_doc w) = Inr False
      \<and> fst (save_quiz_result dt email subject score total_count details w) = Inr False
      \<and> fst (fetch_all_students w) = Inr []
      \<and> fst (fetch_student_quiz_results sort_desc email w) = Inr []
      \<and> fst (fetch_quiz_results w) = Inr []
      \<and> fst (get_student email w) = Inr None
      \<and> fst (login_user email w) = Inr None"
    by (intro impI conjI save_student_data_fails save_quiz_question_fails
          save_quiz_result_fails fetch_all_students_fails fetch_student_quiz_results_fails
          fetch_quiz_results_fails get_student_fails login_user_fails)
  have zero: "total_count = 0 \<longrightarrow>
        fst (save_quiz_result dt email subject score total_count details w) = Inr False"
    by (simp add: save_quiz_result_zero_total)
  have second: "\<not> client_down w \<and> fault w (calls w) = None
      \<and> map_of (collections w ''students'') email = None
      \<and> fault w (Suc (calls w)) \<noteq> None \<longrightarrow>
        fst (login_user email w) = Inr None"
    using login_user_second_call_fails [of w email] by auto
  have srt: "\<not> client_down w \<and> fault w (calls w) = None
      \<and> (\<exists>e. sort_desc (\<lambda>x. py_get x ''timestamp'' (PStr []))
                 (filter (\<lambda>d. d ''email'' = Some (PStr email))
                    (map snd (collections w ''quiz_results''))) = Inl e) \<longrightarrow>
        fst (fetch_student_quiz_results sort_desc email w) = Inr []"
    using fetch_student_quiz_results_sort_fails [of w sort_desc email] by auto
  from total first zero second srt show ?thesis by (intro conjI)
qed

text \<open>
  A database whose every call raises \<open>ServiceError\<close>: the eight operations return
  their fallback values; and a quiz result with \<open>total = 0\<close> on a working database
  returns \<open>False\<close>.
\<close>

theorem persistence_operations_never_raise_witness:
  "next_call_fails (demo_firebase\<lparr>fault := (\<lambda>k. Some (ServiceError ''unavailable''))\<rparr>)
   \<and> fst (save_student_data ''a@x.org'' (Map.empty(''cgpa'' \<mapsto> PFloat 9))
            (demo_firebase\<lparr>fault := (\<lambda>k. Some (ServiceError ''unavailable''))\<rparr>)) = Inr False
   \<and> fst (save_quiz_question (Map.empty(''question'' \<mapsto> PStr ''Q''))
            (demo_firebase\<lparr>fault := (\<lambda>k. Some (ServiceError ''unavailable''))\<rparr>)) = Inr False
   \<and> fst (save_quiz_result \<lparr>isoformat = (\<lambda>t. ''now''), strftime = (\<lambda>f t. f)\<rparr>
            ''a@x.org'' ''Python'' 3 5 []
            (demo_firebase\<lparr>fault := (\<lambda>k. Some (ServiceError ''unavailable''))\<rparr>)) = Inr False
   \<and> fst (fetch_all_students
            (demo_firebase\<lparr>fault := (\<lambda>k. Some (ServiceError ''unavailable''))\<rparr>)) = Inr []
   \<and> fst (fetch_student_quiz_results (\<lambda>key xs. Inr xs) ''a@x.org''
            (demo_firebase\<lparr>fault := (\<lambda>k. Some (ServiceError ''unavailable''))\<rparr>)) = Inr []
   \<and> fst (fetch_quiz_results
            (demo_firebase\<lparr>fault := (\<lambda>k. Some (ServiceError ''unavailable''))\<rparr>)) = Inr []
   \<and> fst (get_student ''a@x.org''
            (demo_firebase\<lparr>fault := (\<lambda>k. Some (ServiceError ''unavailable''))\<rparr>)) = Inr None
   \<and> fst (login_user ''a@x.org''
            (demo_firebase\<lparr>fault := (\<lambda>k. Some (ServiceError ''unavailable''))\<rparr>)) = Inr None
   \<and> fst (save_quiz_result \<lparr>isoformat = (\<lambda>t. ''now''), strftime = (\<lambda>f t. f)\<rparr>
            ''a@x.org'' ''Python'' 0 0 [] demo_firebase) = Inr False"
proof -
  let ?w = "demo_firebase\<lparr>fault := (\<lambda>k. Some (ServiceError ''unavailable''))\<rparr>"
  let ?dt = "\<lparr>isoformat = (\<lambda>t. ''now''), strftime = (\<lambda>f t. f)\<rparr>"
  have f: "next_call_fails ?w" by (simp add: next_call_fails_def)
  note T = persistence_operations_never_raise
    [of "''a@x.org''" "Map.empty(''cgpa'' \<mapsto> PFloat 9)" ?w
        "Map.empty(''question'' \<mapsto> PStr ''Q'')" ?dt "''Python''" 3 5 "[]" "\<lambda>key xs. Inr xs"]
  note Z = persistence_operations_never_raise
    [of "''a@x.org''" Map.empty demo_firebase Map.empty ?dt "''Python''" 0 0 "[]" "\<lambda>key xs. Inr xs"]
  from Z have z: "fst (save_quiz_result ?dt ''a@x.org'' ''Python'' 0 0 [] demo_firebase) = Inr False"
    by simp
  from T f z show ?thesis by simp
qed

lemma map_of_put_doc_same: "map_of (put_doc i d docs) i = Some d"
  by (induction docs) auto

lemma map_of_put_doc_other: "j \<noteq> i \<Longrightarrow> map_of (put_doc i d docs) j = map_of docs j"
  by (induction docs) auto

lemma save_student_data_run:
  "save_student_data email data w =
     (if client_down w then (Inr False, w)
      else if next_call_fails w then (Inr False, w\<lparr>db := True, calls := Suc (calls w)\<rparr>)
      else (Inr True, snd (doc_set_merge ''students'' email data
                             (w\<lparr>db := True, calls := Suc (calls w)\<rparr>))))"
proof (cases "client_down w")
  case True
  then have "\<not> db w" by (simp add: client_down_def)
  with True show ?thesis
    by (simp add: save_student_data_def attempt_def seq_def ensure_db_down client_call_down
          returns_def)
next
  case up: False
  show ?thesis
  proof (cases "fault w (calls w)")
    case None
    with up show ?thesis
      by (simp add: save_student_data_def attempt_def seq_def ensure_db_up client_call_ok
            returns_def next_call_fails_def)
  next
    case (Some e)
    with up show ?thesis
      by (simp add: save_student_data_def attempt_def seq_def ensure_db_up client_call_fault
            returns_def next_call_fails_def)
  qed
qed

lemma save_student_data_True:
  assumes "save_student_data email data w = (Inr True, w')"
  shows "w' = snd (doc_set_merge ''students'' email data (w\<lparr>db := True, calls := Suc (calls w)\<rparr>))"
proof -
  have "\<not> client_down w" "\<not> next_call_fails w"
    using assms by (auto simp: save_student_data_run split: if_splits)
  with assms show ?thesis by (simp add: save_student_data_run)
qed

lemma doc_set_merge_collections:
  "collections (snd (doc_set_merge coll i data w)) =
     (collections w)(coll := put_doc i
        (case map_of (collections w coll) i of None \<Rightarrow> data | Some old \<Rightarrow> merge_doc old data)
        (collections w coll))"
  by (simp add: doc_set_merge_def Let_def)

lemma save_student_data_effect:
  assumes run: "save_student_data email data w = (Inr True, w')"
  shows "collections w' = (collections w)(''students'' := put_doc email
           (case map_of (collections w ''students'') email of
              None \<Rightarrow> data | Some old \<Rightarrow> merge_doc old data)
           (collections w ''students''))"
  unfolding save_student_data_True [OF run] doc_set_merge_collections by simp

lemma map_of_put_field_same: "map_of (put_field k v kvs) k = Some v"
  by (induction kvs) auto

lemma map_of_put_field_other: "j \<noteq> k \<Longrightarrow> map_of (put_field k v kvs) j = map_of kvs j"
  by (induction kvs) auto

lemma merge_fields_frame:
  "j \<notin> fst ` set kvs \<Longrightarrow> map_of (merge_fields okvs kvs) j = map_of okvs j"
proof (induction kvs arbitrary: okvs)
  case Nil
  show ?case by simp
next
  case (Cons kv kvs)
  obtain k v where kv: "kv = (k, v)" by (cases kv)
  from Cons.prems have "j \<noteq> k" "j \<notin> fst ` set kvs" by (auto simp: kv)
  then show ?case by (simp add: kv Cons.IH map_of_put_field_other)
qed

lemma merge_fields_named:
  "distinct (map fst kvs) \<Longrightarrow> map_of kvs j = Some u \<Longrightarrow>
     map_of (merge_fields okvs kvs) j
       = Some (case map_of okvs j of None \<Rightarrow> u | Some stored \<Rightarrow> merge_value stored u)"
proof (induction kvs arbitrary: okvs)
  case Nil
  then show ?case by simp
next
  case (Cons kv kvs)
  obtain k v where kv: "kv = (k, v)" by (cases kv)
  from Cons.prems(1) have d: "k \<notin> fst ` set kvs" "distinct (map fst kvs)" by (auto simp: kv)
  show ?case
  proof (cases "j = k")
    case True
    with Cons.prems(2) have "u = v" by (simp add: kv)
    with True d(1) show ?thesis
      by (simp add: kv merge_fields_frame map_of_put_field_same split: option.splits)
  next
    case False
    with Cons.prems(2) have "map_of kvs j = Some u" by (simp add: kv)
    from Cons.IH [OF d(2) this] False show ?thesis
      by (simp add: kv map_of_put_field_other)
  qed
qed

lemma merge_value_overwrites:
  assumes "\<not> (\<exists>okvs kv kvs. stored = PDict okvs \<and> v = PDict (kv # kvs))"
  shows "merge_value stored v = v"
proof (cases v)
  case (PDict kvs)
  with assms show ?thesis by (cases stored; cases kvs) auto
qed simp_all

text \<open>
  C8, as amended. When the client is available and its call does not raise,
  \<open>save_student_data\<close> returns \<open>True\<close>. After a call that returned \<open>True\<close> the
  student's document exists. When there was no document, the new one is exactly the
  update. When there was one, each field the update does not name is as it was stored,
  and each field the update names has the update's value, unless that value is a
  non-empty map and the stored value is a map: then the field holds a map in which
  the fields the new map does not name are as they were stored, and (the keys of the
  new map being distinct) each field it names has the new value, or, when a value is
  stored under it, the stored value with the new one merged into it in the same way.
  Every other document and every other collection is unchanged.
\<close>

theorem save_student_data_merge:
  "(\<not> client_down w \<and> \<not> next_call_fails w \<longrightarrow>
       fst (save_student_data email data w) = Inr True)
   \<and> (\<forall>w'. save_student_data email data w = (Inr True, w') \<longrightarrow>
        (\<exists>doc. map_of (collections w' ''students'') email = Some doc
            \<and> (map_of (collections w ''students'') email = None \<longrightarrow> doc = data)
            \<and> (\<forall>old. map_of (collections w ''students'') email = Some old \<longrightarrow>
                  (\<forall>k. data k = None \<longrightarrow> doc k = old k)
                \<and> (\<forall>k v. data k = Some v \<longrightarrow>
                      \<not> (\<exists>okvs kv kvs. old k = Some (PDict okvs) \<and> v = PDict (kv # kvs)) \<longrightarrow>
                      doc k = Some v)
                \<and> (\<forall>k okvs kv kvs.
                      old k = Some (PDict okvs) \<longrightarrow> data k = Some (PDict (kv # kvs)) \<longrightarrow>
                      (\<exists>fs. doc k = Some (PDict fs)
                         \<and> (\<forall>j. j \<notin> fst ` set (kv # kvs) \<longrightarrow> map_of fs j = map_of okvs j)
                         \<and> (distinct (map fst (kv # kvs)) \<longrightarrow>
                               (\<forall>j u. map_of (kv # kvs) j = Some u \<longrightarrow>
                                  \<not> (\<exists>okvs' kv' kvs'. map_of okvs j = Some (PDict okvs')
                                                    \<and> u = PDict (kv' # kvs')) \<longrightarrow>
                                  map_of fs j = Some u)
                             \<and> (\<forall>j u stored. map_of (kv # kvs) j = Some u \<longrightarrow>
                                  map_of okvs j = Some stored \<longrightarrow>
                                  map_of fs j = Some (merge_value stored u)))))))
        \<and> (\<forall>j. j \<noteq> email \<longrightarrow>
              map_of (collections w' ''students'') j = map_of (collections w ''students'') j)
        \<and> (\<forall>c. c \<noteq> ''students'' \<longrightarrow> collections w' c = collections w c))"
proof -
  have ok: "\<not> client_down w \<and> \<not> next_call_fails w \<longrightarrow>
       fst (save_student_data email data w) = Inr True"
    by (simp add: save_student_data_run)
  have eff: "(\<exists>doc. map_of (collections w' ''students'') email = Some doc
            \<and> (map_of (collections w ''students'') email = None \<longrightarrow> doc = data)
            \<and> (\<forall>old. map_of (collections w ''students'') email = Some old \<longrightarrow>
                  (\<forall>k. data k = None \<longrightarrow> doc k = old k)
                \<and> (\<forall>k v. data k = Some v \<longrightarrow>
                      \<not> (\<exists>okvs kv kvs. old k = Some (PDict okvs) \<and> v = PDict (kv # kvs)) \<longrightarrow>
                      doc k = Some v)
                \<and> (\<forall>k okvs kv kvs.
                      old k = Some (PDict okvs) \<longrightarrow> data k = Some (PDict (kv # kvs)) \<longrightarrow>
                      (\<exists>fs. doc k = Some (PDict fs)
                         \<and> (\<forall>j. j \<notin> fst ` set (kv # kvs) \<longrightarrow> map_of fs j = map_of okvs j)
                         \<and> (distinct (map fst (kv # kvs)) \<longrightarrow>
                               (\<forall>j u. map_of (kv # kvs) j = Some u \<longrightarrow>
                                  \<not> (\<exists>okvs' kv' kvs'. map_of okvs j = Some (PDict okvs')
                                                    \<and> u = PDict (kv' # kvs')) \<longrightarrow>
                                  map_of fs j = Some u)
                             \<and> (\<forall>j u stored. map_of (kv # kvs) j = Some u \<longrightarrow>
                                  map_of okvs j = Some stored \<longrightarrow>
                                  map_of fs j = Some (merge_value stored u)))))))
        \<and> (\<forall>j. j \<noteq> email \<longrightarrow>
              map_of (collections w' ''students'') j = map_of (collections w ''students'') j)
        \<and> (\<forall>c. c \<noteq> ''students'' \<longrightarrow> collections w' c = collections w c)"
    if run: "save_student_data email data w = (Inr True, w')" for w'
  proof -
    define before where "before = map_of (collections w ''students'') email"
    define merged where
      "merged = (case before of None \<Rightarrow> data | Some old \<Rightarrow> merge_doc old data)"
    have coll: "collections w' =
        (collections w)(''students'' := put_doc email merged (collections w ''students''))"
      unfolding merged_def before_def by (rule save_student_data_effect [OF run])
    have doc: "map_of (collections w' ''students'') email = Some merged"
      unfolding coll by (simp only: fun_upd_same map_of_put_doc_same)
    have fresh: "before = None \<longrightarrow> merged = data"
      by (simp add: merged_def)
    have stored: "(\<forall>k. data k = None \<longrightarrow> merged k = old k)
                \<and> (\<forall>k v. data k = Some v \<longrightarrow>
                      \<not> (\<exists>okvs kv kvs. old k = Some (PDict okvs) \<and> v = PDict (kv # kvs)) \<longrightarrow>
                      merged k = Some v)
                \<and> (\<forall>k okvs kv kvs.
                      old k = Some (PDict okvs) \<longrightarrow> data k = Some (PDict (kv # kvs)) \<longrightarrow>
                      (\<exists>fs. merged k = Some (PDict fs)
                         \<and> (\<forall>j. j \<notin> fst ` set (kv # kvs) \<longrightarrow> map_of fs j = map_of okvs j)
                         \<and> (distinct (map fst (kv # kvs)) \<longrightarrow>
                               (\<forall>j u. map_of (kv # kvs) j = Some u \<longrightarrow>
                                  \<not> (\<exists>okvs' kv' kvs'. map_of okvs j = Some (PDict okvs')
                                                    \<and> u = PDict (kv' # kvs')) \<longrightarrow>
                                  map_of fs j = Some u)
                             \<and> (\<forall>j u stored. map_of (kv # kvs) j = Some u \<longrightarrow>
                                  map_of okvs j = Some stored \<longrightarrow>
                                  map_of fs j = Some (merge_value stored u)))))"
      if old: "before = Some old" for old
    proof (intro conjI allI impI)
      fix k
      assume "data k = None"
      then show "merged k = old k" by (simp add: merged_def old merge_doc_def)
    next
      fix k v
      assume d: "data k = Some v"
        and leaf: "\<not> (\<exists>okvs kv kvs. old k = Some (PDict okvs) \<and> v = PDict (kv # kvs))"
      show "merged k = Some v"
      proof (cases "old k")
        case None
        with d show ?thesis by (simp add: merged_def old merge_doc_def)
      next
        case (Some st)
        with leaf have "\<not> (\<exists>okvs kv kvs. st = PDict okvs \<and> v = PDict (kv # kvs))" by simp
        from merge_value_overwrites [OF this] d Some show ?thesis
          by (simp add: merged_def old merge_doc_def)
      qed
    next
      fix k okvs kv kvs
      assume o: "old k = Some (PDict okvs)" and d: "data k = Some (PDict (kv # kvs))"
      have m: "merged k = Some (PDict (merge_fields okvs (kv # kvs)))"
        by (simp add: merged_def old merge_doc_def o d)
      have f: "\<forall>j. j \<notin> fst ` set (kv # kvs) \<longrightarrow>
                 map_of (merge_fields okvs (kv # kvs)) j = map_of okvs j"
        using merge_fields_frame by blast
      have n: "map_of (merge_fields okvs (kv # kvs)) j = Some u"
        if "distinct (map fst (kv # kvs))" "map_of (kv # kvs) j = Some u"
          "\<not> (\<exists>okvs' kv' kvs'. map_of okvs j = Some (PDict okvs') \<and> u = PDict (kv' # kvs'))"
        for j u
      proof (cases "map_of okvs j")
        case None
        with merge_fields_named [OF that(1) that(2), of okvs] show ?thesis by simp
      next
        case (Some st)
        with that(3) have "\<not> (\<exists>okvs' kv' kvs'. st = PDict okvs' \<and> u = PDict (kv' # kvs'))" by simp
        from merge_value_overwrites [OF this] merge_fields_named [OF that(1) that(2), of okvs] Some
        show ?thesis by simp
      qed
      have n2: "map_of (merge_fields okvs (kv # kvs)) j = Some (merge_value stored u)"
        if "distinct (map fst (kv # kvs))" "map_of (kv # kvs) j = Some u" "map_of okvs j = Some stored"
        for j u stored
        using merge_fields_named [OF that(1) that(2), of okvs] that(3) by simp
      show "\<exists>fs. merged k = Some (PDict fs)
              \<and> (\<forall>j. j \<notin> fst ` set (kv # kvs) \<longrightarrow> map_of fs j = map_of okvs j)
              \<and> (distinct (map fst (kv # kvs)) \<longrightarrow>
                    (\<forall>j u. map_of (kv # kvs) j = Some u \<longrightarrow>
                       \<not> (\<exists>okvs' kv' kvs'. map_of okvs j = Some (PDict okvs')
                                         \<and> u = PDict (kv' # kvs')) \<longrightarrow>
                       map_of fs j = Some u)
                  \<and> (\<forall>j u stored. map_of (kv # kvs) j = Some u \<longrightarrow>
                       map_of okvs j = Some stored \<longrightarrow>
                       map_of fs j = Some (merge_value stored u)))"
        apply (rule exI [of _ "merge_fields okvs (kv # kvs)"])
        apply (intro conjI allI impI)
           apply (rule m)
          apply (erule f [rule_format])
         apply (erule (2) n)
        apply (erule (2) n2)
        done
    qed
    have others: "\<forall>j. j \<noteq> email \<longrightarrow>
              map_of (collections w' ''students'') j = map_of (collections w ''students'') j"
      unfolding coll by (simp add: map_of_put_doc_other)
    have colls: "\<forall>c. c \<noteq> ''students'' \<longrightarrow> collections w' c = collections w c"
      unfolding coll by simp
    show ?thesis
      apply (intro conjI)
        apply (rule exI [of _ merged])
        apply (intro conjI)
          apply (rule doc)
         apply (rule fresh [unfolded before_def])
        apply (intro allI impI)
        apply (rule stored)
        apply (simp add: before_def)
       apply (rule others)
      apply (rule colls)
      done
  qed
  show ?thesis
    apply (rule conjI)
     apply (rule ok)
    apply (rule allI)
    apply (rule impI)
    apply (erule eff)
    done
qed

lemma save_student_data_nested_run:
  "save_student_data ''a@x.org'' (Map.empty(''skills'' \<mapsto> PDict [(''python'', PInt 5)])) nested_firebase
     = (Inr True,
        nested_firebase\<lparr>db := True, calls := 1,
          collections := (collections nested_firebase)(''students'' :=
            [(''a@x.org'', Map.empty(''name'' \<mapsto> PStr ''Asha'',
                ''skills'' \<mapsto> PDict [(''python'', PInt 5), (''sql'', PInt 2)]))])\<rparr>)"
proof -
  have m: "merge_doc (Map.empty(''name'' \<mapsto> PStr ''Asha'',
                ''skills'' \<mapsto> PDict [(''python'', PInt 3), (''sql'', PInt 2)]))
             (Map.empty(''skills'' \<mapsto> PDict [(''python'', PInt 5)]))
           = Map.empty(''name'' \<mapsto> PStr ''Asha'',
                ''skills'' \<mapsto> PDict [(''python'', PInt 5), (''sql'', PInt 2)])"
    by (rule ext) (simp add: merge_doc_def)
  show ?thesis
    by (simp add: save_student_data_run client_down_def next_call_fails_def nested_firebase_def
          doc_set_merge_def Let_def m)
qed

text \<open>
  C8 as stated does not hold for a field whose stored and new values are both maps: on
  the student whose stored skills are \<open>{python: 3, sql: 2}\<close>, the update
  \<open>{skills: {python: 5}}\<close> leaves the skills \<open>{python: 5, sql: 2}\<close>, which is not the
  update's value.
\<close>

theorem save_student_data_nested_counterexample:
  "fst (save_student_data ''a@x.org'' (Map.empty(''skills'' \<mapsto> PDict [(''python'', PInt 5)]))
          nested_firebase) = Inr True
   \<and> map_of (collections (snd (save_student_data ''a@x.org''
                (Map.empty(''skills'' \<mapsto> PDict [(''python'', PInt 5)])) nested_firebase)) ''students'')
        ''a@x.org''
      = Some (Map.empty(''name'' \<mapsto> PStr ''Asha'',
                ''skills'' \<mapsto> PDict [(''python'', PInt 5), (''sql'', PInt 2)]))
   \<and> \<not> (\<forall>w email data w'. save_student_data email data w = (Inr True, w') \<longrightarrow>
           (\<exists>doc. map_of (collections w' ''students'') email = Some doc
                \<and> (\<forall>k\<in>dom data. doc k = data k)))"
proof (intro conjI)
  let ?data = "Map.empty(''skills'' \<mapsto> PDict [(''python'', PInt 5)])"
  show "fst (save_student_data ''a@x.org'' ?data nested_firebase) = Inr True"
    by (simp add: save_student_data_nested_run)
  show stored: "map_of (collections (snd (save_student_data ''a@x.org'' ?data nested_firebase)) ''students'')
        ''a@x.org''
      = Some (Map.empty(''name'' \<mapsto> PStr ''Asha'',
                ''skills'' \<mapsto> PDict [(''python'', PInt 5), (''sql'', PInt 2)]))"
    by (simp add: save_student_data_nested_run)
  show "\<not> (\<forall>w email data w'. save_student_data email data w = (Inr True, w') \<longrightarrow>
           (\<exists>doc. map_of (collections w' ''students'') email = Some doc
                \<and> (\<forall>k\<in>dom data. doc k = data k)))"
  proof
    assume all: "\<forall>w email data w'. save_student_data email data w = (Inr True, w') \<longrightarrow>
           (\<exists>doc. map_of (collections w' ''students'') email = Some doc
                \<and> (\<forall>k\<in>dom data. doc k = data k))"
    obtain w' where run: "save_student_data ''a@x.org'' ?data nested_firebase = (Inr True, w')"
      using save_student_data_nested_run by blast
    from all [rule_format, OF run] obtain doc where
      d: "map_of (collections w' ''students'') ''a@x.org'' = Some doc"
      and n: "\<forall>k\<in>dom ?data. doc k = ?data k" by blast
    from n have "doc ''skills'' = Some (PDict [(''python'', PInt 5)])" by simp
    moreover from stored run d have
      "doc = Map.empty(''name'' \<mapsto> PStr ''Asha'',
                ''skills'' \<mapsto> PDict [(''python'', PInt 5), (''sql'', PInt 2)])" by simp
    ultimately show False by simp
  qed
qed

text \<open>
  On the database with the student \<open>a@x.org\<close> (name Asha, skills
  \<open>{python: 3, sql: 2}\<close>): updating the CGPA and the skills \<open>{python: 5, java: 1}\<close>
  keeps the name, stores the CGPA, and leaves the skills with python 5, sql 2 and
  java 1; saving a profile for \<open>b@x.org\<close>, who has no document, creates exactly that
  profile and leaves \<open>a@x.org\<close> alone.
\<close>

theorem save_student_data_merge_witness:
  "\<exists>w' doc fs w'' doc'.
      save_student_data ''a@x.org''
        (Map.empty(''cgpa'' \<mapsto> PFloat 9,
           ''skills'' \<mapsto> PDict [(''python'', PInt 5), (''java'', PInt 1)]))
        nested_firebase = (Inr True, w')
    \<and> map_of (collections w' ''students'') ''a@x.org'' = Some doc
    \<and> doc ''name'' = Some (PStr ''Asha'') \<and> doc ''cgpa'' = Some (PFloat 9)
    \<and> doc ''skills'' = Some (PDict fs)
    \<and> map_of fs ''python'' = Some (PInt 5) \<and> map_of fs ''sql'' = Some (PInt 2)
    \<and> map_of fs ''java'' = Some (PInt 1)
    \<and> save_student_data ''b@x.org'' (Map.empty(''cgpa'' \<mapsto> PFloat 7)) nested_firebase = (Inr True, w'')
    \<and> map_of (collections w'' ''students'') ''b@x.org'' = Some doc'
    \<and> doc' = Map.empty(''cgpa'' \<mapsto> PFloat 7)
    \<and> map_of (collections w'' ''students'') ''a@x.org''
        = map_of (collections nested_firebase ''students'') ''a@x.org''"
proof -
  define skills where "skills = [(''python'', PInt 5), (''java'', PInt 1)]"
  define data_a where "data_a = Map.empty(''cgpa'' \<mapsto> PFloat 9, ''skills'' \<mapsto> PDict skills)"
  define data_b where "data_b = Map.empty(''cgpa'' \<mapsto> PFloat 7)"
  define old_a where "old_a = Map.empty(''name'' \<mapsto> PStr ''Asha'',
                ''skills'' \<mapsto> PDict [(''python'', PInt 3), (''sql'', PInt 2)])"
  have up: "\<not> client_down nested_firebase \<and> \<not> next_call_fails nested_firebase"
    by (simp add: client_down_def next_call_fails_def nested_firebase_def)
  have olda: "map_of (collections nested_firebase ''students'') ''a@x.org'' = Some old_a"
    and oldb: "map_of (collections nested_firebase ''students'') ''b@x.org'' = None"
    by (simp_all add: nested_firebase_def old_a_def)
  note A = save_student_data_merge [of nested_firebase "''a@x.org''" data_a]
  note B = save_student_data_merge [of nested_firebase "''b@x.org''" data_b]
  from conjunct1 [OF A] up have "fst (save_student_data ''a@x.org'' data_a nested_firebase) = Inr True"
    by (rule mp)
  then obtain w' where ra: "save_student_data ''a@x.org'' data_a nested_firebase = (Inr True, w')"
    by (cases "save_student_data ''a@x.org'' data_a nested_firebase") simp
  from conjunct1 [OF B] up have "fst (save_student_data ''b@x.org'' data_b nested_firebase) = Inr True"
    by (rule mp)
  then obtain w'' where rb: "save_student_data ''b@x.org'' data_b nested_firebase = (Inr True, w'')"
    by (cases "save_student_data ''b@x.org'' data_b nested_firebase") simp
  note A' = mp [OF spec [OF conjunct2 [OF A]] ra]
  note B' = mp [OF spec [OF conjunct2 [OF B]] rb]
  from conjunct1 [OF A'] obtain doc where
    doc: "map_of (collections w' ''students'') ''a@x.org'' = Some doc"
    and st: "\<forall>old. map_of (collections nested_firebase ''students'') ''a@x.org'' = Some old \<longrightarrow>
                  (\<forall>k. data_a k = None \<longrightarrow> doc k = old k)
                \<and> (\<forall>k v. data_a k = Some v \<longrightarrow>
                      \<not> (\<exists>okvs kv kvs. old k = Some (PDict okvs) \<and> v = PDict (kv # kvs)) \<longrightarrow>
                      doc k = Some v)
                \<and> (\<forall>k okvs kv kvs.
                      old k = Some (PDict okvs) \<longrightarrow> data_a k = Some (PDict (kv # kvs)) \<longrightarrow>
                      (\<exists>fs. doc k = Some (PDict fs)
                         \<and> (\<forall>j. j \<notin> fst ` set (kv # kvs) \<longrightarrow> map_of fs j = map_of okvs j)
                         \<and> (distinct (map fst (kv # kvs)) \<longrightarrow>
                               (\<forall>j u. map_of (kv # kvs) j = Some u \<longrightarrow>
                                  \<not> (\<exists>okvs' kv' kvs'. map_of okvs j = Some (PDict okvs')
                                                    \<and> u = PDict (kv' # kvs')) \<longrightarrow>
                                  map_of fs j = Some u)
                             \<and> (\<forall>j u stored. map_of (kv # kvs) j = Some u \<longrightarrow>
                                  map_of okvs j = Some stored \<longrightarrow>
                                  map_of fs j = Some (merge_value stored u)))))"
    by (elim exE conjE)
  note S = mp [OF spec [OF st] olda]
  have "data_a ''name'' = None" by (simp add: data_a_def)
  with conjunct1 [OF S] have d_name: "doc ''name'' = Some (PStr ''Asha'')"
    by (simp add: old_a_def)
  have "data_a ''cgpa'' = Some (PFloat 9)"
    "\<not> (\<exists>okvs kv kvs. old_a ''cgpa'' = Some (PDict okvs) \<and> PFloat 9 = PDict (kv # kvs))"
    by (simp_all add: data_a_def)
  with conjunct1 [OF conjunct2 [OF S]] have d_cgpa: "doc ''cgpa'' = Some (PFloat 9)"
    by blast
  have o: "old_a ''skills'' = Some (PDict [(''python'', PInt 3), (''sql'', PInt 2)])"
    and d: "data_a ''skills'' = Some (PDict ((''python'', PInt 5) # [(''java'', PInt 1)]))"
    by (simp_all add: old_a_def data_a_def skills_def)
  from mp [OF mp [OF spec [OF spec [OF spec [OF spec [OF conjunct2 [OF conjunct2 [OF S]]]]]] o] d]
  obtain fs where d_skills: "doc ''skills'' = Some (PDict fs)"
    and fr: "\<forall>j. j \<notin> fst ` set ((''python'', PInt 5) # [(''java'', PInt 1)]) \<longrightarrow>
                map_of fs j = map_of [(''python'', PInt 3), (''sql'', PInt 2)] j"
    and nm: "distinct (map fst ((''python'', PInt 5) # [(''java'', PInt 1)])) \<longrightarrow>
               (\<forall>j u. map_of ((''python'', PInt 5) # [(''java'', PInt 1)]) j = Some u \<longrightarrow>
                  \<not> (\<exists>okvs' kv' kvs'. map_of [(''python'', PInt 3), (''sql'', PInt 2)] j = Some (PDict okvs')
                                    \<and> u = PDict (kv' # kvs')) \<longrightarrow>
                  map_of fs j = Some u)
             \<and> (\<forall>j u stored. map_of ((''python'', PInt 5) # [(''java'', PInt 1)]) j = Some u \<longrightarrow>
                  map_of [(''python'', PInt 3), (''sql'', PInt 2)] j = Some stored \<longrightarrow>
                  map_of fs j = Some (merge_value stored u))"
    by (elim exE conjE)
  from fr have f_sql: "map_of fs ''sql'' = Some (PInt 2)" by simp
  have dist: "distinct (map fst ((''python'', PInt 5) # [(''java'', PInt 1)]))" by simp
  note N = conjunct1 [OF mp [OF nm dist]]
  from N [rule_format, of "''python''" "PInt 5"] have f_py: "map_of fs ''python'' = Some (PInt 5)"
    by simp
  from N [rule_format, of "''java''" "PInt 1"] have f_java: "map_of fs ''java'' = Some (PInt 1)"
    by simp
  from conjunct1 [OF B'] obtain doc' where
    doc': "map_of (collections w'' ''students'') ''b@x.org'' = Some doc'"
    and fresh: "map_of (collections nested_firebase ''students'') ''b@x.org'' = None \<longrightarrow> doc' = data_b"
    by (elim exE conjE)
  from fresh oldb have e': "doc' = data_b" by simp
  from conjunct1 [OF conjunct2 [OF B']]
  have other: "map_of (collections w'' ''students'') ''a@x.org''
        = map_of (collections nested_firebase ''students'') ''a@x.org''" by simp
  show ?thesis
    apply (rule exI [of _ w'], rule exI [of _ doc], rule exI [of _ fs])
    apply (rule exI [of _ w''], rule exI [of _ doc'])
    using ra rb doc d_name d_cgpa d_skills f_py f_sql f_java doc' e' other
    unfolding data_a_def data_b_def skills_def
    apply (intro conjI)
               apply assumption+
    done
qed

section \<open>The generative-text helper\<close>

lemma attempt_total:
  assumes "\<And>e s. \<exists>x s'. handler e s = (Inr x, s')"
  shows "\<exists>x s'. attempt body handler s = (Inr x, s')"
proof (cases "body s")
  case (Pair r s1)
  then show ?thesis using assms [of _ s1] by (cases r) (auto simp: attempt_def)
qed

lemma safe_generate_content_total:
  "\<exists>r s'. safe_generate_content api m p n s = (Inr r, s')"
proof (induction n arbitrary: s)
  case 0
  then show ?case by simp
next
  case (Suc n)
  obtain r s1 where rq: "request (\<lambda>k. generate_content api k m p) s = (r, s1)"
    by (cases "request (\<lambda>k. generate_content api k m p) s")
  from Suc [of s1] rq show ?case by (cases r) auto
qed

lemma get_best_model_total: "\<exists>r s'. get_best_model api s = (Inr r, s')"
proof -
  have sel: "\<exists>r s'. attempt body (\<lambda>e. returns None) t = (Inr r, s')" for body :: "(string option, ai_module) prog" and t
    by (rule attempt_returns_total)
  obtain r s1 where rq: "request (list_models api) s = (r, s1)"
    by (cases "request (list_models api) s")
  show ?thesis
    unfolding get_best_model_def Let_def
    using sel rq by (cases r) (auto split: if_splits)
qed

lemma setup_gemini_total: "\<exists>r s'. setup_gemini api s = (Inr r, s')"
  unfolding setup_gemini_def by (rule attempt_total) blast

lemma get_gemini_status_total: "\<exists>r s'. get_gemini_status api s = (Inr r, s')"
proof (cases "gemini_configured s")
  case False
  then show ?thesis using setup_gemini_total [of api s] by (simp add: get_gemini_status_def)
next
  case True
  have "\<exists>r s'. attempt body
          (\<lambda>e s. (Inr False, s\<lparr>gemini_configured := False, current_model := None\<rparr>)) s = (Inr r, s')"
    for body :: "(bool, ai_module) prog"
    by (rule attempt_total) blast
  with True show ?thesis by (simp add: get_gemini_status_def)
qed

lemma fallback_feedback_zero:
  "get_fallback_feedback subject score 0 incorrect = Inl ZeroDivisionError"
  by (simp add: get_fallback_feedback_def true_div_def)

lemma seq_after:
  "p s = (Inr x, s1) \<Longrightarrow> seq p f s = f x s1"
  by (simp add: seq_def)

text \<open>
  C4. \<open>generate_feedback\<close> with \<open>total = 0\<close> raises \<open>ZeroDivisionError\<close>, in every
  state of the module and whatever the API does: the fallback text divides by
  \<open>total\<close>, inside the \<open>try\<close> block and again in the handler, and so does the
  prompt. (The lemmas after this one show the rest of the claim: the other three
  generators always return, \<open>generate_feedback\<close> returns when \<open>total\<close> is not 0,
  and all four return their fallback when the API is unavailable.)
\<close>

theorem generate_feedback_zero_total:
  "fst (generate_feedback api subject score 0 incorrect s) = Inl ZeroDivisionError"
proof -
  let ?fb = "Pair (get_fallback_feedback subject score 0 incorrect) :: (message, ai_module) prog"
  obtain status s1 where st: "get_gemini_status api s = (Inr status, s1)"
    using get_gemini_status_total by blast
  obtain model s2 where bm: "get_best_model api s1 = (Inr model, s2)"
    using get_best_model_total by blast
  have body: "\<exists>e t. seq (get_gemini_status api) (\<lambda>status.
          if \<not> status then ?fb
          else
            seq (get_best_model api) (\<lambda>model.
              (case model of
                 None \<Rightarrow> ?fb
               | Some m \<Rightarrow>
                   seq (Pair (true_div score 0)) (\<lambda>ratio.
                   seq (safe_generate_content api m
                          (FeedbackPrompt subject score 0 (ratio * 100) incorrect) 3)
                     (\<lambda>response_text.
                       (case response_text of
                          None \<Rightarrow> ?fb
                        | Some text \<Rightarrow> if text = [] then ?fb else returns (Generated text))))))) s
        = (Inl e, t)"
    unfolding seq_after [of "get_gemini_status api" s status s1, OF st]
    by (cases status; cases model)
       (simp_all add: seq_after [of "get_best_model api" s1 model s2, OF bm]
          fallback_feedback_zero true_div_def)
  then obtain e t where "seq (get_gemini_status api) (\<lambda>status.
          if \<not> status then ?fb
          else
            seq (get_best_model api) (\<lambda>model.
              (case model of
                 None \<Rightarrow> ?fb
               | Some m \<Rightarrow>
                   seq (Pair (true_div score 0)) (\<lambda>ratio.
                   seq (safe_generate_content api m
                          (FeedbackPrompt subject score 0 (ratio * 100) incorrect) 3)
                     (\<lambda>response_text.
                       (case response_text of
                          None \<Rightarrow> ?fb
                        | Some text \<Rightarrow> if text = [] then ?fb else returns (Generated text))))))) s
        = (Inl e, t)" by blast
  then show ?thesis
    unfolding generate_feedback_def attempt_def
    by (simp add: fallback_feedback_zero)
qed

lemma generators_return:
  "\<exists>qs s'. generate_quiz_for_subject api parse_questions subject n s = (Inr qs, s')"
  "\<exists>m s'. generate_study_plan api subject level days hours s = (Inr m, s')"
  "\<exists>m s'. predict_career api subject skills interests s = (Inr m, s')"
  unfolding generate_quiz_for_subject_def generate_study_plan_def predict_career_def
  by (rule attempt_returns_total)+

lemma generate_custom_content_returns:
  "\<exists>m s'. generate_custom_content api p ctx s = (Inr m, s')"
  unfolding generate_custom_content_def
  by (rule attempt_total) (simp add: returns_def)

lemma fallback_feedback_nonzero:
  "total_count \<noteq> 0 \<Longrightarrow>
     get_fallback_feedback subject score total_count incorrect =
       Inr (if 80 \<le> of_int score / of_int total_count * (100 :: rat)
            then FallbackOutstanding subject score total_count (of_int score / of_int total_count * 100)
            else if 60 \<le> of_int score / of_int total_count * (100 :: rat)
            then FallbackSolid subject score total_count (of_int score / of_int total_count * 100)
            else FallbackLearning subject score total_count (of_int score / of_int total_count * 100))"
  by (simp add: get_fallback_feedback_def true_div_def Let_def)

lemma generate_feedback_returns:
  assumes "total_count \<noteq> 0"
  shows "\<exists>m s'. generate_feedback api subject score total_count incorrect s = (Inr m, s')"
  unfolding generate_feedback_def
  by (rule attempt_total) (simp add: fallback_feedback_nonzero [OF assms])

lemma unavailable_fallbacks:
  assumes "fst (get_gemini_status api s) = Inr False"
  shows "fst (generate_quiz_for_subject api parse_questions subject n s)
           = Inr (py_take n get_fallback_questions)"
    and "fst (generate_study_plan api subject level days hours s) = Inr StudyPlanUnavailable"
    and "fst (predict_career api subject skills interests s) = Inr CareerUnavailable"
    and "total_count \<noteq> 0 \<Longrightarrow>
           fst (generate_feedback api subject score total_count incorrect s)
             = get_fallback_feedback subject score total_count incorrect"
proof -
  obtain s1 where st: "get_gemini_status api s = (Inr False, s1)"
    using assms by (cases "get_gemini_status api s") auto
  note sa = seq_after [of "get_gemini_status api" s False s1, OF st]
  show "fst (generate_quiz_for_subject api parse_questions subject n s)
           = Inr (py_take n get_fallback_questions)"
    unfolding generate_quiz_for_subject_def attempt_def sa by (simp add: returns_def)
  show "fst (generate_study_plan api subject level days hours s) = Inr StudyPlanUnavailable"
    unfolding generate_study_plan_def attempt_def sa by (simp add: returns_def)
  show "fst (predict_career api subject skills interests s) = Inr CareerUnavailable"
    unfolding predict_career_def attempt_def sa by (simp add: returns_def)
  show "fst (generate_feedback api subject score total_count incorrect s)
             = get_fallback_feedback subject score total_count incorrect"
    if "total_count \<noteq> 0"
    unfolding generate_feedback_def attempt_def sa
    by (simp add: fallback_feedback_nonzero [OF that])
qed

lemma dead_api_unavailable: "fst (get_gemini_status dead_api fresh_module) = Inr False"
  by (simp add: get_gemini_status_def fresh_module_def setup_gemini_def attempt_def seq_def
        request_def dead_api_def)

end
